theory Spec2Isabelle
  imports Complex_Main "HOL-Library.Word" "HOL-Library.Log_Nat" "HOL-Library.Sublist"
begin

unbundle bit_operations_syntax

section \<open>Machine words and the bit-field macros of cpuid.c\<close>

text \<open>
  \<^verbatim>\<open>unsigned int\<close> is a 32-bit word, \<^verbatim>\<open>unsigned long\<close> (on x86-64, not ILP32) a 64-bit
  word, \<^verbatim>\<open>unsigned char\<close> an 8-bit word.
\<close>

type_synonym u8 = "8 word"
type_synonym u16 = "16 word"
type_synonym u32 = "32 word"

text \<open>
  \<^verbatim>\<open>#define BPI 32\<close>,
  \<^verbatim>\<open>#define RIGHTMASK(width) (((width) >= BPI) ? ~0 : POWER2(width)-1)\<close>,
  \<^verbatim>\<open>#define BIT_EXTRACT_LE(value, start, after) (((value) & RIGHTMASK(after)) >> start)\<close>.
\<close>

definition BPI :: nat where
  "BPI = 32"

definition POWER2 :: "nat \<Rightarrow> u32" where
  "POWER2 p = push_bit p 1"

definition RIGHTMASK :: "nat \<Rightarrow> u32" where
  "RIGHTMASK width = (if width \<ge> BPI then NOT 0 else POWER2 width - 1)"

definition BIT_EXTRACT_LE :: "u32 \<Rightarrow> nat \<Rightarrow> nat \<Rightarrow> u32" where
  "BIT_EXTRACT_LE val start after = drop_bit start (val AND RIGHTMASK after)"

section \<open>bits\_needed: the BSR-based width computation\<close>

text \<open>
  The x86 instruction \<^verbatim>\<open>bsr %ax,%cx\<close> on a non-zero 16-bit source writes the index of
  its highest set bit into the destination and clears ZF; on a zero source it sets ZF.
  \<open>highest_bit n w\<close> scans bit \<open>n\<close> down to bit 0.
\<close>

fun highest_bit :: "nat \<Rightarrow> u16 \<Rightarrow> nat" where
  "highest_bit 0 w = 0"
| "highest_bit (Suc n) w = (if bit w (Suc n) then Suc n else highest_bit n w)"

definition bsr16 :: "u16 \<Rightarrow> nat" where
  "bsr16 w = highest_bit 15 w"


text \<open>
  The 32-bit variant (the \<^verbatim>\<open>#else\<close> branch), where \<^verbatim>\<open>unsigned long\<close> has 32 bits:
  \<^verbatim>\<open>movl v,%eax; movl $0,%ecx; movl $0,result; decl %eax; bsr %ax,%cx; jz 1f;
     incl %ecx; movl %ecx,result; 1:\<close>.
\<close>

definition bits_needed32 :: "u32 \<Rightarrow> u32" where
  "bits_needed32 v =
     (let eax = v;
          ecx = (0 :: u32);
          result = (0 :: u32);
          eax = eax - 1;
          ax = (ucast eax :: u16)
      in if ax = 0 then result
         else
           let ecx = (ecx AND NOT 0xFFFF) OR of_nat (bsr16 ax);
               ecx = ecx + 1;
               result = ecx
           in result)"

section \<open>The code stash\<close>

text \<open>The enumerations \<^verbatim>\<open>vendor_t\<close> and \<^verbatim>\<open>hypervisor_t\<close>.\<close>

datatype vendor_t =
    VENDOR_UNKNOWN
  | VENDOR_INTEL
  | VENDOR_AMD
  | VENDOR_CYRIX
  | VENDOR_VIA
  | VENDOR_TRANSMETA
  | VENDOR_UMC
  | VENDOR_NEXGEN
  | VENDOR_RISE
  | VENDOR_SIS
  | VENDOR_NSC
  | VENDOR_VORTEX
  | VENDOR_RDC
  | VENDOR_HYGON
  | VENDOR_ZHAOXIN

datatype hypervisor_t =
    HYPERVISOR_UNKNOWN
  | HYPERVISOR_VMWARE
  | HYPERVISOR_XEN
  | HYPERVISOR_KVM
  | HYPERVISOR_MICROSOFT

text \<open>
  \<^verbatim>\<open>struct mp\<close>: the method is a \<^verbatim>\<open>const char*\<close> that may be \<^verbatim>\<open>NULL\<close>; the two counts
  are \<^verbatim>\<open>unsigned int\<close>, initialised to \<^verbatim>\<open>-1\<close> by \<^verbatim>\<open>NIL_STASH\<close>.
\<close>

record mp_t =
  mp_method :: "string option"
  mp_cores :: u32
  mp_hyperthreads :: u32

text \<open>
  \<^verbatim>\<open>struct br\<close>: the flags parsed from the brand string. The anonymous Intel, AMD and
  Cyrix structs are flattened, as C does; \<^verbatim>\<open>cores\<close> is an \<^verbatim>\<open>int\<close>.
\<close>

record br_t =
  mobile :: bool
  celeron :: bool
  core :: bool
  pentium :: bool
  br_xeon_mp :: bool
  br_xeon :: bool
  pentium_m :: bool
  pentium_d :: bool
  extreme :: bool
  generic :: bool
  scalable :: bool
  u_line :: bool
  y_line :: bool
  i_10000 :: bool
  athlon_lv :: bool
  athlon_xp :: bool
  duron :: bool
  athlon :: bool
  sempron :: bool
  phenom :: bool
  series :: bool
  a_series :: bool
  c_series :: bool
  e_series :: bool
  g_series :: bool
  r_series :: bool
  z_series :: bool
  geode :: bool
  turion :: bool
  neo :: bool
  athlon_fx :: bool
  athlon_mp :: bool
  duron_mp :: bool
  opteron :: bool
  fx :: bool
  firepro :: bool
  ultra :: bool
  t_suffix :: bool
  ryzen :: bool
  epyc :: bool
  embedded :: bool
  br_cores :: int
  mediagx :: bool

text \<open>\<^verbatim>\<open>struct bri\<close>: the flags decoded from the brand id of leaf 1.\<close>

record bri_t =
  desktop_pentium :: bool
  desktop_celeron :: bool
  mobile_pentium :: bool
  mobile_pentium_m :: bool
  mobile_celeron :: bool
  bri_xeon_mp :: bool
  bri_xeon :: bool

text \<open>
  \<^verbatim>\<open>code_stash_t\<close>. The fixed-size arrays \<^verbatim>\<open>val_b_eax[2]\<close>, \<^verbatim>\<open>val_b_ebx[2]\<close>,
  \<^verbatim>\<open>val_1f_eax[6]\<close>, \<^verbatim>\<open>val_1f_ebx[6]\<close> and \<^verbatim>\<open>val_1f_ecx[6]\<close> are functions from the index;
  the code reads and writes them only below their length. The character arrays are
  strings (the bytes before the terminating NUL).
\<close>

record code_stash_t =
  vendor :: vendor_t
  saw_4 :: bool
  saw_b :: bool
  saw_1f :: bool
  val_0_eax :: u32
  val_1_eax :: u32
  val_1_ebx :: u32
  val_1_ecx :: u32
  val_1_edx :: u32
  val_4_eax :: u32
  val_b_eax :: "nat \<Rightarrow> u32"
  val_b_ebx :: "nat \<Rightarrow> u32"
  val_1f_eax :: "nat \<Rightarrow> u32"
  val_1f_ebx :: "nat \<Rightarrow> u32"
  val_1f_ecx :: "nat \<Rightarrow> u32"
  val_80000001_eax :: u32
  val_80000001_ebx :: u32
  val_80000001_ecx :: u32
  val_80000001_edx :: u32
  val_80000008_ecx :: u32
  val_8000001e_ebx :: u32
  transmeta_proc_rev :: u32
  brand :: string
  transmeta_info :: string
  override_brand :: string
  soc_brand :: string
  hypervisor :: hypervisor_t
  mp :: mp_t
  br :: br_t
  bri :: bri_t
  L2_4w_1Mor2M :: bool
  L2_4w_512K :: bool
  L2_4w_256K :: bool
  L2_8w_1Mor2M :: bool
  L2_8w_512K :: bool
  L2_8w_256K :: bool
  L2_2M :: bool
  L2_6M :: bool
  L3 :: bool
  L2_256K :: bool
  L2_512K :: bool

text \<open>\<^verbatim>\<open>NIL_STASH\<close>, the initial value of every stash.\<close>

definition NIL_MP :: mp_t where
  "NIL_MP = \<lparr> mp_method = None, mp_cores = - 1, mp_hyperthreads = - 1 \<rparr>"

definition NIL_BR :: br_t where
  "NIL_BR = \<lparr> mobile = False, celeron = False, core = False, pentium = False,
     br_xeon_mp = False, br_xeon = False, pentium_m = False, pentium_d = False,
     extreme = False, generic = False, scalable = False, u_line = False, y_line = False,
     i_10000 = False, athlon_lv = False, athlon_xp = False, duron = False, athlon = False,
     sempron = False, phenom = False, series = False, a_series = False, c_series = False,
     e_series = False, g_series = False, r_series = False, z_series = False,
     geode = False, turion = False, neo = False, athlon_fx = False, athlon_mp = False,
     duron_mp = False, opteron = False, fx = False, firepro = False, ultra = False,
     t_suffix = False, ryzen = False, epyc = False, embedded = False, br_cores = 0,
     mediagx = False \<rparr>"

definition NIL_BRI :: bri_t where
  "NIL_BRI = \<lparr> desktop_pentium = False, desktop_celeron = False, mobile_pentium = False,
     mobile_pentium_m = False, mobile_celeron = False, bri_xeon_mp = False,
     bri_xeon = False \<rparr>"

definition NIL_STASH :: code_stash_t where
  "NIL_STASH = \<lparr> vendor = VENDOR_UNKNOWN,
     saw_4 = False, saw_b = False, saw_1f = False,
     val_0_eax = 0, val_1_eax = 0, val_1_ebx = 0, val_1_ecx = 0, val_1_edx = 0,
     val_4_eax = 0,
     val_b_eax = (\<lambda>_. 0), val_b_ebx = (\<lambda>_. 0),
     val_1f_eax = (\<lambda>_. 0), val_1f_ebx = (\<lambda>_. 0), val_1f_ecx = (\<lambda>_. 0),
     val_80000001_eax = 0, val_80000001_ebx = 0, val_80000001_ecx = 0,
     val_80000001_edx = 0, val_80000008_ecx = 0, val_8000001e_ebx = 0,
     transmeta_proc_rev = 0,
     brand = [], transmeta_info = [], override_brand = [], soc_brand = [],
     hypervisor = HYPERVISOR_UNKNOWN,
     mp = NIL_MP, br = NIL_BR, bri = NIL_BRI,
     L2_4w_1Mor2M = False, L2_4w_512K = False, L2_4w_256K = False,
     L2_8w_1Mor2M = False, L2_8w_512K = False, L2_8w_256K = False,
     L2_2M = False, L2_6M = False, L3 = False,
     L2_256K = False, L2_512K = False \<rparr>"

section \<open>Cache observations folded into the stash\<close>

text \<open>
  \<^verbatim>\<open>stash_intel_cache\<close>: six \<^verbatim>\<open>switch\<close> statements over one leaf-2 descriptor byte, run
  one after the other. A value with no \<^verbatim>\<open>case\<close> label leaves the stash as it is.
\<close>

definition stash_intel_cache :: "code_stash_t \<Rightarrow> u8 \<Rightarrow> code_stash_t" where
  "stash_intel_cache stash v =
     (let stash =
            (if v = 0x42 then stash\<lparr>L2_4w_256K := True\<rparr>
             else if v = 0x43 then stash\<lparr>L2_4w_512K := True\<rparr>
             else if v = 0x44 then stash\<lparr>L2_4w_1Mor2M := True\<rparr>
             else if v = 0x45 then stash\<lparr>L2_4w_1Mor2M := True\<rparr>
             else if v = 0x80 then stash\<lparr>L2_8w_512K := True\<rparr>
             else if v = 0x82 then stash\<lparr>L2_8w_256K := True\<rparr>
             else if v = 0x83 then stash\<lparr>L2_8w_512K := True\<rparr>
             else if v = 0x84 then stash\<lparr>L2_8w_1Mor2M := True\<rparr>
             else if v = 0x85 then stash\<lparr>L2_8w_1Mor2M := True\<rparr>
             else stash);
          stash =
            (if v = 0x45 \<or> v = 0x7d \<or> v = 0x85 then stash\<lparr>L2_2M := True\<rparr> else stash);
          stash =
            (if v = 0x4e then stash\<lparr>L2_6M := True\<rparr> else stash);
          stash =
            (if v = 0x22 \<or> v = 0x23 \<or> v = 0x25 \<or> v = 0x29 \<or> v = 0x46 \<or> v = 0x47
                \<or> v = 0x49 \<or> v = 0x4a \<or> v = 0x4b \<or> v = 0x4c \<or> v = 0x4d \<or> v = 0x88
                \<or> v = 0x89 \<or> v = 0x8a \<or> v = 0x8d \<or> v = 0xd0 \<or> v = 0xd1 \<or> v = 0xd2
                \<or> v = 0xd6 \<or> v = 0xd7 \<or> v = 0xd8 \<or> v = 0xdc \<or> v = 0xdd \<or> v = 0xde
                \<or> v = 0xe2 \<or> v = 0xe3 \<or> v = 0xe4 \<or> v = 0xea \<or> v = 0xeb \<or> v = 0xec
             then stash\<lparr>L3 := True\<rparr> else stash);
          stash =
            (if v = 0x21 \<or> v = 0x3c \<or> v = 0x42 \<or> v = 0x7a \<or> v = 0x7e \<or> v = 0x82
             then stash\<lparr>L2_256K := True\<rparr> else stash);
          stash =
            (if v = 0x3e \<or> v = 0x43 \<or> v = 0x7b \<or> v = 0x7f \<or> v = 0x83 \<or> v = 0x86
             then stash\<lparr>L2_512K := True\<rparr> else stash)
      in stash)"

text \<open>
  \<^verbatim>\<open>print_80000006_ecx\<close>, its effect on the stash (the rest of it prints):
  \<^verbatim>\<open>if (((value >> 12) & 0xf) == 4 && (value >> 16) == 256) stash->L2_4w_256K = TRUE;
     else if (((value >> 12) & 0xf) == 4 && (value >> 16) == 512) stash->L2_4w_512K = TRUE;\<close>
\<close>

definition print_80000006_ecx :: "u32 \<Rightarrow> code_stash_t \<Rightarrow> code_stash_t" where
  "print_80000006_ecx val stash =
     (if drop_bit 12 val AND 0xf = 4 \<and> drop_bit 16 val = 256
        then stash\<lparr>L2_4w_256K := True\<rparr>
      else if drop_bit 12 val AND 0xf = 4 \<and> drop_bit 16 val = 512
        then stash\<lparr>L2_4w_512K := True\<rparr>
      else stash)"

text \<open>
  The four registers of one CPUID result, \<^verbatim>\<open>const unsigned int words[WORD_NUM]\<close>, indexed
  by \<^verbatim>\<open>WORD_EAX\<close> .. \<^verbatim>\<open>WORD_EDX\<close>.
\<close>

type_synonym words_t = "nat \<Rightarrow> u32"

definition WORD_EAX :: nat where "WORD_EAX = 0"
definition WORD_EBX :: nat where "WORD_EBX = 1"
definition WORD_ECX :: nat where "WORD_ECX = 2"
definition WORD_EDX :: nat where "WORD_EDX = 3"

text \<open>
  Byte \<open>b\<close> of a register as \<^verbatim>\<open>(const unsigned char*)&words[word]\<close> reads it on x86
  (little-endian).
\<close>

definition byte_of :: "u32 \<Rightarrow> nat \<Rightarrow> u8" where
  "byte_of w b = ucast (drop_bit (8 * b) w)"

text \<open>
  The leaf-2 branch of \<^verbatim>\<open>print_reg\<close>: every register whose top bit is clear is walked
  byte by byte, skipping byte 0 of EAX on the first subleaf, and each byte goes to
  \<^verbatim>\<open>stash_intel_cache\<close>.
\<close>

definition leaf2_bytes :: "words_t \<Rightarrow> u32 \<Rightarrow> nat \<Rightarrow> u8 list" where
  "leaf2_bytes words try word =
     (if words word AND 0x80000000 = 0
      then map (byte_of (words word))
             [(if try = 0 \<and> word = WORD_EAX then 1 else 0) ..< 4]
      else [])"

definition print_reg_2 :: "words_t \<Rightarrow> u32 \<Rightarrow> code_stash_t \<Rightarrow> code_stash_t" where
  "print_reg_2 words try stash =
     foldl stash_intel_cache stash (concat (map (leaf2_bytes words try) [0 ..< 4]))"

text \<open>
  \<^verbatim>\<open>print_reg\<close>, restricted to the cache leaves 2, 4, 0x8000001d and 0x80000006 and to
  what it stores in the stash. Leaf 4 records \<^verbatim>\<open>saw_4\<close> and, on subleaf 0, its EAX (in
  raw mode too); leaf 2 and leaf 0x80000006 are decoded only when \<^verbatim>\<open>raw\<close> is false;
  leaf 0x8000001d stores nothing. Other leaves are outside this function: \<open>None\<close>.
\<close>

definition print_reg :: "u32 \<Rightarrow> words_t \<Rightarrow> bool \<Rightarrow> u32 \<Rightarrow> code_stash_t \<Rightarrow> code_stash_t option" where
  "print_reg reg words raw try stash =
     (if reg = 4 then
        Some (let stash = stash\<lparr>saw_4 := True\<rparr>
              in if try = 0 then stash\<lparr>val_4_eax := words WORD_EAX\<rparr> else stash)
      else if reg = 2 then
        Some (if raw then stash else print_reg_2 words try stash)
      else if reg = 0x80000006 then
        Some (if raw then stash else print_80000006_ecx (words WORD_ECX) stash)
      else if reg = 0x8000001d then
        Some stash
      else None)"

text \<open>One observation is a leaf, a subleaf (\<^verbatim>\<open>try\<close>) and the four registers.\<close>

record observation =
  obs_reg :: u32
  obs_try :: u32
  obs_words :: words_t

text \<open>A decode pass over a sequence of observations; it stops at a leaf outside the model.\<close>

fun cache_pass :: "bool \<Rightarrow> code_stash_t \<Rightarrow> observation list \<Rightarrow> code_stash_t option" where
  "cache_pass raw stash [] = Some stash"
| "cache_pass raw stash (obs # rest) =
     (case print_reg (obs_reg obs) (obs_words obs) raw (obs_try obs) stash of
        None \<Rightarrow> None
      | Some stash' \<Rightarrow> cache_pass raw stash' rest)"

text \<open>The eleven cache-classification flags of the stash, by name.\<close>

datatype cache_flag =
    Flag_L2_4w_1Mor2M | Flag_L2_4w_512K | Flag_L2_4w_256K
  | Flag_L2_8w_1Mor2M | Flag_L2_8w_512K | Flag_L2_8w_256K
  | Flag_L2_2M | Flag_L2_6M | Flag_L3 | Flag_L2_256K | Flag_L2_512K

fun flag_val :: "cache_flag \<Rightarrow> code_stash_t \<Rightarrow> bool" where
  "flag_val Flag_L2_4w_1Mor2M stash = L2_4w_1Mor2M stash"
| "flag_val Flag_L2_4w_512K stash = L2_4w_512K stash"
| "flag_val Flag_L2_4w_256K stash = L2_4w_256K stash"
| "flag_val Flag_L2_8w_1Mor2M stash = L2_8w_1Mor2M stash"
| "flag_val Flag_L2_8w_512K stash = L2_8w_512K stash"
| "flag_val Flag_L2_8w_256K stash = L2_8w_256K stash"
| "flag_val Flag_L2_2M stash = L2_2M stash"
| "flag_val Flag_L2_6M stash = L2_6M stash"
| "flag_val Flag_L3 stash = L3 stash"
| "flag_val Flag_L2_256K stash = L2_256K stash"
| "flag_val Flag_L2_512K stash = L2_512K stash"

text \<open>
  What one observation alone raises: the flags it sets when folded into \<^verbatim>\<open>NIL_STASH\<close>,
  where every flag is clear.
\<close>

definition obs_raises :: "bool \<Rightarrow> observation \<Rightarrow> cache_flag \<Rightarrow> bool" where
  "obs_raises raw obs f =
     (case print_reg (obs_reg obs) (obs_words obs) raw (obs_try obs) NIL_STASH of
        None \<Rightarrow> False
      | Some stash' \<Rightarrow> flag_val f stash')"

section \<open>The multi-processing synthesis\<close>

text \<open>
  Unsigned division in C is undefined for a zero divisor (on x86 the \<^verbatim>\<open>div\<close> instruction
  raises a divide error); the model returns the error as a value.
\<close>

datatype error = DivideByZero

definition udiv :: "u32 \<Rightarrow> u32 \<Rightarrow> error + u32" where
  "udiv a b = (if b = 0 then Inl DivideByZero else Inr (a div b))"

definition GET_ApicIdCoreIdSize :: "u32 \<Rightarrow> u32" where
  "GET_ApicIdCoreIdSize v = BIT_EXTRACT_LE v 0 4"

definition GET_LogicalProcessorCount :: "u32 \<Rightarrow> u32" where
  "GET_LogicalProcessorCount v = BIT_EXTRACT_LE v 16 24"

definition IS_HTT :: "u32 \<Rightarrow> u32" where
  "IS_HTT v = BIT_EXTRACT_LE v 28 29"

definition IS_CmpLegacy :: "u32 \<Rightarrow> u32" where
  "IS_CmpLegacy v = BIT_EXTRACT_LE v 1 2"

definition GET_NC_INTEL :: "u32 \<Rightarrow> u32" where
  "GET_NC_INTEL v = BIT_EXTRACT_LE v 26 32"

definition GET_NC_AMD :: "u32 \<Rightarrow> u32" where
  "GET_NC_AMD v = BIT_EXTRACT_LE v 0 8"

definition GET_X2APIC_PROCESSORS :: "u32 \<Rightarrow> u32" where
  "GET_X2APIC_PROCESSORS v = BIT_EXTRACT_LE v 0 16"

definition GET_V2_TOPO_LEVEL :: "u32 \<Rightarrow> u32" where
  "GET_V2_TOPO_LEVEL v = BIT_EXTRACT_LE v 8 16"

definition GET_V2_TOPO_PROCESSORS :: "u32 \<Rightarrow> u32" where
  "GET_V2_TOPO_PROCESSORS v = BIT_EXTRACT_LE v 0 16"

definition V2_TOPO_SMT :: u32 where "V2_TOPO_SMT = 1"
definition V2_TOPO_CORE :: u32 where "V2_TOPO_CORE = 2"

text \<open>
  The body of the leaf-0x1f loop for one index \<^verbatim>\<open>try\<close>, on \<^verbatim>\<open>stash->mp\<close>; the loop runs
  it for \<^verbatim>\<open>try\<close> from 0 below \<^verbatim>\<open>LENGTH(stash->val_1f_ecx)\<close>, which is 6.
\<close>

definition v2_topo_step :: "code_stash_t \<Rightarrow> mp_t \<Rightarrow> nat \<Rightarrow> mp_t" where
  "v2_topo_step stash m try =
     (if GET_V2_TOPO_LEVEL (val_1f_ecx stash try) = V2_TOPO_SMT
        then m\<lparr>mp_hyperthreads := GET_V2_TOPO_PROCESSORS (val_1f_ebx stash try)\<rparr>
      else if GET_V2_TOPO_LEVEL (val_1f_ecx stash try) = V2_TOPO_CORE
        then m\<lparr>mp_cores := GET_V2_TOPO_PROCESSORS (val_1f_ebx stash try)\<rparr>
      else m)"

definition decode_mp_synth_intel :: "code_stash_t \<Rightarrow> error + code_stash_t" where
  "decode_mp_synth_intel stash =
     (if saw_1f stash then
        Inr (stash\<lparr>mp := foldl (v2_topo_step stash)
                             ((mp stash)\<lparr>mp_method := Some ''Intel leaf 0x1f''\<rparr>) [0 ..< 6]\<rparr>)
      else if saw_b stash then
        (let ht = GET_X2APIC_PROCESSORS (val_b_ebx stash 0);
             tc = GET_X2APIC_PROCESSORS (val_b_ebx stash 1);
             ht = (if ht = 0 then 1 else ht)
         in case udiv tc ht of
              Inl e \<Rightarrow> Inl e
            | Inr c \<Rightarrow> Inr (stash\<lparr>mp := \<lparr> mp_method = Some ''Intel leaf 0xb'',
                                         mp_cores = c, mp_hyperthreads = ht \<rparr>\<rparr>))
      else if saw_4 stash then
        (let tc = GET_LogicalProcessorCount (val_1_ebx stash);
             (c, meth) =
               (if val_4_eax stash AND 0x1f \<noteq> 0
                then (GET_NC_INTEL (val_4_eax stash) + 1, ''Intel leaf 1/4'')
                else (tc div 2, ''Intel leaf 1/4 (zero fallback)''))
         in case udiv tc c of
              Inl e \<Rightarrow> Inl e
            | Inr h \<Rightarrow> Inr (stash\<lparr>mp := \<lparr> mp_method = Some meth,
                                         mp_cores = c, mp_hyperthreads = h \<rparr>\<rparr>))
      else
        Inr (stash\<lparr>mp := \<lparr> mp_method = Some ''Intel leaf 1'', mp_cores = 1,
               mp_hyperthreads =
                 (if IS_HTT (val_1_edx stash) \<noteq> 0
                  then (let tc = GET_LogicalProcessorCount (val_1_ebx stash)
                        in if tc \<ge> 2 then tc else 2)
                  else 1) \<rparr>\<rparr>))"

definition decode_mp_synth_amd :: "code_stash_t \<Rightarrow> error + code_stash_t" where
  "decode_mp_synth_amd stash =
     (let name = (if vendor stash = VENDOR_AMD then ''AMD'' else ''Hygon'')
      in if IS_HTT (val_1_edx stash) \<noteq> 0 then
           (let tc = GET_LogicalProcessorCount (val_1_ebx stash);
                c = (if GET_ApicIdCoreIdSize (val_80000008_ecx stash) \<noteq> 0
                     then (let size = GET_ApicIdCoreIdSize (val_80000008_ecx stash);
                               mask = push_bit (unat size) 1 - 1
                           in (GET_NC_AMD (val_80000008_ecx stash) AND mask) + 1)
                     else GET_NC_AMD (val_80000008_ecx stash) + 1)
            in if (if tc = c then 1 else 0) = IS_CmpLegacy (val_80000001_ecx stash) then
                 (if c > 1 then
                    (case udiv tc c of
                       Inl e \<Rightarrow> Inl e
                     | Inr h \<Rightarrow> Inr (stash\<lparr>mp := \<lparr> mp_method = Some name,
                                                  mp_cores = c, mp_hyperthreads = h \<rparr>\<rparr>))
                  else
                    Inr (stash\<lparr>mp := \<lparr> mp_method = Some name, mp_cores = 1,
                           mp_hyperthreads = (if tc \<ge> 2 then tc else 2) \<rparr>\<rparr>))
               else Inr stash)
         else
           Inr (stash\<lparr>mp := \<lparr> mp_method = Some name, mp_cores = 1, mp_hyperthreads = 1 \<rparr>\<rparr>))"

definition decode_mp_synth :: "code_stash_t \<Rightarrow> error + code_stash_t" where
  "decode_mp_synth stash =
     (case vendor stash of
        VENDOR_INTEL \<Rightarrow> decode_mp_synth_intel stash
      | VENDOR_AMD \<Rightarrow> decode_mp_synth_amd stash
      | VENDOR_HYGON \<Rightarrow> decode_mp_synth_amd stash
      | _ \<Rightarrow>
          (if \<not> (IS_HTT (val_1_edx stash) \<noteq> 0)
           then Inr (stash\<lparr>mp := \<lparr> mp_method = Some ''Generic leaf 1 no multi-threading'',
                                 mp_cores = 1, mp_hyperthreads = 1 \<rparr>\<rparr>)
           else Inr stash))"

section \<open>Brand strings\<close>

text \<open>
  \<^verbatim>\<open>strstr(haystack, needle) != NULL\<close>: the needle occurs in the haystack as a contiguous
  run of characters.
\<close>

definition strstr_found :: "string \<Rightarrow> string \<Rightarrow> bool" where
  "strstr_found haystack needle = sublist needle haystack"

text \<open>
  \<^verbatim>\<open>decode_brand_string\<close> fills \<^verbatim>\<open>stash->br\<close> from a brand string. The function
  \<^verbatim>\<open>strregexp\<close> wraps \<^verbatim>\<open>regcomp\<close> and \<^verbatim>\<open>regexec\<close> of the C library, which are not part of
  this program: the matcher is the parameter \<open>strregexp\<close> (haystack first, pattern
  second), and the patterns are the literals of the source.
\<close>

definition decode_brand_string ::
  "(string \<Rightarrow> string \<Rightarrow> bool) \<Rightarrow> string \<Rightarrow> code_stash_t \<Rightarrow> code_stash_t" where
  "decode_brand_string strregexp b stash =
     stash\<lparr>br := \<lparr>
       mobile = (strstr_found b ''Mobile'' \<or> strstr_found b ''mobile''),
       celeron = strstr_found b ''Celeron'',
       core = strstr_found b ''Core(TM)'',
       pentium = strstr_found b ''Pentium'',
       br_xeon_mp = (strstr_found b ''Xeon MP'' \<or> strstr_found b ''Xeon(TM) MP''
                     \<or> strstr_found b ''Xeon(R)''),
       br_xeon = strstr_found b ''Xeon'',
       pentium_m = strstr_found b ''Pentium(R) M'',
       pentium_d = strstr_found b ''Pentium(R) D'',
       extreme = strregexp b '' ?X[0-9][0-9][0-9][0-9]'',
       generic = strstr_found b ''Genuine Intel(R) CPU'',
       scalable = (strstr_found b ''Bronze'' \<or> strstr_found b ''Silver''
                   \<or> strstr_found b ''Gold'' \<or> strstr_found b ''Platinum''),
       u_line = (strregexp b ''Core.* [im][3579]-[0-9]*U''
                 \<or> strregexp b ''Pentium.* [0-9]*U''),
       y_line = strregexp b ''Core.* [im][3579]-[0-9]*Y'',
       i_10000 = strregexp b ''Core.* i[3579]-10[0-9][0-9][0-9]'',
       athlon_lv = strstr_found b ''Athlon(tm) XP-M (LV)'',
       athlon_xp = (strstr_found b ''Athlon(tm) XP'' \<or> strstr_found b ''Athlon(TM) XP''),
       duron = strstr_found b ''Duron'',
       athlon = strstr_found b ''Athlon'',
       sempron = strstr_found b ''Sempron'',
       phenom = strstr_found b ''Phenom'',
       series = strstr_found b ''Series'',
       a_series = strstr_found b ''AMD A'',
       c_series = strstr_found b ''AMD C'',
       e_series = strstr_found b ''AMD E'',
       g_series = strstr_found b ''AMD G'',
       r_series = strstr_found b ''AMD R'',
       z_series = strstr_found b ''AMD Z'',
       geode = strstr_found b ''Geode'',
       turion = strstr_found b ''Turion'',
       neo = strstr_found b ''Neo'',
       athlon_fx = strstr_found b ''Athlon(tm) 64 FX'',
       athlon_mp = strstr_found b ''Athlon(tm) MP'',
       duron_mp = strstr_found b ''Duron(tm) MP'',
       opteron = strstr_found b ''Opteron'',
       fx = strstr_found b ''AMD FX'',
       firepro = strstr_found b ''Firepro'',
       ultra = strstr_found b ''Ultra'',
       t_suffix = strregexp b ''[0-9][0-9][0-9][0-9]T'',
       ryzen = strstr_found b ''Ryzen'',
       epyc = strstr_found b ''EPYC'',
       embedded = strstr_found b ''Embedded'',
       br_cores =
         (if strstr_found b ''Dual Core'' \<or> strstr_found b '' X2 '' then 2
          else if strstr_found b ''Triple-Core'' \<or> strstr_found b '' X3 '' then 3
          else if strstr_found b ''Quad-Core'' \<or> strstr_found b '' X4 '' then 4
          else if strstr_found b ''Six-Core'' \<or> strstr_found b '' X6 '' then 6
          else 0),
       mediagx = strstr_found b ''MediaGXtm'' \<rparr>\<rparr>"

text \<open>
  \<^verbatim>\<open>decode_brand_stash\<close>: the override brand is decoded when it is not empty, the
  captured brand string otherwise.
\<close>

definition decode_brand_stash ::
  "(string \<Rightarrow> string \<Rightarrow> bool) \<Rightarrow> code_stash_t \<Rightarrow> code_stash_t" where
  "decode_brand_stash strregexp stash =
     (if override_brand stash \<noteq> []
      then decode_brand_string strregexp (override_brand stash) stash
      else decode_brand_string strregexp (brand stash) stash)"

section \<open>Signature masks and the query macros\<close>

text \<open>
  The masks \<^verbatim>\<open>__F\<close>, \<^verbatim>\<open>__M\<close>, \<^verbatim>\<open>__FM\<close>, \<^verbatim>\<open>__FMS\<close>, \<^verbatim>\<open>__TF\<close>, \<^verbatim>\<open>__TFM\<close>, \<^verbatim>\<open>__TFMS\<close> and \<^verbatim>\<open>__B\<close>
  are \<open>mask_F\<close> .. \<open>mask_B\<close>; the field shifts \<^verbatim>\<open>_T\<close>, \<^verbatim>\<open>_F\<close>, \<^verbatim>\<open>_M\<close>, \<^verbatim>\<open>_S\<close>, \<^verbatim>\<open>_XF\<close> and
  \<^verbatim>\<open>_XM\<close> are \<open>put_T\<close> .. \<open>put_XM\<close> (an Isabelle name cannot start with an underscore).
\<close>

definition mask_F :: "u32 \<Rightarrow> u32" where "mask_F v = v AND 0x0ff00f00"
definition mask_M :: "u32 \<Rightarrow> u32" where "mask_M v = v AND 0x000f00f0"
definition mask_FM :: "u32 \<Rightarrow> u32" where "mask_FM v = v AND 0x0fff0ff0"
definition mask_FMS :: "u32 \<Rightarrow> u32" where "mask_FMS v = v AND 0x0fff0fff"
definition mask_TF :: "u32 \<Rightarrow> u32" where "mask_TF v = v AND 0x0ff03f00"
definition mask_TFM :: "u32 \<Rightarrow> u32" where "mask_TFM v = v AND 0x0fff3ff0"
definition mask_TFMS :: "u32 \<Rightarrow> u32" where "mask_TFMS v = v AND 0x0fff3fff"
definition mask_B :: "u32 \<Rightarrow> u32" where "mask_B v = v AND 0x000000ff"

definition put_T :: "u32 \<Rightarrow> u32" where "put_T v = push_bit 12 v"
definition put_F :: "u32 \<Rightarrow> u32" where "put_F v = push_bit 8 v"
definition put_M :: "u32 \<Rightarrow> u32" where "put_M v = push_bit 4 v"
definition put_S :: "u32 \<Rightarrow> u32" where "put_S v = v"
definition put_XF :: "u32 \<Rightarrow> u32" where "put_XF v = push_bit 20 v"
definition put_XM :: "u32 \<Rightarrow> u32" where "put_XM v = push_bit 16 v"

text \<open>\<^verbatim>\<open>_FM(xf,f,xm,m)\<close> and \<^verbatim>\<open>_FMS(xf,f,xm,m,s)\<close>.\<close>

definition val_FM :: "u32 \<Rightarrow> u32 \<Rightarrow> u32 \<Rightarrow> u32 \<Rightarrow> u32" where
  "val_FM xf f xm m = put_XF xf + put_F f + put_XM xm + put_M m"

definition val_FMS :: "u32 \<Rightarrow> u32 \<Rightarrow> u32 \<Rightarrow> u32 \<Rightarrow> u32 \<Rightarrow> u32" where
  "val_FMS xf f xm m s = put_XF xf + put_F f + put_XM xm + put_M m + put_S s"

text \<open>The query macros read the stash that is in scope; here it is their argument.\<close>

definition is_intel :: "code_stash_t \<Rightarrow> bool" where
  "is_intel stash = (vendor stash = VENDOR_INTEL)"
definition is_amd :: "code_stash_t \<Rightarrow> bool" where
  "is_amd stash = (vendor stash = VENDOR_AMD)"
definition is_cyrix :: "code_stash_t \<Rightarrow> bool" where
  "is_cyrix stash = (vendor stash = VENDOR_CYRIX)"
definition is_transmeta :: "code_stash_t \<Rightarrow> bool" where
  "is_transmeta stash = (vendor stash = VENDOR_TRANSMETA)"
definition is_mobile :: "code_stash_t \<Rightarrow> bool" where
  "is_mobile stash = mobile (br stash)"

subsection \<open>Intel major queries\<close>

definition dP :: "code_stash_t \<Rightarrow> bool" where
  "dP stash = ((is_intel stash \<and> pentium (br stash)) \<or> desktop_pentium (bri stash))"
definition dC :: "code_stash_t \<Rightarrow> bool" where
  "dC stash = ((is_intel stash \<and> \<not> is_mobile stash \<and> celeron (br stash))
               \<or> desktop_celeron (bri stash))"
definition dd :: "code_stash_t \<Rightarrow> bool" where
  "dd stash = (is_intel stash \<and> pentium_d (br stash))"
definition dc :: "code_stash_t \<Rightarrow> bool" where
  "dc stash = (is_intel stash \<and> \<not> is_mobile stash \<and> (core (br stash) \<or> generic (br stash)))"
definition sX :: "code_stash_t \<Rightarrow> bool" where
  "sX stash = ((is_intel stash \<and> br_xeon (br stash)) \<or> bri_xeon (bri stash))"
definition sM :: "code_stash_t \<Rightarrow> bool" where
  "sM stash = ((is_intel stash \<and> br_xeon_mp (br stash)) \<or> bri_xeon_mp (bri stash))"
definition sS :: "code_stash_t \<Rightarrow> bool" where
  "sS stash = (is_intel stash \<and> br_xeon (br stash) \<and> scalable (br stash))"
definition MP :: "code_stash_t \<Rightarrow> bool" where
  "MP stash = ((is_intel stash \<and> is_mobile stash \<and> pentium (br stash))
               \<or> mobile_pentium (bri stash))"
definition MC :: "code_stash_t \<Rightarrow> bool" where
  "MC stash = ((is_intel stash \<and> is_mobile stash \<and> celeron (br stash))
               \<or> mobile_celeron (bri stash))"
definition MM :: "code_stash_t \<Rightarrow> bool" where
  "MM stash = ((is_intel stash \<and> pentium_m (br stash)) \<or> mobile_pentium_m (bri stash))"
definition Mc :: "code_stash_t \<Rightarrow> bool" where
  "Mc stash = (is_intel stash \<and> is_mobile stash \<and> core (br stash))"
definition Xc :: "code_stash_t \<Rightarrow> bool" where
  "Xc stash = (is_intel stash \<and> extreme (br stash))"
definition LU :: "code_stash_t \<Rightarrow> bool" where
  "LU stash = (is_intel stash \<and> u_line (br stash))"
definition LY :: "code_stash_t \<Rightarrow> bool" where
  "LY stash = (is_intel stash \<and> y_line (br stash))"

subsection \<open>Intel special cases\<close>

definition xD :: "code_stash_t \<Rightarrow> bool" where
  "xD stash = L2_4w_1Mor2M stash"
definition mD :: "code_stash_t \<Rightarrow> bool" where
  "mD stash = L2_4w_256K stash"
definition cD :: "code_stash_t \<Rightarrow> bool" where
  "cD stash = (\<not> L2_4w_1Mor2M stash \<and> \<not> L2_4w_512K stash \<and> \<not> L2_4w_256K stash)"
definition xK :: "code_stash_t \<Rightarrow> bool" where
  "xK stash = (L2_4w_1Mor2M stash \<or> L2_8w_1Mor2M stash)"
definition pK :: "code_stash_t \<Rightarrow> bool" where
  "pK stash = ((L2_4w_512K stash \<or> L2_8w_256K stash \<or> L2_8w_512K stash)
               \<and> \<not> L2_4w_1Mor2M stash \<and> \<not> L2_8w_1Mor2M stash)"
definition sI :: "code_stash_t \<Rightarrow> bool" where
  "sI stash = (sX stash \<and> L2_2M stash)"
definition sP :: "code_stash_t \<Rightarrow> bool" where
  "sP stash = (sM stash \<and> L3 stash)"
definition da :: "code_stash_t \<Rightarrow> bool" where
  "da stash = (dc stash \<and> L2_2M stash)"
definition QW :: "code_stash_t \<Rightarrow> bool" where
  "QW stash = (dc stash \<and> generic (br stash)
               \<and> (mp_cores (mp stash) = 4
                    \<or> (mp_cores (mp stash) = 2 \<and> mp_hyperthreads (mp stash) = 2)))"
definition Dc :: "code_stash_t \<Rightarrow> bool" where
  "Dc stash = (dc stash \<and> mp_cores (mp stash) = 2)"
definition Qc :: "code_stash_t \<Rightarrow> bool" where
  "Qc stash = (dc stash \<and> mp_cores (mp stash) = 4)"
definition XE :: "code_stash_t \<Rightarrow> bool" where
  "XE stash = (dc stash \<and> strstr_found (brand stash) '' E6800'')"
definition sQ :: "code_stash_t \<Rightarrow> bool" where
  "sQ stash = (sX stash \<and> mp_cores (mp stash) = 4)"
definition IS_VMX :: "u32 \<Rightarrow> u32" where
  "IS_VMX v = BIT_EXTRACT_LE v 5 6"
definition s7 :: "code_stash_t \<Rightarrow> bool" where
  "s7 stash = (sX stash \<and> IS_VMX (val_1_ecx stash) \<noteq> 0)"
definition de :: "code_stash_t \<Rightarrow> bool" where
  "de stash = (dc stash \<and> L2_6M stash)"
definition Me :: "code_stash_t \<Rightarrow> bool" where
  "Me stash = (Mc stash \<and> L2_6M stash)"
definition Qe :: "code_stash_t \<Rightarrow> bool" where
  "Qe stash = (Qc stash \<and> L2_6M stash)"
definition se :: "code_stash_t \<Rightarrow> bool" where
  "se stash = (sQ stash \<and> L2_6M stash)"
definition UC :: "code_stash_t \<Rightarrow> bool" where
  "UC stash = (LU stash \<and> i_10000 (br stash))"

subsection \<open>AMD major queries\<close>

text \<open>The query the source calls M followed by L (mobile Athlon XP-M (LV)) is \<open>ML_lv\<close> here.\<close>

definition dA :: "code_stash_t \<Rightarrow> bool" where
  "dA stash = (is_amd stash \<and> \<not> is_mobile stash \<and> athlon (br stash))"
definition dX :: "code_stash_t \<Rightarrow> bool" where
  "dX stash = (is_amd stash \<and> \<not> is_mobile stash \<and> athlon_xp (br stash))"
definition dF :: "code_stash_t \<Rightarrow> bool" where
  "dF stash = (is_amd stash \<and> \<not> is_mobile stash \<and> athlon_fx (br stash))"
definition df :: "code_stash_t \<Rightarrow> bool" where
  "df stash = (is_amd stash \<and> \<not> is_mobile stash \<and> fx (br stash))"
definition dD :: "code_stash_t \<Rightarrow> bool" where
  "dD stash = (is_amd stash \<and> \<not> is_mobile stash \<and> duron (br stash))"
definition dS :: "code_stash_t \<Rightarrow> bool" where
  "dS stash = (is_amd stash \<and> \<not> is_mobile stash \<and> sempron (br stash))"
definition dp :: "code_stash_t \<Rightarrow> bool" where
  "dp stash = (is_amd stash \<and> \<not> is_mobile stash \<and> phenom (br stash))"
definition dI :: "code_stash_t \<Rightarrow> bool" where
  "dI stash = (is_amd stash \<and> \<not> is_mobile stash \<and> firepro (br stash))"
definition dR :: "code_stash_t \<Rightarrow> bool" where
  "dR stash = (is_amd stash \<and> \<not> is_mobile stash \<and> ryzen (br stash))"
definition sO :: "code_stash_t \<Rightarrow> bool" where
  "sO stash = (is_amd stash \<and> \<not> is_mobile stash \<and> opteron (br stash))"
definition sA :: "code_stash_t \<Rightarrow> bool" where
  "sA stash = (is_amd stash \<and> \<not> is_mobile stash \<and> athlon_mp (br stash))"
definition sD :: "code_stash_t \<Rightarrow> bool" where
  "sD stash = (is_amd stash \<and> \<not> is_mobile stash \<and> duron_mp (br stash))"
definition sE :: "code_stash_t \<Rightarrow> bool" where
  "sE stash = (is_amd stash \<and> \<not> is_mobile stash \<and> epyc (br stash))"
definition MA :: "code_stash_t \<Rightarrow> bool" where
  "MA stash = (is_amd stash \<and> is_mobile stash \<and> athlon (br stash))"
definition MX :: "code_stash_t \<Rightarrow> bool" where
  "MX stash = (is_amd stash \<and> is_mobile stash \<and> athlon_xp (br stash))"
definition ML_lv :: "code_stash_t \<Rightarrow> bool" where
  "ML_lv stash = (is_amd stash \<and> is_mobile stash \<and> athlon_lv (br stash))"
definition MD :: "code_stash_t \<Rightarrow> bool" where
  "MD stash = (is_amd stash \<and> is_mobile stash \<and> duron (br stash))"
definition MS :: "code_stash_t \<Rightarrow> bool" where
  "MS stash = (is_amd stash \<and> is_mobile stash \<and> sempron (br stash))"
definition Mp :: "code_stash_t \<Rightarrow> bool" where
  "Mp stash = (is_amd stash \<and> is_mobile stash \<and> phenom (br stash))"
definition Ms :: "code_stash_t \<Rightarrow> bool" where
  "Ms stash = (is_amd stash \<and> is_mobile stash \<and> series (br stash))"
definition Mr :: "code_stash_t \<Rightarrow> bool" where
  "Mr stash = (is_amd stash \<and> is_mobile stash \<and> r_series (br stash))"
definition MG :: "code_stash_t \<Rightarrow> bool" where
  "MG stash = (is_amd stash \<and> geode (br stash))"
definition MT :: "code_stash_t \<Rightarrow> bool" where
  "MT stash = (is_amd stash \<and> turion (br stash))"
definition MU :: "code_stash_t \<Rightarrow> bool" where
  "MU stash = (is_amd stash \<and> ultra (br stash))"
definition Mn :: "code_stash_t \<Rightarrow> bool" where
  "Mn stash = (is_amd stash \<and> turion (br stash) \<and> neo (br stash))"
definition MN :: "code_stash_t \<Rightarrow> bool" where
  "MN stash = (is_amd stash \<and> neo (br stash))"
definition Sa :: "code_stash_t \<Rightarrow> bool" where
  "Sa stash = (is_amd stash \<and> \<not> is_mobile stash \<and> a_series (br stash))"
definition Sc :: "code_stash_t \<Rightarrow> bool" where
  "Sc stash = (is_amd stash \<and> \<not> is_mobile stash \<and> c_series (br stash))"
definition Se :: "code_stash_t \<Rightarrow> bool" where
  "Se stash = (is_amd stash \<and> \<not> is_mobile stash \<and> e_series (br stash))"
definition Sg :: "code_stash_t \<Rightarrow> bool" where
  "Sg stash = (is_amd stash \<and> \<not> is_mobile stash \<and> g_series (br stash))"
definition Sr :: "code_stash_t \<Rightarrow> bool" where
  "Sr stash = (is_amd stash \<and> \<not> is_mobile stash \<and> r_series (br stash))"
definition Sz :: "code_stash_t \<Rightarrow> bool" where
  "Sz stash = (is_amd stash \<and> \<not> is_mobile stash \<and> z_series (br stash))"
definition Ta :: "code_stash_t \<Rightarrow> bool" where
  "Ta stash = (is_amd stash \<and> t_suffix (br stash) \<and> a_series (br stash))"
definition Te :: "code_stash_t \<Rightarrow> bool" where
  "Te stash = (is_amd stash \<and> t_suffix (br stash) \<and> e_series (br stash))"

subsection \<open>AMD special cases\<close>

text \<open>
  \<^verbatim>\<open>is_amd_egypt_athens_8xx\<close>: the brand table index of an Opteron with signature
  \<^verbatim>\<open>_FM(0,15, 2,1)\<close> or \<^verbatim>\<open>_FM(0,15, 2,5)\<close> tells an 8xx part from a 2xx part.
\<close>

definition is_amd_egypt_athens_8xx :: "code_stash_t \<Rightarrow> bool" where
  "is_amd_egypt_athens_8xx stash =
     (if vendor stash = VENDOR_AMD \<and> opteron (br stash)
         \<and> (mask_FM (val_1_eax stash) = val_FM 0 15 2 1
              \<or> mask_FM (val_1_eax stash) = val_FM 0 15 2 5)
      then
        (if mask_B (val_1_ebx stash) \<noteq> 0 then
           (let bti = push_bit 2 (BIT_EXTRACT_LE (mask_B (val_1_ebx stash)) 5 8)
            in bti \<in> {0x14, 0x15, 0x16, 0x17, 0x2b, 0x34, 0x35, 0x3a, 0x3d, 0x36, 0x37})
         else if BIT_EXTRACT_LE (val_80000001_ebx stash) 0 12 \<noteq> 0 then
           (let bti = BIT_EXTRACT_LE (val_80000001_ebx stash) 6 12
            in bti \<in> {0x14, 0x15, 0x16, 0x17, 0x2b, 0x34, 0x35, 0x3a, 0x3d, 0x36, 0x37})
         else False)
      else False)"

definition EO :: "code_stash_t \<Rightarrow> bool" where
  "EO stash = (sO stash \<and> embedded (br stash))"
definition DO :: "code_stash_t \<Rightarrow> bool" where
  "DO stash = (sO stash \<and> br_cores (br stash) = 2)"
definition SO :: "code_stash_t \<Rightarrow> bool" where
  "SO stash = (sO stash \<and> br_cores (br stash) = 6)"
definition DA :: "code_stash_t \<Rightarrow> bool" where
  "DA stash = (dA stash \<and> br_cores (br stash) = 2)"
definition TA :: "code_stash_t \<Rightarrow> bool" where
  "TA stash = (dA stash \<and> br_cores (br stash) = 3)"
definition QA :: "code_stash_t \<Rightarrow> bool" where
  "QA stash = (dA stash \<and> br_cores (br stash) = 4)"
definition Dp :: "code_stash_t \<Rightarrow> bool" where
  "Dp stash = (dp stash \<and> br_cores (br stash) = 2)"
definition Tp :: "code_stash_t \<Rightarrow> bool" where
  "Tp stash = (dp stash \<and> br_cores (br stash) = 3)"
definition Qp :: "code_stash_t \<Rightarrow> bool" where
  "Qp stash = (dp stash \<and> br_cores (br stash) = 4)"
definition Sp :: "code_stash_t \<Rightarrow> bool" where
  "Sp stash = (dp stash \<and> br_cores (br stash) = 6)"
definition DS :: "code_stash_t \<Rightarrow> bool" where
  "DS stash = (dS stash \<and> br_cores (br stash) = 2)"
definition s8 :: "code_stash_t \<Rightarrow> bool" where
  "s8 stash = (sO stash \<and> is_amd_egypt_athens_8xx stash)"
definition dt :: "code_stash_t \<Rightarrow> bool" where
  "dt stash = (dX stash \<and> L2_256K stash)"
definition dm :: "code_stash_t \<Rightarrow> bool" where
  "dm stash = (dA stash \<and> L2_512K stash)"
definition dr :: "code_stash_t \<Rightarrow> bool" where
  "dr stash = (dA stash \<and> L2_512K stash)"
definition Mt :: "code_stash_t \<Rightarrow> bool" where
  "Mt stash = (MT stash \<and> L2_512K stash)"

section \<open>The rule macros and the else-if chain they build\<close>

text \<open>
  One constructor for each of the macros \<^verbatim>\<open>F\<close>, \<^verbatim>\<open>FM\<close>, \<^verbatim>\<open>FMS\<close>, \<^verbatim>\<open>TF\<close>, \<^verbatim>\<open>TFM\<close>, \<^verbatim>\<open>TFMS\<close>,
  \<^verbatim>\<open>FQ\<close>, \<^verbatim>\<open>FMQ\<close>, \<^verbatim>\<open>FMSQ\<close> and \<^verbatim>\<open>DEFAULT\<close>, with the macro's arguments in the macro's
  order; the last argument is the string of \<^verbatim>\<open>ACT(str)\<close>, which is \<^verbatim>\<open>result = (str)\<close>.
\<close>

datatype rule =
    F u32 u32 string
  | FM u32 u32 u32 u32 string
  | FMS u32 u32 u32 u32 u32 string
  | TF u32 u32 u32 string
  | TFM u32 u32 u32 u32 u32 string
  | TFMS u32 u32 u32 u32 u32 u32 string
  | FQ u32 u32 "code_stash_t \<Rightarrow> bool" string
  | FMQ u32 u32 u32 u32 "code_stash_t \<Rightarrow> bool" string
  | FMSQ u32 u32 u32 u32 u32 "code_stash_t \<Rightarrow> bool" string
  | DEFAULT string

text \<open>
  The condition of the \<^verbatim>\<open>else if\<close> a macro expands to. The stash is a pointer that may be
  \<^verbatim>\<open>NULL\<close>: \<^verbatim>\<open>(stash) && (q)\<close> is false for \<open>None\<close>.
\<close>

definition query :: "code_stash_t option \<Rightarrow> (code_stash_t \<Rightarrow> bool) \<Rightarrow> bool" where
  "query stash q = (case stash of None \<Rightarrow> False | Some st \<Rightarrow> q st)"

fun fires :: "u32 \<Rightarrow> code_stash_t option \<Rightarrow> rule \<Rightarrow> bool" where
  "fires val stash (F xf f str) = (mask_F val = put_XF xf + put_F f)"
| "fires val stash (FM xf f xm m str) =
     (mask_FM val = put_XF xf + put_XM xm + put_F f + put_M m)"
| "fires val stash (FMS xf f xm m s str) =
     (mask_FMS val = put_XF xf + put_XM xm + put_F f + put_M m + put_S s)"
| "fires val stash (TF t xf f str) = (mask_TF val = put_T t + put_XF xf + put_F f)"
| "fires val stash (TFM t xf f xm m str) =
     (mask_TFM val = put_T t + put_XF xf + put_XM xm + put_F f + put_M m)"
| "fires val stash (TFMS t xf f xm m s str) =
     (mask_TFMS val = put_T t + put_XF xf + put_XM xm + put_F f + put_M m + put_S s)"
| "fires val stash (FQ xf f q str) =
     (mask_F val = put_XF xf + put_F f \<and> query stash q)"
| "fires val stash (FMQ xf f xm m q str) =
     (mask_FM val = put_XF xf + put_XM xm + put_F f + put_M m \<and> query stash q)"
| "fires val stash (FMSQ xf f xm m s q str) =
     (mask_FMS val = put_XF xf + put_XM xm + put_F f + put_M m + put_S s \<and> query stash q)"
| "fires val stash (DEFAULT str) = True"

fun act :: "rule \<Rightarrow> string" where
  "act (F xf f str) = str"
| "act (FM xf f xm m str) = str"
| "act (FMS xf f xm m s str) = str"
| "act (TF t xf f str) = str"
| "act (TFM t xf f xm m str) = str"
| "act (TFMS t xf f xm m s str) = str"
| "act (FQ xf f q str) = str"
| "act (FMQ xf f xm m q str) = str"
| "act (FMSQ xf f xm m s q str) = str"
| "act (DEFAULT str) = str"

text \<open>
  \<^verbatim>\<open>cstring result = NULL; START; rule; rule; ...\<close>: \<^verbatim>\<open>START\<close> is \<^verbatim>\<open>if (0)\<close> and every rule
  is an \<^verbatim>\<open>else if\<close>, so the rules are tried in the order of the text, the first one
  whose condition holds assigns \<^verbatim>\<open>result\<close>, and the rules after it are not evaluated.
  With no rule left \<^verbatim>\<open>result\<close> keeps its initial \<^verbatim>\<open>NULL\<close>.
\<close>

fun synth_chain :: "rule list \<Rightarrow> u32 \<Rightarrow> code_stash_t option \<Rightarrow> string option" where
  "synth_chain [] val stash = None"
| "synth_chain (r # rs) val stash =
     (if fires val stash r then Some (act r) else synth_chain rs val stash)"

subsection \<open>Cyrix and Transmeta major queries\<close>

definition cm :: "code_stash_t \<Rightarrow> bool" where
  "cm stash = (is_cyrix stash \<and> mediagx (br stash))"

definition tm_rev :: "u32 \<Rightarrow> code_stash_t \<Rightarrow> bool" where
  "tm_rev r stash = (is_transmeta stash \<and> transmeta_proc_rev stash AND 0xffff0000 = r)"

definition t2 :: "code_stash_t \<Rightarrow> bool" where
  "t2 stash = tm_rev 0x01010000 stash"
definition t4 :: "code_stash_t \<Rightarrow> bool" where
  "t4 stash = (tm_rev 0x01020000 stash \<or> (tm_rev 0x01030000 stash \<and> L2_4w_256K stash))"
definition t5 :: "code_stash_t \<Rightarrow> bool" where
  "t5 stash = ((tm_rev 0x01040000 stash \<or> tm_rev 0x01040000 stash) \<and> L2_4w_256K stash)"
definition t6 :: "code_stash_t \<Rightarrow> bool" where
  "t6 stash = (tm_rev 0x01030000 stash \<and> L2_4w_512K stash)"
definition t8 :: "code_stash_t \<Rightarrow> bool" where
  "t8 stash = ((tm_rev 0x01040000 stash \<or> tm_rev 0x01040000 stash) \<and> L2_4w_512K stash)"

section \<open>The rule table of decode\_synth\_intel\<close>

text \<open>
  The rules between \<^verbatim>\<open>START\<close> and \<^verbatim>\<open>return result\<close> of \<^verbatim>\<open>decode_synth_intel\<close>, in the
  order of the source, cut into consecutive pieces.
\<close>

definition intel_rules_01 :: "rule list" where
  "intel_rules_01 =
    [FM 0 4 0 0 ''Intel i80486DX-25/33'',
     FM 0 4 0 1 ''Intel i80486DX-50'',
     FM 0 4 0 2 ''Intel i80486SX'',
     FM 0 4 0 3 ''Intel i80486DX/2'',
     FM 0 4 0 4 ''Intel i80486SL, .8um'',
     FM 0 4 0 5 ''Intel i80486SX/2, .8um'',
     FM 0 4 0 7 ''Intel i80486DX/2-WB, .8um'',
     FM 0 4 0 8 ''Intel i80486DX/4, .6um'',
     FM 0 4 0 9 ''Intel i80486DX/4-WB, .6um'',
     F 0 4 ''Intel i80486 (unknown model)'',
     FM 0 5 0 0 ''Intel Pentium 60/66 A-step'',
     TFM 1 0 5 0 1 ''Intel Pentium 60/66 OverDrive for P5'',
     FMS 0 5 0 1 3 ''Intel Pentium 60/66 (B1)'',
     FMS 0 5 0 1 5 ''Intel Pentium 60/66 (C1)'',
     FMS 0 5 0 1 7 ''Intel Pentium 60/66 (D1)'',
     FM 0 5 0 1 ''Intel Pentium 60/66'',
     TFM 1 0 5 0 2 ''Intel Pentium 75 - 200 OverDrive for P54C'',
     FMS 0 5 0 2 1 ''Intel Pentium P54C 75 - 200 (B1)'',
     FMS 0 5 0 2 2 ''Intel Pentium P54C 75 - 200 (B3)'',
     FMS 0 5 0 2 4 ''Intel Pentium P54C 75 - 200 (B5)'',
     FMS 0 5 0 2 5 ''Intel Pentium P54C 75 - 200 (C2/mA1)'',
     FMS 0 5 0 2 6 ''Intel Pentium P54C 75 - 200 (E0)'',
     FMS 0 5 0 2 11 ''Intel Pentium P54C 75 - 200 (cB1)'',
     FMS 0 5 0 2 12 ''Intel Pentium P54C 75 - 200 (cC0)'',
     FM 0 5 0 2 ''Intel Pentium P54C 75 - 200'',
     TFM 1 0 5 0 3 ''Intel Pentium OverDrive for i486 (P24T)'',
     TFM 1 0 5 0 4 ''Intel Pentium OverDrive for P54C'',
     FMS 0 5 0 4 3 ''Intel Pentium MMX P55C (B1)'',
     FMS 0 5 0 4 4 ''Intel Pentium MMX P55C (A3)'',
     FM 0 5 0 4 ''Intel Pentium MMX P55C'',
     FMS 0 5 0 7 0 ''Intel Pentium MMX P54C 75 - 200 (A4)'',
     FM 0 5 0 7 ''Intel Pentium MMX P54C 75 - 200'',
     FMS 0 5 0 8 1 ''Intel Pentium MMX P55C (Tillamook A0)'',
     FMS 0 5 0 8 2 ''Intel Pentium MMX P55C (Tillamook B2)'',
     FM 0 5 0 8 ''Intel Pentium MMX P55C (Tillamook)'',
     FM 0 5 0 9 ''Intel Quark X1000 / D1000 / D2000 / C1000 (Lakemont)'',
     F 0 5 ''Intel Pentium (unknown model)'',
     FM 0 6 0 0 ''Intel Pentium Pro A-step'',
     FMS 0 6 0 1 1 ''Intel Pentium Pro (B0)'',
     FMS 0 6 0 1 2 ''Intel Pentium Pro (C0)'',
     FMS 0 6 0 1 6 ''Intel Pentium Pro (sA0)'',
     FMS 0 6 0 1 7 ''Intel Pentium Pro (sA1), .35um'',
     FMS 0 6 0 1 9 ''Intel Pentium Pro (sB1), .35um'',
     FM 0 6 0 1 ''Intel Pentium Pro'',
     TFM 1 0 6 0 3 ''Intel Pentium II OverDrive'',
     FMS 0 6 0 3 3 ''Intel Pentium II (Klamath C0)'',
     FMS 0 6 0 3 4 ''Intel Pentium II (Klamath C1)'',
     FM 0 6 0 3 ''Intel Pentium II (Klamath)'',
     FM 0 6 0 4 ''Intel Pentium P55CT OverDrive (Deschutes)'',
     FMSQ 0 6 0 5 0 xD ''Intel Pentium II Xeon (Deschutes A0)'']"

definition intel_rules_02 :: "rule list" where
  "intel_rules_02 =
    [FMSQ 0 6 0 5 0 mD ''Intel Mobile Pentium II (Deschutes A0)'',
     FMSQ 0 6 0 5 0 cD ''Intel Celeron (Deschutes A0)'',
     FMS 0 6 0 5 0 ''Intel Pentium II (unknown type) (Deschutes A0)'',
     FMSQ 0 6 0 5 1 xD ''Intel Pentium II Xeon (Deschutes A1)'',
     FMSQ 0 6 0 5 1 cD ''Intel Celeron (Deschutes A1)'',
     FMS 0 6 0 5 1 ''Intel Pentium II (unknown type) (Deschutes A1)'',
     FMSQ 0 6 0 5 2 xD ''Intel Pentium II Xeon (Deschutes B0)'',
     FMSQ 0 6 0 5 2 mD ''Intel Mobile Pentium II (Deschutes B0)'',
     FMSQ 0 6 0 5 2 cD ''Intel Celeron (Deschutes B0)'',
     FMS 0 6 0 5 2 ''Intel Pentium II (unknown type) (Deschutes B0)'',
     FMSQ 0 6 0 5 3 xD ''Intel Pentium II Xeon (Deschutes B1)'',
     FMSQ 0 6 0 5 3 cD ''Intel Celeron (Deschutes B1)'',
     FMS 0 6 0 5 3 ''Intel Pentium II (unknown type) (Deschutes B1)'',
     FMQ 0 6 0 5 xD ''Intel Pentium II Xeon (Deschutes)'',
     FMQ 0 6 0 5 mD ''Intel Mobile Pentium II (Deschutes)'',
     FMQ 0 6 0 5 cD ''Intel Celeron (Deschutes)'',
     FM 0 6 0 5 ''Intel Pentium II (unknown type) (Deschutes)'',
     FMSQ 0 6 0 6 0 dP ''Intel Pentium II (Mendocino A0)'',
     FMSQ 0 6 0 6 0 dC ''Intel Celeron (Mendocino A0)'',
     FMS 0 6 0 6 0 ''Intel Pentium II (unknown type) (Mendocino A0)'',
     FMSQ 0 6 0 6 5 dC ''Intel Celeron (Mendocino B0)'',
     FMSQ 0 6 0 6 5 dP ''Intel Pentium II (Mendocino B0)'',
     FMS 0 6 0 6 5 ''Intel Pentium II (unknown type) (Mendocino B0)'',
     FMS 0 6 0 6 10 ''Intel Mobile Pentium II (Mendocino A0)'',
     FM 0 6 0 6 ''Intel Pentium II (Mendocino)'',
     FMSQ 0 6 0 7 2 pK ''Intel Pentium III (Katmai B0)'',
     FMSQ 0 6 0 7 2 xK ''Intel Pentium III Xeon (Katmai B0)'',
     FMS 0 6 0 7 2 ''Intel Pentium III (unknown type) (Katmai B0)'',
     FMSQ 0 6 0 7 3 pK ''Intel Pentium III (Katmai C0)'',
     FMSQ 0 6 0 7 3 xK ''Intel Pentium III Xeon (Katmai C0)'',
     FMS 0 6 0 7 3 ''Intel Pentium III (unknown type) (Katmai C0)'',
     FMQ 0 6 0 7 pK ''Intel Pentium III (Katmai)'',
     FMQ 0 6 0 7 xK ''Intel Pentium III Xeon (Katmai)'',
     FM 0 6 0 7 ''Intel Pentium III (unknown type) (Katmai)'',
     FMSQ 0 6 0 8 1 sX ''Intel Pentium III Xeon (Coppermine A2)'',
     FMSQ 0 6 0 8 1 MC ''Intel Mobile Celeron (Coppermine A2)'',
     FMSQ 0 6 0 8 1 dC ''Intel Celeron (Coppermine A2)'',
     FMSQ 0 6 0 8 1 MP ''Intel Mobile Pentium III (Coppermine A2)'',
     FMSQ 0 6 0 8 1 dP ''Intel Pentium III (Coppermine A2)'',
     FMS 0 6 0 8 1 ''Intel Pentium III (unknown type) (Coppermine A2)'',
     FMSQ 0 6 0 8 3 sX ''Intel Pentium III Xeon (Coppermine B0)'',
     FMSQ 0 6 0 8 3 MC ''Intel Mobile Celeron (Coppermine B0)'',
     FMSQ 0 6 0 8 3 dC ''Intel Celeron (Coppermine B0)'',
     FMSQ 0 6 0 8 3 MP ''Intel Mobile Pentium III (Coppermine B0)'',
     FMSQ 0 6 0 8 3 dP ''Intel Pentium III (Coppermine B0)'',
     FMS 0 6 0 8 3 ''Intel Pentium III (unknown type) (Coppermine B0)'',
     FMSQ 0 6 0 8 6 sX ''Intel Pentium III Xeon (Coppermine C0)'',
     FMSQ 0 6 0 8 6 MC ''Intel Mobile Celeron (Coppermine C0)'',
     FMSQ 0 6 0 8 6 dC ''Intel Celeron (Coppermine C0)'',
     FMSQ 0 6 0 8 6 MP ''Intel Mobile Pentium III (Coppermine C0)'']"

definition intel_rules_03 :: "rule list" where
  "intel_rules_03 =
    [FMSQ 0 6 0 8 6 dP ''Intel Pentium III (Coppermine C0)'',
     FMS 0 6 0 8 6 ''Intel Pentium III (unknown type) (Coppermine C0)'',
     FMSQ 0 6 0 8 10 sX ''Intel Pentium III Xeon (Coppermine D0)'',
     FMSQ 0 6 0 8 10 MC ''Intel Mobile Celeron (Coppermine D0)'',
     FMSQ 0 6 0 8 10 dC ''Intel Celeron (Coppermine D0)'',
     FMSQ 0 6 0 8 10 MP ''Intel Mobile Pentium III (Coppermine D0)'',
     FMSQ 0 6 0 8 10 dP ''Intel Pentium III (Coppermine D0)'',
     FMS 0 6 0 8 10 ''Intel Pentium III (unknown type) (Coppermine D0)'',
     FMQ 0 6 0 8 sX ''Intel Pentium III Xeon (Coppermine)'',
     FMQ 0 6 0 8 MC ''Intel Mobile Celeron (Coppermine)'',
     FMQ 0 6 0 8 dC ''Intel Celeron (Coppermine)'',
     FMQ 0 6 0 8 MP ''Intel Mobile Pentium III (Coppermine)'',
     FMQ 0 6 0 8 dP ''Intel Pentium III (Coppermine)'',
     FM 0 6 0 8 ''Intel Pentium III (unknown type) (Coppermine)'',
     FMSQ 0 6 0 9 5 dC ''Intel Celeron M (Banias B1)'',
     FMSQ 0 6 0 9 5 dP ''Intel Pentium M (Banias B1)'',
     FMS 0 6 0 9 5 ''Intel Pentium M (unknown type) (Banias B1)'',
     FMQ 0 6 0 9 dC ''Intel Celeron M (Banias)'',
     FMQ 0 6 0 9 dP ''Intel Pentium M (Banias)'',
     FM 0 6 0 9 ''Intel Pentium M (unknown type) (Banias)'',
     FMS 0 6 0 10 0 ''Intel Pentium III Xeon (Cascades A0)'',
     FMS 0 6 0 10 1 ''Intel Pentium III Xeon (Cascades A1)'',
     FMS 0 6 0 10 4 ''Intel Pentium III Xeon (Cascades B0)'',
     FM 0 6 0 10 ''Intel Pentium III Xeon (Cascades)'',
     FMSQ 0 6 0 11 1 dC ''Intel Celeron (Tualatin A1)'',
     FMSQ 0 6 0 11 1 MC ''Intel Mobile Celeron (Tualatin A1)'',
     FMSQ 0 6 0 11 1 dP ''Intel Pentium III (Tualatin A1)'',
     FMS 0 6 0 11 1 ''Intel Pentium III (unknown type) (Tualatin A1)'',
     FMSQ 0 6 0 11 4 dC ''Intel Celeron (Tualatin B1)'',
     FMSQ 0 6 0 11 4 MC ''Intel Mobile Celeron (Tualatin B1)'',
     FMSQ 0 6 0 11 4 dP ''Intel Pentium III (Tualatin B1)'',
     FMS 0 6 0 11 4 ''Intel Pentium III (unknown type) (Tualatin B1)'',
     FMQ 0 6 0 11 dC ''Intel Celeron (Tualatin)'',
     FMQ 0 6 0 11 MC ''Intel Mobile Celeron (Tualatin)'',
     FMQ 0 6 0 11 dP ''Intel Pentium III (Tualatin)'',
     FM 0 6 0 11 ''Intel Pentium III (unknown type) (Tualatin)'',
     FMSQ 0 6 0 13 6 dC ''Intel Celeron M (Dothan B1), 90nm'',
     FMSQ 0 6 0 13 6 dP ''Intel Pentium M (Dothan B1), 90nm'',
     FMS 0 6 0 13 6 ''Intel Pentium M (unknown type) (Dothan B1), 90nm'',
     FMSQ 0 6 0 13 8 dC ''Intel Celeron M (Dothan C0), 90nm/65nm'',
     FMSQ 0 6 0 13 8 MP ''Intel Processor A100/A110 (Stealey C0) / Pentium M (Crofton C0), 90nm'',
     FMSQ 0 6 0 13 8 dP ''Intel Pentium M (Dothan C0), 90nm'',
     FMS 0 6 0 13 8 ''Intel Pentium M (unknown type) (Dothan/Stealey/Crofton C0), 90nm/65nm'',
     FMQ 0 6 0 13 dC ''Intel Celeron M (Dothan)'',
     FMQ 0 6 0 13 MP ''Intel Processor A100/A110 (Stealey)'',
     FMQ 0 6 0 13 dP ''Intel Pentium M (Dothan)'',
     FM 0 6 0 13 ''Intel Pentium M (unknown type) (Dothan/Crofton)'',
     FMSQ 0 6 0 14 8 sX ''Intel Xeon Processor LV (Sossaman C0)'',
     FMSQ 0 6 0 14 8 dC ''Intel Celeron (Yonah C0)'',
     FMSQ 0 6 0 14 8 Dc ''Intel Core Duo (Yonah C0)'']"

definition intel_rules_04 :: "rule list" where
  "intel_rules_04 =
    [FMSQ 0 6 0 14 8 dc ''Intel Core Solo (Yonah C0)'',
     FMS 0 6 0 14 8 ''Intel Core (unknown type) (Yonah/Sossaman C0)'',
     FMSQ 0 6 0 14 12 sX ''Intel Xeon Processor LV (Sossaman D0)'',
     FMSQ 0 6 0 14 12 dC ''Intel Celeron M (Yonah D0)'',
     FMSQ 0 6 0 14 12 MP ''Intel Pentium Dual-Core Mobile T2000 (Yonah D0)'',
     FMSQ 0 6 0 14 12 Dc ''Intel Core Duo (Yonah D0)'',
     FMSQ 0 6 0 14 12 dc ''Intel Core Solo (Yonah D0)'',
     FMS 0 6 0 14 12 ''Intel Core (unknown type) (Yonah/Sossaman D0)'',
     FMS 0 6 0 14 13 ''Intel Pentium Dual-Core Mobile T2000 (Yonah M0)'',
     FMQ 0 6 0 14 sX ''Intel Xeon Processor LV (Sossaman)'',
     FMQ 0 6 0 14 dC ''Intel Celeron (Yonah)'',
     FMQ 0 6 0 14 MP ''Intel Pentium Dual-Core Mobile (Yonah)'',
     FMQ 0 6 0 14 Dc ''Intel Core Duo (Yonah)'',
     FMQ 0 6 0 14 dc ''Intel Core Solo (Yonah)'',
     FM 0 6 0 14 ''Intel Core (unknown type) (Yonah/Sossaman)'',
     FMSQ 0 6 0 15 2 sX ''Intel Dual-Core Xeon Processor 3000 (Conroe L2)'',
     FMSQ 0 6 0 15 2 Mc ''Intel Core Duo Mobile (Merom L2)'',
     FMSQ 0 6 0 15 2 dc ''Intel Core Duo (Conroe L2)'',
     FMSQ 0 6 0 15 2 dP ''Intel Pentium Dual-Core Desktop Processor E2000 (Allendale L2)'',
     FMS 0 6 0 15 2 ''Intel Core (unknown type) (Conroe/Merom/Allendale L2)'',
     FMS 0 6 0 15 4 ''Intel Core 2 Duo (Conroe B0) / Xeon Processor 5100 (Woodcrest B0) (pre-production)'',
     FMSQ 0 6 0 15 5 QW ''Intel Dual-Core Xeon Processor 5100 (Woodcrest B1) (pre-production)'',
     FMSQ 0 6 0 15 5 XE ''Intel Core 2 Extreme Processor (Conroe B1)'',
     FMSQ 0 6 0 15 5 da ''Intel Core 2 Duo (Allendale B1)'',
     FMSQ 0 6 0 15 5 dc ''Intel Core 2 Duo (Conroe B1)'',
     FMS 0 6 0 15 5 ''Intel Core 2 (unknown type) (Conroe/Allendale B1)'',
     FMSQ 0 6 0 15 6 Xc ''Intel Core 2 Extreme Processor (Conroe B2)'',
     FMSQ 0 6 0 15 6 Mc ''Intel Core 2 Duo Mobile (Merom B2)'',
     FMSQ 0 6 0 15 6 da ''Intel Core 2 Duo (Allendale B2)'',
     FMSQ 0 6 0 15 6 dc ''Intel Core 2 Duo (Conroe B2)'',
     FMSQ 0 6 0 15 6 dC ''Intel Celeron M (Conroe B2)'',
     FMSQ 0 6 0 15 6 sX ''Intel Dual-Core Xeon Processor 3000 (Conroe B2) / Dual-Core Xeon Processor 5100 (Woodcrest B2)'',
     FMS 0 6 0 15 6 ''Intel Core 2 (unknown type) (Conroe/Allendale/Woodcrest B2)'',
     FMSQ 0 6 0 15 7 sX ''Intel Quad-Core Xeon Processor 3200 (Kentsfield B3) / Quad-Core Xeon Processor 5300 (Clovertown B3)'',
     FMSQ 0 6 0 15 7 Xc ''Intel Core 2 Extreme Quad-Core Processor QX6xx0 (Kentsfield B3)'',
     FMS 0 6 0 15 7 ''Intel Core 2 (unknown type) (Kentsfield/Clovertown B3)'',
     FMSQ 0 6 0 15 10 Mc ''Intel Core 2 Duo Mobile (Merom E1)'',
     FMSQ 0 6 0 15 10 dC ''Intel Celeron Processor 500 (Merom E1)'',
     FMS 0 6 0 15 10 ''Intel Core 2 (unknown type) (Merom E1)'',
     FMSQ 0 6 0 15 11 sQ ''Intel Quad-Core Xeon Processor 5300 (Clovertown G0)'',
     FMSQ 0 6 0 15 11 sX ''Intel Xeon Processor 3000 (Conroe G0) / Xeon Processor 3200 (Kentsfield G0) / Xeon Processor 7200/7300 (Tigerton G0)'',
     FMSQ 0 6 0 15 11 Xc ''Intel Core 2 Extreme Quad-Core Processor QX6xx0 (Kentsfield G0)'',
     FMSQ 0 6 0 15 11 Mc ''Intel Core 2 Duo Mobile (Merom G2)'',
     FMSQ 0 6 0 15 11 Qc ''Intel Core 2 Quad (Conroe G0)'',
     FMSQ 0 6 0 15 11 dc ''Intel Core 2 Duo (Conroe G0)'',
     FMS 0 6 0 15 11 ''Intel Core 2 (unknown type) (Merom/Conroe/Kentsfield/Clovertown/Tigerton G0)'',
     FMSQ 0 6 0 15 13 Mc ''Intel Core 2 Duo Mobile (Merom M1) / Celeron Processor 500 (Merom E1)'',
     FMSQ 0 6 0 15 13 Qc ''Intel Core 2 Quad (Conroe M0)'',
     FMSQ 0 6 0 15 13 dc ''Intel Core 2 Duo (Conroe M0)'',
     FMSQ 0 6 0 15 13 dP ''Intel Pentium Dual-Core Desktop Processor E2000 (Allendale M0)'']"

definition intel_rules_05 :: "rule list" where
  "intel_rules_05 =
    [FMSQ 0 6 0 15 13 dC ''Intel Celeron Dual-Core E1000 (Allendale M0) / Celeron Dual-Core T1000 (Merom M0)'',
     FMS 0 6 0 15 13 ''Intel Core 2 (unknown type) (Merom/Conroe/Allendale M0 / Merom E1)'',
     FMQ 0 6 0 15 sQ ''Intel Quad-Core Xeon (Woodcrest)'',
     FMQ 0 6 0 15 sX ''Intel Dual-Core Xeon (Conroe / Woodcrest) / Quad-Core Xeon (Kentsfield / Clovertown) / Xeon (Tigerton G0)'',
     FMQ 0 6 0 15 Xc ''Intel Core 2 Extreme Processor (Conroe) / Core 2 Extreme Quad-Core (Kentsfield)'',
     FMQ 0 6 0 15 Mc ''Intel Core Duo Mobile / Core 2 Duo Mobile (Merom) / Celeron (Merom)'',
     FMQ 0 6 0 15 Qc ''Intel Core 2 Quad (Conroe)'',
     FMQ 0 6 0 15 dc ''Intel Core Duo / Core 2 Duo (Conroe)'',
     FMQ 0 6 0 15 dP ''Intel Pentium Dual-Core (Allendale)'',
     FMQ 0 6 0 15 dC ''Intel Celeron M (Conroe) / Celeron (Merom) / Celeron Dual-Core (Allendale)'',
     FM 0 6 0 15 ''Intel Core 2 (unknown type) (Merom/Conroe/Allendale/Kentsfield/Allendale/Clovertown/Woodcrest/Tigerton)'',
     FMS 0 6 1 5 0 ''Intel EP80579 (Tolapai B0)'',
     FMSQ 0 6 1 6 1 MC ''Intel Celeron Processor 200/400/500 (Conroe-L/Merom-L A1)'',
     FMSQ 0 6 1 6 1 dC ''Intel Celeron M (Merom-L A1)'',
     FMSQ 0 6 1 6 1 Mc ''Intel Core 2 Duo Mobile (Merom A1)'',
     FMS 0 6 1 6 1 ''Intel Core 2 (unknown type) (Merom/Conroe A1)'',
     FMQ 0 6 1 6 MC ''Intel Celeron Processor 200/400/500 (Conroe-L/Merom-L)'',
     FMQ 0 6 1 6 dC ''Intel Celeron M (Merom-L)'',
     FMQ 0 6 1 6 Mc ''Intel Core 2 Duo Mobile (Merom)'',
     FM 0 6 1 6 ''Intel Core 2 (unknown type) (Merom/Conroe)'',
     FMSQ 0 6 1 7 6 sQ ''Intel Xeon Processor 3300 (Yorkfield C0) / Xeon Processor 5200 (Wolfdale C0) / Xeon Processor 5400 (Harpertown C0)'',
     FMSQ 0 6 1 7 6 sX ''Intel Xeon Processor 3100 (Wolfdale C0) / Xeon Processor 5200 (Wolfdale C0) / Xeon Processor 5400 (Harpertown C0)'',
     FMSQ 0 6 1 7 6 Xc ''Intel Core 2 Extreme QX9000 (Yorkfield C0)'',
     FMSQ 0 6 1 7 6 Me ''Intel Mobile Core 2 Duo (Penryn C0)'',
     FMSQ 0 6 1 7 6 Mc ''Intel Mobile Core 2 Duo (Penryn M0)'',
     FMSQ 0 6 1 7 6 de ''Intel Core 2 Duo (Wolfdale C0)'',
     FMSQ 0 6 1 7 6 dc ''Intel Core 2 Duo (Wolfdale M0)'',
     FMSQ 0 6 1 7 6 dP ''Intel Pentium Dual-Core Processor E5000 (Wolfdale M0)'',
     FMS 0 6 1 7 6 ''Intel Core 2 (unknown type) (Penryn/Wolfdale/Yorkfield/Harpertown C0/M0)'',
     FMSQ 0 6 1 7 7 sQ ''Intel Xeon Processor 3300 (Yorkfield C1)'',
     FMSQ 0 6 1 7 7 Xc ''Intel Core 2 Extreme QX9000 (Yorkfield C1)'',
     FMSQ 0 6 1 7 7 Qe ''Intel Core 2 Quad-Core Q9000 (Yorkfield C1)'',
     FMSQ 0 6 1 7 7 Qc ''Intel Core 2 Quad-Core Q9000 (Yorkfield M1)'',
     FMS 0 6 1 7 7 ''Intel Core 2 (unknown type) (Penryn/Wolfdale/Yorkfield/Harpertown C1/M1)'',
     FMSQ 0 6 1 7 10 Me ''Intel Mobile Core 2 (Penryn E0)'',
     FMSQ 0 6 1 7 10 Mc ''Intel Mobile Core 2 (Penryn R0)'',
     FMSQ 0 6 1 7 10 Qe ''Intel Core 2 Quad-Core Q9000 (Yorkfield E0)'',
     FMSQ 0 6 1 7 10 Qc ''Intel Core 2 Quad-Core Q9000 (Yorkfield R0)'',
     FMSQ 0 6 1 7 10 de ''Intel Core 2 Duo (Wolfdale E0)'',
     FMSQ 0 6 1 7 10 dc ''Intel Core 2 Duo (Wolfdale R0)'',
     FMSQ 0 6 1 7 10 dP ''Intel Pentium Dual-Core Processor E5000/E6000 (Wolfdale R0)'',
     FMSQ 0 6 1 7 10 dC ''Intel Celeron E3000 (Wolfdale R0)'',
     FMSQ 0 6 1 7 10 se ''Intel Xeon Processor 3300 (Yorkfield E0)'',
     FMSQ 0 6 1 7 10 sQ ''Intel Xeon Processor 3300 (Yorkfield R0)'',
     FMSQ 0 6 1 7 10 sX ''Intel Xeon Processor 3100 (Wolfdale E0) / Xeon Processor 3300 (Yorkfield R0) / Xeon Processor 5200 (Wolfdale E0) / Xeon Processor 5400 (Harpertown E0)'',
     FMS 0 6 1 7 10 ''Intel Core 2 (unknown type) (Penryn/Wolfdale/Yorkfield/Harpertown E0/R0)'',
     FMQ 0 6 1 7 se ''Intel Xeon (Wolfdale / Yorkfield / Harpertown)'',
     FMQ 0 6 1 7 sQ ''Intel Xeon (Wolfdale / Yorkfield / Harpertown)'',
     FMQ 0 6 1 7 sX ''Intel Xeon (Wolfdale / Yorkfield / Harpertown)'',
     FMQ 0 6 1 7 Mc ''Intel Mobile Core 2 (Penryn)'']"

definition intel_rules_06 :: "rule list" where
  "intel_rules_06 =
    [FMQ 0 6 1 7 Xc ''Intel Core 2 Extreme (Yorkfield)'',
     FMQ 0 6 1 7 Qc ''Intel Core 2 Quad-Core (Yorkfield)'',
     FMQ 0 6 1 7 dc ''Intel Core 2 Duo (Wolfdale)'',
     FMQ 0 6 1 7 dC ''Intel Celeron (Wolfdale)'',
     FMQ 0 6 1 7 dP ''Intel Pentium Dual-Core (Wolfdale)'',
     FM 0 6 1 7 ''Intel Core 2 (unknown type) (Penryn/Wolfdale/Yorkfield/Harpertown)'',
     FMS 0 6 1 10 4 ''Intel Core i7-900 (Bloomfield C0)'',
     FMSQ 0 6 1 10 5 dc ''Intel Core i7-900 (Bloomfield D0)'',
     FMSQ 0 6 1 10 5 sX ''Intel Xeon Processor 3500 (Bloomfield D0) / Xeon Processor 5500 (Gainestown D0)'',
     FMS 0 6 1 10 5 ''Intel Core (unknown type) (Bloomfield/Gainestown D0)'',
     FMQ 0 6 1 10 dc ''Intel Core (Bloomfield)'',
     FMQ 0 6 1 10 sX ''Intel Xeon (Bloomfield / Gainestown)'',
     FM 0 6 1 10 ''Intel Core (unknown type) (Bloomfield / Gainestown)'',
     FMS 0 6 1 12 1 ''Intel Atom N270 (Diamondville B0)'',
     FMS 0 6 1 12 2 ''Intel Atom 200/N200/300 (Diamondville C0) / Atom Z500 (Silverthorne C0)'',
     FMS 0 6 1 12 10 ''Intel Atom D400/N400 (Pineview A0) / Atom D500/N500 (Pineview B0)'',
     FM 0 6 1 12 ''Intel Atom (Diamondville / Silverthorne / Pineview)'',
     FMS 0 6 1 13 1 ''Intel Xeon Processor 7400 (Dunnington A1)'',
     FM 0 6 1 13 ''Intel Xeon (unknown type) (Dunnington)'',
     FMSQ 0 6 1 14 4 sX ''Intel Xeon Processor C3500/C5500 (Jasper Forest B0)'',
     FMSQ 0 6 1 14 4 dC ''Intel Celeron P1053 (Jasper Forest B0)'',
     FMS 0 6 1 14 4 ''Intel Xeon (unknown type) (Jasper Forest B0)'',
     FMSQ 0 6 1 14 5 sX ''Intel Xeon Processor 3400 (Lynnfield B1)'',
     FMSQ 0 6 1 14 5 Mc ''Intel Core i7-700/800/900 Mobile (Clarksfield B1)'',
     FMSQ 0 6 1 14 5 dc ''Intel Core i5-700 / i7-800 (Lynnfield B1)'',
     FMS 0 6 1 14 5 ''Intel Core (unknown type) (Lynnfield/Clarksfield B1)'',
     FMQ 0 6 1 14 sX ''Intel Xeon (Lynnfield) / Xeon (Jasper Forest)'',
     FMQ 0 6 1 14 dC ''Intel Celeron (Jasper Forest)'',
     FMQ 0 6 1 14 Mc ''Intel Core Mobile (Clarksfield)'',
     FMQ 0 6 1 14 dc ''Intel Core (Lynnfield)'',
     FM 0 6 1 14 ''Intel Core (unknown type) (Lynnfield/Clarksfield)'',
     FM 0 6 1 15 ''Intel (unknown model) (Havendale/Auburndale)'',
     FMSQ 0 6 2 5 2 sX ''Intel Xeon Processor L3406 (Clarkdale C2)'',
     FMSQ 0 6 2 5 2 MC ''Intel Celeron Mobile P4500 (Arrandale C2)'',
     FMSQ 0 6 2 5 2 MP ''Intel Pentium P6000 Mobile (Arrandale C2)'',
     FMSQ 0 6 2 5 2 dP ''Intel Pentium G6900 / P4505 (Clarkdale C2)'',
     FMSQ 0 6 2 5 2 Mc ''Intel Core i3-300 Mobile / Core i5-400 Mobile / Core i5-500 Mobile / Core i7-600 Mobile (Arrandale C2)'',
     FMSQ 0 6 2 5 2 dc ''Intel Core i3-300 / i3-500 / i5-500 / i5-600 / i7-600 (Clarkdale C2)'',
     FMS 0 6 2 5 2 ''Intel Core (unknown type) (Clarkdale/Arrandale C2)'',
     FMSQ 0 6 2 5 5 MC ''Intel Celeron Mobile U3400 (Arrandale K0) / Celeron Mobile P4600 (Arrandale K0)'',
     FMSQ 0 6 2 5 5 MP ''Intel Pentium U5000 Mobile (Arrandale K0)'',
     FMSQ 0 6 2 5 5 dP ''Intel Pentium P4505 / U3405 (Clarkdale K0)'',
     FMSQ 0 6 2 5 5 dc ''Intel Core i3-300 / i3-500 / i5-400 / i5-500 / i5-600 / i7-600 (Clarkdale K0)'',
     FMS 0 6 2 5 5 ''Intel Core (unknown type) (Clarkdale/Arrandale K0)'',
     FMQ 0 6 2 5 sX ''Intel Xeon Processor L3406 (Clarkdale)'',
     FMQ 0 6 2 5 MC ''Intel Celeron Mobile (Arrandale)'',
     FMQ 0 6 2 5 MP ''Intel Pentium Mobile (Arrandale)'',
     FMQ 0 6 2 5 dP ''Intel Pentium (Clarkdale)'',
     FMQ 0 6 2 5 Mc ''Intel Core Mobile (Arrandale)'',
     FMQ 0 6 2 5 dc ''Intel Core (Clarkdale)'']"

definition intel_rules_07 :: "rule list" where
  "intel_rules_07 =
    [FM 0 6 2 5 ''Intel Core (unknown type) (Clarkdale/Arrandale)'',
     FMS 0 6 2 6 1 ''Intel Atom Z600 (Lincroft C0) / Atom E600 (Tunnel Creek B0/B1)'',
     FM 0 6 2 6 ''Intel Atom Z600 (Lincroft) / Atom E600 (Tunnel Creek B0/B1)'',
     FM 0 6 2 7 ''Intel Atom Z2000 (Medfield)'',
     FMSQ 0 6 2 10 7 Xc ''Intel Mobile Core i7 Extreme (Sandy Bridge D2/J1/Q0)'',
     FMSQ 0 6 2 10 7 Mc ''Intel Mobile Core i*-2000 (Sandy Bridge D2/J1/Q0)'',
     FMSQ 0 6 2 10 7 dc ''Intel Core i*-2000 (Sandy Bridge D2/J1/Q0)'',
     FMSQ 0 6 2 10 7 MC ''Intel Celeron G400/G500/700/800/B800 (Sandy Bridge J1/Q0)'',
     FMSQ 0 6 2 10 7 sX ''Intel Xeon E3-1100 / E3-1200 v1 (Sandy Bridge D2/J1/Q0)'',
     FMSQ 0 6 2 10 7 dP ''Intel Pentium G500/G600/G800 / Pentium B915C (Sandy Bridge Q0)'',
     FMS 0 6 2 10 7 ''Intel Core (unknown type) (Sandy Bridge D2/J1/Q0)'',
     FMQ 0 6 2 10 Xc ''Intel Mobile Core i7 Extreme (Sandy Bridge)'',
     FMQ 0 6 2 10 Mc ''Intel Mobile Core i*-2000 (Sandy Bridge)'',
     FMQ 0 6 2 10 dc ''Intel Core i5-2000 / Core i7-2000 (Sandy Bridge)'',
     FMQ 0 6 2 10 MC ''Intel Celeron G400/G500/700/800/B800 (Sandy Bridge)'',
     FMQ 0 6 2 10 sX ''Intel Xeon E3-1100 / E3-1200 v1 (Sandy Bridge)'',
     FMQ 0 6 2 10 dP ''Intel Pentium G500/G600/G800 / Pentium B915C (Sandy Bridge)'',
     FM 0 6 2 10 ''Intel Core (unknown type) (Sandy Bridge)'',
     FMSQ 0 6 2 12 2 dc ''Intel Core i7-900 / Core i7-980X (Gulftown B1)'',
     FMSQ 0 6 2 12 2 sX ''Intel Xeon Processor 3600 (Westmere-EP B1) / Xeon Processor 5600 (Westmere-EP B1)'',
     FMS 0 6 2 12 2 ''Intel Core (unknown type) (Gulftown/Westmere-EP B1)'',
     FM 0 6 2 12 ''Intel Core (unknown type) (Gulftown) / Xeon (Westmere-EP)'',
     FMSQ 0 6 2 13 6 sX ''Intel Xeon E5-1600/2600 (Sandy Bridge-E C1)'',
     FMSQ 0 6 2 13 6 dP ''Intel Core i7-3800/3900 (Sandy Bridge-E C1)'',
     FMS 0 6 2 13 6 ''Intel Core (unknown type) (Sandy Bridge-E C1)'',
     FMSQ 0 6 2 13 7 sX ''Intel Xeon E5-1600/2600/4600 (Sandy Bridge-E C2/M1)'',
     FMSQ 0 6 2 13 7 dP ''Intel Core i7-3800/3900 (Sandy Bridge-E C2)'',
     FMS 0 6 2 13 7 ''Intel Core (unknown type) (Sandy Bridge-E C2/M1)'',
     FMQ 0 6 2 13 sX ''Intel Xeon E5-1600/2600 (Sandy Bridge-E)'',
     FMQ 0 6 2 13 dP ''Intel Core i7-3800/3900 (Sandy Bridge-E)'',
     FM 0 6 2 13 ''Intel Core (unknown type) (Sandy Bridge-E)'',
     FMS 0 6 2 14 6 ''Intel Xeon Processor 7500 (Beckton D0)'',
     FM 0 6 2 14 ''Intel Xeon Processor 7500 (Beckton)'',
     FMS 0 6 2 15 2 ''Intel Xeon E7-8800 / Xeon E7-4800 / Xeon E7-2800 (Westmere-EX A2)'',
     FM 0 6 2 15 ''Intel Xeon (unknown type) (Westmere-EX)'',
     FMS 0 6 3 5 1 ''Intel Atom Z2760 (Clover Trail C0) / Z8000 (Cherry Trail C0)'',
     FM 0 6 3 5 ''Intel Atom Z2760 (Clover Trail) / Z8000 (Cherry Trail)'',
     FMS 0 6 3 6 1 ''Intel Atom D2000/N2000 (Cedar Trail B1/B2/B3) / S1200 (Centerton B1)'',
     FM 0 6 3 6 ''Intel Atom D2000/N2000 (Cedar Trail) / S1200 (Centerton B1)'',
     FMS 0 6 3 7 1 ''Intel Atom Z3000 (Bay Trail-T A0)'',
     FMS 0 6 3 7 2 ''Intel Pentium / Celeron (Bay Trail-M B0/B1)'',
     FMS 0 6 3 7 3 ''Intel Pentium N3500 / J2850 / Celeron N1700 / N1800 / N2800 / N2900 (Bay Trail-M B2/B3) / Atom E3800 (Bay Trail-I B3)'',
     FMSQ 0 6 3 7 4 dC ''Intel Celeron N2800 / N2900 (Bay Trail-M C0)'',
     FMSQ 0 6 3 7 4 dP ''Intel Pentium N3500 (Bay Trail-M C0)'',
     FMS 0 6 3 7 4 ''Intel (unknown type) (Bay Trail-M C0 / Bay Trail-T B2/B3)'',
     FMS 0 6 3 7 9 ''Intel Atom E3800 (Bay Trail-I D0)'',
     FM 0 6 3 7 ''Intel (unknown type) (Bay Trail-M / Bay Trail-T / Bay Trail-I)'',
     FMSQ 0 6 3 10 9 Mc ''Intel Mobile Core i*-3000 (Ivy Bridge E1/L1) / Pentium 900/1000/2000/2100 (P0)'',
     FMSQ 0 6 3 10 9 dc ''Intel Core i*-3000 (Ivy Bridge E1/N0/L1)'',
     FMSQ 0 6 3 10 9 sX ''Intel Xeon E3-1100 v2 / E3-1200 v2 (Ivy Bridge E1/N0/L1)'']"

definition intel_rules_08 :: "rule list" where
  "intel_rules_08 =
    [FMSQ 0 6 3 10 9 dP ''Intel Pentium G1600/G2000/G2100 / Pentium B925C (Ivy Bridge P0)'',
     FMS 0 6 3 10 9 ''Intel Core (unknown type) (Ivy Bridge E1/N0/L1/P0)'',
     FMQ 0 6 3 10 Mc ''Intel Mobile Core i*-3000 (Ivy Bridge) / Pentium 900/1000/2000/2100'',
     FMQ 0 6 3 10 dc ''Intel Core i*-3000 (Ivy Bridge)'',
     FMQ 0 6 3 10 sX ''Intel Xeon E3-1100 v2 / E3-1200 v2 (Ivy Bridge)'',
     FMQ 0 6 3 10 dP ''Intel Pentium G1600/G2000/G2100 / Pentium B925C (Ivy Bridge)'',
     FM 0 6 3 10 ''Intel Core (unknown type) (Ivy Bridge)'',
     FMQ 0 6 3 12 sX ''Intel Xeon E3-1200 v3 (Haswell)'',
     FMQ 0 6 3 12 Mc ''Intel Mobile Core i*-4000U (Mobile M) (Haswell)'',
     FMQ 0 6 3 12 dc ''Intel Core i*-4000 / / Mobile Core i*-4000 (Haswell)'',
     FMQ 0 6 3 12 MC ''Intel Mobile Celeron 2900U (Mobile M) (Haswell)'',
     FMQ 0 6 3 12 dC ''Intel Celeron G1800 (Haswell)'',
     FMQ 0 6 3 12 MP ''Intel Mobile Pentium 3500U / 3600U / 3500Y (Mobile M) (Haswell)'',
     FMQ 0 6 3 12 dP ''Intel Pentium G3000 (Haswell)'',
     FM 0 6 3 12 ''Intel Core (unknown type) (Haswell)'',
     FMQ 0 6 3 13 dc ''Intel Core i*-5000 / Core M (Broadwell)'',
     FMQ 0 6 3 13 MC ''Intel Mobile Celeron 3000 (Broadwell)'',
     FMQ 0 6 3 13 dC ''Intel Celeron 3000 (Broadwell)'',
     FM 0 6 3 13 ''Intel Core (unknown type) (Broadwell)'',
     FMSQ 0 6 3 14 4 sX ''Intel Xeon E5-1600/E5-2600 v2 (Ivy Bridge-EP C1/M1/S1)'',
     FMSQ 0 6 3 14 4 dc ''Intel Core i7-4000 / i9-4000 (Ivy Bridge-EP S1)'',
     FMS 0 6 3 14 4 ''Intel Core (unknown type) (Ivy Bridge-EP C1/M1/S1)'',
     FMSQ 0 6 3 14 7 sX ''Intel Xeon E7 v2 (Ivy Bridge-EX D1)'',
     FMS 0 6 3 14 7 ''Intel Xeon (unknown type) (Ivy Bridge-EX D1)'',
     FMQ 0 6 3 14 sX ''Intel Xeon E5-1600/E5-2600 v2 (Ivy Bridge-EP) / Xeon E7 (Ivy Bridge-EX)'',
     FMQ 0 6 3 14 dc ''Intel Core i9-4000 (Ivy Bridge-EP)'',
     FM 0 6 3 14 ''Intel Core (unknown type) (Ivy Bridge-EP / Ivy Bridge-EX'',
     FMS 0 6 3 15 2 ''Intel Core i7-5000 Extreme Edition (Haswell R2) / Xeon E5-x600 v3 (Haswell-EP C1/M1/R2)'',
     FMS 0 6 3 15 4 ''Intel Xeon E7-4800 / E7-8800 v3 (Haswell-EP E0)'',
     FM 0 6 3 15 ''Intel Core (unknown type) (Haswell R2 / Haswell-EP)'',
     FMQ 0 6 4 5 dc ''Intel Core i*-4000U (Haswell)'',
     FMQ 0 6 4 5 Mc ''Intel Mobile Core i*-4000Y (Mobile U/Y) (Haswell)'',
     FMQ 0 6 4 5 MP ''Intel Mobile Pentium 3500U / 3600U / 3500Y (Mobile U/Y) (Haswell)'',
     FMQ 0 6 4 5 MC ''Intel Mobile Celeron 2900U (Mobile U/Y) (Haswell)'',
     FM 0 6 4 5 ''Intel Core (unknown type) (Haswell)'',
     FMQ 0 6 4 6 Mc ''Intel Mobile Core i*-4000Y (Mobile H) (Haswell)'',
     FMQ 0 6 4 6 dc ''Intel Core i* / Mobile Core i* (Desktop R) (Haswell)'',
     FMQ 0 6 4 6 MP ''Intel Mobile Pentium 3500U / 3600U / 3500Y (Mobile H) (Haswell)'',
     FMQ 0 6 4 6 dC ''Intel Celeron G1800 (Desktop R) (Haswell)'',
     FMQ 0 6 4 6 MC ''Intel Mobile Celeron 2900U (Mobile H) (Haswell)'',
     FMQ 0 6 4 6 dP ''Intel Pentium G3000 (Desktop R) (Haswell)'',
     FM 0 6 4 6 ''Intel Core (unknown type) (Haswell)'',
     FMQ 0 6 4 7 dc ''Intel Core i7-5000 (Broadwell)'',
     FMQ 0 6 4 7 Mc ''Intel Mobile Core i7-5000 (Broadwell)'',
     FMQ 0 6 4 7 sX ''Intel Xeon E3-1200 v4 (Broadwell)'',
     FM 0 6 4 7 ''Intel Core (unknown type) (Broadwell)'',
     FM 0 6 4 10 ''Intel Atom Z3400 (Merrifield)'',
     FMS 0 6 4 12 0 ''Intel Pentium N3000 / Celeron N3000 (Braswell C0)'',
     FM 0 6 4 12 ''Intel Pentium N3000 / Celeron N3000 (Braswell)'',
     FMS 0 6 4 13 0 ''Intel Atom C2000 (Avoton A0/A1)'']"

definition intel_rules_09 :: "rule list" where
  "intel_rules_09 =
    [FMS 0 6 4 13 8 ''Intel Atom C2000 (Avoton B0/C0)'',
     FM 0 6 4 13 ''Intel Atom C2000 (Avoton)'',
     FMQ 0 6 4 14 dc ''Intel Core i*-6000U / m*-6Y00 (Skylake)'',
     FMQ 0 6 4 14 dP ''Intel Pentium 4405U / Pentium 4405Y (Skylake)'',
     FMQ 0 6 4 14 dC ''Intel Celeron 3800U / 39000U (Skylake)'',
     FMQ 0 6 4 14 sX ''Intel Xeon E3-1500m (Skylake)'',
     FM 0 6 4 14 ''Intel Core (unknown type) (Skylake)'',
     FMQ 0 6 4 15 dc ''Intel Core i7-6800K / i7-6900K / i7-6900X (Broadwell-E)'',
     FMSQ 0 6 4 15 1 sX ''Intel Xeon E5-1600 / E5-2600 / E5-4600 v4 (Broadwell) / E7-4800 / E7-8800 v4 (Broadwell-EX B0)'',
     FMQ 0 6 4 15 sX ''Intel Xeon E5-1600 / E5-2600 / E5-4600 v4 (Broadwell) / E7-4800 / E7-8800 v4 (Broadwell-EX)'',
     FM 0 6 4 15 ''Intel Core (unknown type) (Broadwell / Broadwell-E / Broadwell-EX)'',
     FMSQ 0 6 5 5 2 sS ''Intel Scalable Bronze/Silver/Gold/Platinum (Skylake B0/L0)'',
     FMSQ 0 6 5 5 2 sX ''Intel Xeon W 2000 / D-2100 (Skylake B0/L0)'',
     FMSQ 0 6 5 5 4 sS ''Intel Scalable Bronze/Silver/Gold/Platinum (Skylake H0/M0/U0)'',
     FMSQ 0 6 5 5 4 sX ''Intel Xeon W 2000 (Skylake H0/M0/U0)'',
     FMSQ 0 6 5 5 6 sS ''Intel Scalable (2nd Gen) Bronze/Silver/Gold/Platinum (Cascade Lake)'',
     FMSQ 0 6 5 5 6 sX ''Intel Xeon W 2000 (Cascade Lake)'',
     FMSQ 0 6 5 5 7 dc ''Intel Core i*-10000X (Cascade Lake-X B1/L1/R1)'',
     FMSQ 0 6 5 5 7 sS ''Intel Scalable (2nd Gen) Bronze/Silver/Gold/Platinum (Cascade Lake B1/L1/R1)'',
     FMSQ 0 6 5 5 7 sX ''Intel Xeon W 2000 (Cascade Lake B1/L1/R1)'',
     FMQ 0 6 5 5 dc ''Intel Core i*-6000X / i*-7000X (Skylake-X) / i*-10000X (Cascade Lake-X)'',
     FMQ 0 6 5 5 sS ''Intel Scalable Bronze/Silver/Gold/Platinum (Skylake / Cascade Lake)'',
     FMQ 0 6 5 5 sX ''Intel Xeon W 2000 / D-2100 (Skylake / Cascade Lake)'',
     FM 0 6 5 5 ''Intel Core (unknown type) (Skylake / Skylake-X / Cascade Lake / Cascade Lake-X)'',
     FMS 0 6 5 6 1 ''Intel Xeon D-1500 (Broadwell-DE U0)'',
     FMS 0 6 5 6 2 ''Intel Xeon D-1500 (Broadwell-DE V1)'',
     FMS 0 6 5 6 3 ''Intel Xeon D-1500 (Broadwell-DE V2)'',
     FMS 0 6 5 6 4 ''Intel Xeon D-1500 (Broadwell-DE Y0)'',
     FMS 0 6 5 6 5 ''Intel Xeon D-1500N (Broadwell-DE A1)'',
     FM 0 6 5 6 ''Intel Xeon (unknown type) (Broadwell-DE)'',
     FMS 0 6 5 7 1 ''Intel Xeon Phi x200 (Knights Landing B0)'',
     FM 0 6 5 7 ''Intel Xeon Phi x200 (Knights Landing)'',
     FM 0 6 5 10 ''Intel Atom Z3500 (Moorefield)'',
     FMSQ 0 6 5 12 9 dP ''Intel Pentium N4000 / J4000 (Apollo Lake)'',
     FMSQ 0 6 5 12 9 dC ''Intel Celeron N3000 / J3000 (Apollo Lake)'',
     FMS 0 6 5 12 9 ''Intel Atom (unknown type) (Apollo Lake)'',
     FM 0 6 5 12 ''Intel Atom (unknown type) (Apollo Lake)'',
     FM 0 6 5 13 ''Intel Atom X3-C3000 (SoFIA)'',
     FMQ 0 6 5 14 dc ''Intel Core i*-6000 (Skylake)'',
     FMQ 0 6 5 14 dP ''Intel Pentium G4000 (Skylake)'',
     FMQ 0 6 5 14 dC ''Intel Celeron G3900 (Skylake)'',
     FMQ 0 6 5 14 sX ''Intel Xeon E3-1200 v5 (Skylake)'',
     FM 0 6 5 14 ''Intel Core (unknown type) (Skylake)'',
     FMS 0 6 5 15 0 ''Intel Atom C3000 (Denverton A0/A1)'',
     FMS 0 6 5 15 1 ''Intel Atom C3000 (Denverton B0/B1)'',
     FM 0 6 5 15 ''Intel Atom C3000 (Denverton)'',
     FM 0 6 6 6 ''Intel Core (Cannon Lake)'',
     FM 0 6 6 10 ''Intel Core (Ice Lake)'',
     FM 0 6 6 12 ''Intel Core (Ice Lake)'',
     FMSQ 0 6 7 10 1 dP ''Intel Pentium Silver N5000 / J5000 (Gemini Lake B0/R0)'']"

definition intel_rules_10 :: "rule list" where
  "intel_rules_10 =
    [FMSQ 0 6 7 10 1 dC ''Intel Celeron N4000 / J4000 (Gemini Lake B0/R0)'',
     FMS 0 6 7 10 1 ''Intel (unknown type) (Gemini Lake B0/R0)'',
     FMQ 0 6 7 10 dP ''Intel Pentium Silver N5000 / J5000 (Gemini Lake)'',
     FMQ 0 6 7 10 dC ''Intel Celeron N4000 / J4000 (Gemini Lake)'',
     FM 0 6 7 10 ''Intel (unknown type) (Gemini Lake)'',
     FM 0 6 7 13 ''Intel Core i*-10000 (Ice Lake)'',
     FMS 0 6 7 14 4 ''Intel Core i*-10000 (Ice Lake Y)'',
     FMS 0 6 7 14 5 ''Intel Core i*-10000 (Ice Lake U)'',
     FM 0 6 7 14 ''Intel Core i*-10000 (Ice Lake)'',
     FM 0 6 8 5 ''Intel Xeon Phi (Knights Mill)'',
     FM 0 6 8 12 ''Intel Core (Tiger Lake)'',
     FMSQ 0 6 8 14 9 LY ''Intel Core i*-8000Y (Amber Lake Y)'',
     FMSQ 0 6 8 14 9 dc ''Intel Core i*-8000U / i*-8000Y (Kaby Lake)'',
     FMSQ 0 6 8 14 10 dc ''Intel Core i*-8000U / i*-8000Y (Kaby Lake)'',
     FMSQ 0 6 8 14 11 LU ''Intel Core i*-8000U (Whiskey Lake W0)'',
     FMSQ 0 6 8 14 11 LY ''Intel Core i*-8000Y (Amber Lake W0)'',
     FMSQ 0 6 8 14 11 dc ''Intel Core (unknown type) (Whiskey Lake W0 / Amber Lake W0)'',
     FMSQ 0 6 8 14 12 UC ''Intel Core i*-10000U (Comet Lake V1)'',
     FMSQ 0 6 8 14 12 LU ''Intel Core i*-8000U (Whiskey Lake V0)'',
     FMSQ 0 6 8 14 12 LY ''Intel Core i*-8000Y (Amber Lake V0)'',
     FMSQ 0 6 8 14 12 dc ''Intel Core (unknown type) (Whiskey Lake V0 / Amber Lake V0 / Comet Lake V1)'',
     FMSQ 0 6 8 14 12 dP ''Intel Pentium 6000U (Comet Lake V1)'',
     FMSQ 0 6 8 14 12 dC ''Intel Celeron 5000U (Comet Lake V1)'',
     FMS 0 6 8 14 12 ''Intel (unknown type) (Whiskey Lake V0 / Amber Lake V0 / Comet Lake V1)'',
     FMQ 0 6 8 14 dc ''Intel Core i*-8000U / i*-8000Y / Core i*-10000 / Pentium 6000U / Celeron 5000U (Kaby Lake / Coffee Lake / Whiskey Lake / Amber Lake)'',
     FMQ 0 6 8 14 dP ''Intel Pentium 4410Y / 4415U /6000U (Kaby Lake / Coffee Lake / Comet Lake'',
     FMQ 0 6 8 14 dC ''Intel Celeron 3965Y / 3865U / 3965U / 5000U (Kaby Lake / Coffee Lake / Comet Lake)'',
     FM 0 6 8 14 ''Intel Core (unknown type) (Kaby Lake / Amber Lake / Whiskey Lake / Coffee Lake)'',
     FMSQ 0 6 9 14 9 dc ''Intel Core i*-7700 / i*-8700 (Kaby Lake)'',
     FMSQ 0 6 9 14 10 LU ''Intel Core i*-8000 / i*-9000 U Line (Coffee Lake D0)'',
     FMSQ 0 6 9 14 10 dc ''Intel Core i*-8000 / i*-9000 S/H Line (Coffee Lake U0)'',
     FMSQ 0 6 9 14 11 dc ''Intel Core i*-8000 / i*-9000 S Line (Coffee Lake B0)'',
     FMSQ 0 6 9 14 12 dc ''Intel Core i*-8000 / i*-9000 S Line (Coffee Lake P0)'',
     FMSQ 0 6 9 14 13 dc ''Intel Core i*-8000 / i*-9000 H Line (Coffee Lake R0)'',
     FMQ 0 6 9 14 dc ''Intel Core i*-8000 / i*-9000 (Kaby Lake / Coffee Lake)'',
     FMQ 0 6 9 14 dC ''Intel Celeron G3930 (Kaby Lake / Coffee Lake)'',
     FMQ 0 6 9 14 sX ''Intel Xeon E3-1200v6 / E3-1285v5 / E3-15x5Mv6 / E-2100 / E-2200 (Kaby Lake / Coffee Lake)'',
     FM 0 6 9 14 ''Intel Core (unknown type) (Kaby Lake / Coffee Lake)'',
     FM 0 6 10 6 ''Intel Core i*-10000 (Comet Lake)'',
     FQ 0 6 sX ''Intel Xeon (unknown model)'',
     FQ 0 6 se ''Intel Xeon (unknown model)'',
     FQ 0 6 MC ''Intel Mobile Celeron (unknown model)'',
     FQ 0 6 dC ''Intel Celeron (unknown model)'',
     FQ 0 6 Xc ''Intel Core Extreme (unknown model)'',
     FQ 0 6 Mc ''Intel Mobile Core (unknown model)'',
     FQ 0 6 dc ''Intel Core (unknown model)'',
     FQ 0 6 MP ''Intel Mobile Pentium (unknown model)'',
     FQ 0 6 dP ''Intel Pentium (unknown model)'',
     F 0 6 ''Intel (unknown model)'',
     FMS 0 7 0 6 4 ''Intel Itanium (Merced C0)'']"

definition intel_rules_11 :: "rule list" where
  "intel_rules_11 =
    [FMS 0 7 0 7 4 ''Intel Itanium (Merced C1)'',
     FMS 0 7 0 8 4 ''Intel Itanium (Merced C2)'',
     F 0 7 ''Intel Itanium (unknown model)'',
     FM 0 11 0 0 ''Intel Xeon Phi x100 Coprocessor (Knights Ferry)'',
     FMS 0 11 0 1 1 ''Intel Xeon Phi x100 Coprocessor (Knights Corner B0)'',
     FMS 0 11 0 1 3 ''Intel Xeon Phi x100 Coprocessor (Knights Corner B1)'',
     FMS 0 11 0 1 4 ''Intel Xeon Phi x100 Coprocessor (Knights Corner C0)'',
     FM 0 11 0 1 ''Intel Xeon Phi x100 Coprocessor (Knights Corner)'',
     FMS 0 15 0 0 7 ''Intel Pentium 4 (Willamette B2)'',
     FMSQ 0 15 0 0 10 dP ''Intel Pentium 4 (Willamette C1)'',
     FMSQ 0 15 0 0 10 sX ''Intel Xeon (Foster C1)'',
     FMS 0 15 0 0 10 ''Intel Pentium 4 (unknown type) 4 (Willamette/Foster C1)'',
     FMQ 0 15 0 0 dP ''Intel Pentium 4 (Willamette)'',
     FMQ 0 15 0 0 sX ''Intel Xeon (Foster)'',
     FM 0 15 0 0 ''Intel Pentium 4 (unknown type) (Willamette/Foster)'',
     FMS 0 15 0 1 1 ''Intel Xeon MP (Foster C0)'',
     FMSQ 0 15 0 1 2 dP ''Intel Pentium 4 (Willamette D0)'',
     FMSQ 0 15 0 1 2 sX ''Intel Xeon (Foster D0)'',
     FMS 0 15 0 1 2 ''Intel Pentium 4 (unknown type) (Willamette/Foster D0)'',
     FMSQ 0 15 0 1 3 dP ''Intel Pentium 4(Willamette E0)'',
     FMSQ 0 15 0 1 3 dC ''Intel Celeron 478-pin (Willamette E0)'',
     FMS 0 15 0 1 3 ''Intel Pentium 4 (unknown type) (Willamette/Foster E0)'',
     FMQ 0 15 0 1 dP ''Intel Pentium 4 (Willamette)'',
     FMQ 0 15 0 1 sX ''Intel Xeon (Foster)'',
     FM 0 15 0 1 ''Intel Pentium 4 (unknown type) (Willamette/Foster)'',
     FMS 0 15 0 2 2 ''Intel Xeon MP (Gallatin A0)'',
     FMSQ 0 15 0 2 4 sX ''Intel Xeon (Prestonia B0)'',
     FMSQ 0 15 0 2 4 MM ''Intel Mobile Pentium 4 Processor-M (Northwood B0)'',
     FMSQ 0 15 0 2 4 MC ''Intel Mobile Celeron (Northwood B0)'',
     FMSQ 0 15 0 2 4 dP ''Intel Pentium 4 (Northwood B0)'',
     FMS 0 15 0 2 4 ''Intel Pentium 4 (unknown type) (Northwood/Prestonia B0)'',
     FMSQ 0 15 0 2 5 dP ''Intel Pentium 4 (Northwood B1/M0)'',
     FMSQ 0 15 0 2 5 sM ''Intel Xeon MP (Gallatin B1)'',
     FMSQ 0 15 0 2 5 sX ''Intel Xeon (Prestonia B1)'',
     FMS 0 15 0 2 5 ''Intel Pentium 4 (unknown type) (Northwood/Prestonia/Gallatin B1/M0)'',
     FMS 0 15 0 2 6 ''Intel Xeon MP (Gallatin C0)'',
     FMSQ 0 15 0 2 7 sX ''Intel Xeon (Prestonia C1)'',
     FMSQ 0 15 0 2 7 dC ''Intel Celeron 478-pin (Northwood C1)'',
     FMSQ 0 15 0 2 7 MC ''Intel Mobile Celeron (Northwood C1)'',
     FMSQ 0 15 0 2 7 MM ''Intel Mobile Pentium 4 Processor-M (Northwood C1)'',
     FMSQ 0 15 0 2 7 dP ''Intel Pentium 4 (Northwood C1)'',
     FMS 0 15 0 2 7 ''Intel Pentium 4 (unknown type) (Northwood/Prestonia C1)'',
     FMSQ 0 15 0 2 9 sX ''Intel Xeon (Prestonia D1)'',
     FMSQ 0 15 0 2 9 dC ''Intel Celeron 478-pin (Northwood D1)'',
     FMSQ 0 15 0 2 9 MC ''Intel Mobile Celeron (Northwood D1)'',
     FMSQ 0 15 0 2 9 MM ''Intel Mobile Pentium 4 Processor-M (Northwood D1)'',
     FMSQ 0 15 0 2 9 MP ''Intel Mobile Pentium 4 (Northwood D1)'',
     FMSQ 0 15 0 2 9 dP ''Intel Pentium 4 (Northwood D1)'',
     FMS 0 15 0 2 9 ''Intel Pentium 4 (unknown type) (Northwood/Prestonia D1)'',
     FMQ 0 15 0 2 dP ''Intel Pentium 4 (Northwood)'']"

definition intel_rules_12 :: "rule list" where
  "intel_rules_12 =
    [FMQ 0 15 0 2 sM ''Intel Xeon MP (Gallatin)'',
     FMQ 0 15 0 2 sX ''Intel Xeon (Prestonia)'',
     FM 0 15 0 2 ''Intel Pentium 4 (unknown type) (Northwood/Prestonia/Gallatin)'',
     FMSQ 0 15 0 3 3 dP ''Intel Pentium 4 (Prescott C0)'',
     FMSQ 0 15 0 3 3 dC ''Intel Celeron D (Prescott C0)'',
     FMS 0 15 0 3 3 ''Intel Pentium 4 (unknown type) (Prescott C0)'',
     FMSQ 0 15 0 3 4 sX ''Intel Xeon (Nocona D0)'',
     FMSQ 0 15 0 3 4 dC ''Intel Celeron D (Prescott D0)'',
     FMSQ 0 15 0 3 4 MP ''Intel Mobile Pentium 4 (Prescott D0)'',
     FMSQ 0 15 0 3 4 dP ''Intel Pentium 4 (Prescott D0)'',
     FMS 0 15 0 3 4 ''Intel Pentium 4 (unknown type) (Prescott/Nocona D0)'',
     FMQ 0 15 0 3 sX ''Intel Xeon (Nocona)'',
     FMQ 0 15 0 3 dC ''Intel Celeron D (Prescott)'',
     FMQ 0 15 0 3 MP ''Intel Mobile Pentium 4 (Prescott)'',
     FMQ 0 15 0 3 dP ''Intel Pentium 4 (Prescott)'',
     FM 0 15 0 3 ''Intel Pentium 4 (unknown type) (Prescott/Nocona)'',
     FMSQ 0 15 0 4 1 sP ''Intel Xeon MP (Potomac C0)'',
     FMSQ 0 15 0 4 1 sM ''Intel Xeon MP (Cranford A0)'',
     FMSQ 0 15 0 4 1 sX ''Intel Xeon (Nocona E0)'',
     FMSQ 0 15 0 4 1 dC ''Intel Celeron D (Prescott E0)'',
     FMSQ 0 15 0 4 1 MP ''Intel Mobile Pentium 4 (Prescott E0)'',
     FMSQ 0 15 0 4 1 dP ''Intel Pentium 4 (Prescott E0)'',
     FMS 0 15 0 4 1 ''Intel Pentium 4 (unknown type) (Prescott/Nocona/Cranford/Potomac E0)'',
     FMSQ 0 15 0 4 3 sI ''Intel Xeon (Irwindale N0)'',
     FMSQ 0 15 0 4 3 sX ''Intel Xeon (Nocona N0)'',
     FMSQ 0 15 0 4 3 dP ''Intel Pentium 4 (Prescott N0)'',
     FMS 0 15 0 4 3 ''Intel Pentium 4 (unknown type) (Prescott/Nocona/Irwindale N0)'',
     FMSQ 0 15 0 4 4 dc ''Intel Pentium Extreme Edition Processor 840 (Smithfield A0)'',
     FMSQ 0 15 0 4 4 dd ''Intel Pentium D Processor 8x0 (Smithfield A0)'',
     FMS 0 15 0 4 4 ''Intel Pentium D (unknown type) (Smithfield A0)'',
     FMSQ 0 15 0 4 7 dc ''Pentium Extreme Edition Processor 840 (Smithfield B0)'',
     FMSQ 0 15 0 4 7 dd ''Intel Pentium D Processor 8x0 (Smithfield B0)'',
     FMS 0 15 0 4 7 ''Intel Pentium D (unknown type) (Smithfield B0)'',
     FMSQ 0 15 0 4 8 s7 ''Intel Dual-Core Xeon Processor 7000 (Paxville A0)'',
     FMSQ 0 15 0 4 8 sX ''Intel Dual-Core Xeon (Paxville A0)'',
     FMS 0 15 0 4 8 ''Intel Dual-Core Xeon (unknown type) (Paxville A0)'',
     FMSQ 0 15 0 4 9 sM ''Intel Xeon MP (Cranford B0)'',
     FMSQ 0 15 0 4 9 dC ''Intel Celeron D (Prescott G1)'',
     FMSQ 0 15 0 4 9 dP ''Intel Pentium 4 (Prescott G1)'',
     FMS 0 15 0 4 9 ''Intel Pentium 4 (unknown type) (Prescott/Cranford G1)'',
     FMSQ 0 15 0 4 10 sI ''Intel Xeon (Irwindale R0)'',
     FMSQ 0 15 0 4 10 sX ''Intel Xeon (Nocona R0)'',
     FMSQ 0 15 0 4 10 dP ''Intel Pentium 4 (Prescott R0)'',
     FMS 0 15 0 4 10 ''Intel Pentium 4 (unknown type) (Prescott/Nocona/Irwindale R0)'',
     FMQ 0 15 0 4 sM ''Intel Xeon MP (Nocona/Potomac)'',
     FMQ 0 15 0 4 sX ''Intel Xeon (Nocona/Irwindale)'',
     FMQ 0 15 0 4 dC ''Intel Celeron D (Prescott)'',
     FMQ 0 15 0 4 MP ''Intel Mobile Pentium 4 (Prescott)'',
     FMQ 0 15 0 4 dd ''Intel Pentium D (Smithfield A0)'',
     FMQ 0 15 0 4 dP ''Intel Pentium 4 (Prescott) / Pentium Extreme Edition (Smithfield A0)'']"

definition intel_rules_13 :: "rule list" where
  "intel_rules_13 =
    [FM 0 15 0 4 ''Intel Pentium 4 (unknown type) (Prescott/Nocona/Irwindale/Smithfield/Cranford/Potomac)'',
     FMSQ 0 15 0 6 2 dd ''Intel Pentium D Processor 9xx (Presler B1)'',
     FMSQ 0 15 0 6 2 dP ''Intel Pentium 4 Processor 6x1 (Cedar Mill B1) / Pentium Extreme Edition Processor 955 (Presler B1)'',
     FMS 0 15 0 6 2 ''Intel Pentium 4 (unknown type) (Cedar Mill/Presler B1)'',
     FMSQ 0 15 0 6 4 dd ''Intel Pentium D Processor 9xx (Presler C1)'',
     FMSQ 0 15 0 6 4 dP ''Intel Pentium 4 Processor 6x1 (Cedar Mill C1) / Pentium Extreme Edition Processor 955 (Presler C1)'',
     FMSQ 0 15 0 6 4 dC ''Intel Celeron D Processor 34x/35x (Cedar Mill C1)'',
     FMSQ 0 15 0 6 4 sX ''Intel Xeon Processor 5000 (Dempsey C1)'',
     FMS 0 15 0 6 4 ''Intel Pentium 4 (unknown type) (Cedar Mill/Presler/Dempsey C1)'',
     FMSQ 0 15 0 6 5 dC ''Intel Celeron D Processor 36x (Cedar Mill D0)'',
     FMSQ 0 15 0 6 5 dd ''Intel Pentium D Processor 9xx (Presler D0)'',
     FMSQ 0 15 0 6 5 dP ''Intel Pentium 4 Processor 6x1 (Cedar Mill D0) / Pentium Extreme Edition Processor 955 (Presler D0)'',
     FMS 0 15 0 6 5 ''Intel Pentium 4 (unknown type) (Cedar Mill/Presler D0)'',
     FMS 0 15 0 6 8 ''Intel Xeon Processor 71x0 (Tulsa B0)'',
     FMQ 0 15 0 6 dd ''Intel Pentium D (Presler)'',
     FMQ 0 15 0 6 dP ''Intel Pentium 4 (Cedar Mill) / Pentium Extreme Edition (Presler)'',
     FMQ 0 15 0 6 dC ''Intel Celeron D (Cedar Mill)'',
     FMQ 0 15 0 6 sX ''Intel Xeon (Dempsey / Tulsa)'',
     FM 0 15 0 6 ''Intel Pentium 4 (unknown type) (Cedar Mill/Presler/Dempsey/Tulsa)'',
     FQ 0 15 sM ''Intel Xeon MP (unknown model)'',
     FQ 0 15 sX ''Intel Xeon (unknown model)'',
     FQ 0 15 MC ''Intel Mobile Celeron (unknown model)'',
     FQ 0 15 MC ''Intel Mobile Pentium 4 (unknown model)'',
     FQ 0 15 MM ''Intel Mobile Pentium 4 Processor-M (unknown model)'',
     FQ 0 15 dC ''Intel Celeron (unknown model)'',
     FQ 0 15 dd ''Intel Pentium D (unknown model)'',
     FQ 0 15 dP ''Intel Pentium 4 (unknown model)'',
     FQ 0 15 dc ''Intel Pentium (unknown model)'',
     F 0 15 ''Intel Pentium 4 / Pentium D / Xeon / Xeon MP / Celeron / Celeron D (unknown model)'',
     FMS 1 15 0 0 7 ''Intel Itanium2 (McKinley B3)'',
     FM 1 15 0 0 ''Intel Itanium2 (McKinley)'',
     FMS 1 15 0 1 5 ''Intel Itanium2 (Madison/Deerfield/Hondo B1)'',
     FM 1 15 0 1 ''Intel Itanium2 (Madison/Deerfield/Hondo)'',
     FMS 1 15 0 2 1 ''Intel Itanium2 (Madison 9M/Fanwood A1)'',
     FMS 1 15 0 2 2 ''Intel Itanium2 (Madison 9M/Fanwood A2)'',
     FM 1 15 0 2 ''Intel Itanium2 (Madison)'',
     F 1 15 ''Intel Itanium2 (unknown model)'',
     FMS 2 0 0 0 5 ''Intel Itanium2 Dual-Core Processor 9000 (Montecito/Millington C1), 90nm'',
     FMS 2 0 0 0 7 ''Intel Itanium2 Dual-Core Processor 9000 (Montecito/Millington C2), 90nm'',
     FM 2 0 0 0 ''Intel Itanium2 Dual-Core Processor 9000 (Montecito/Millington), 90nm'',
     FMS 2 0 0 1 1 ''Intel Itanium2 Dual-Core Processor 9100 (Montvale A1), 90nm'',
     FM 2 0 0 1 ''Intel Itanium2 Dual-Core Processor 9100 (Montvale), 90nm'',
     FMS 2 0 0 2 4 ''Intel Itanium2 Processor 9300 (Tukwila E0), 65nm'',
     FM 2 0 0 2 ''Intel Itanium2 Processor 9300 (Tukwila), 65nm'',
     F 2 0 ''Intel Itanium2 (unknown model)'',
     FMS 2 1 0 0 4 ''Intel Itanium2 Processor 9500 (Poulson D0), 32nm'',
     FMS 2 1 0 0 5 ''Intel Itanium2 Processor 9700 (Kittson E0), 22nm'',
     FM 2 1 0 0 ''Intel Itanium2 (unknown model) (Poulson/Kittson)'',
     F 2 1 ''Intel Itanium2 (unknown model)'',
     DEFAULT ''unknown'']"

definition intel_rules :: "rule list" where
  "intel_rules =
     intel_rules_01
     @ intel_rules_02
     @ intel_rules_03
     @ intel_rules_04
     @ intel_rules_05
     @ intel_rules_06
     @ intel_rules_07
     @ intel_rules_08
     @ intel_rules_09
     @ intel_rules_10
     @ intel_rules_11
     @ intel_rules_12
     @ intel_rules_13"

section \<open>The rule table of decode\_synth\_amd\<close>

text \<open>
  The rules between \<^verbatim>\<open>START\<close> and \<^verbatim>\<open>DEFAULT\<close> (included) of \<^verbatim>\<open>decode_synth_amd\<close>, in the
  order of the source, cut into consecutive pieces.
\<close>

definition amd_rules_01 :: "rule list" where
  "amd_rules_01 =
    [FM 0 4 0 3 ''AMD 80486DX2'',
     FM 0 4 0 7 ''AMD 80486DX2WB'',
     FM 0 4 0 8 ''AMD 80486DX4'',
     FM 0 4 0 9 ''AMD 80486DX4WB'',
     FM 0 4 0 14 ''AMD 5x86'',
     FM 0 4 0 15 ''AMD 5xWB'',
     F 0 4 ''AMD 80486 / 5x (unknown model)'',
     FM 0 5 0 0 ''AMD SSA5 (PR75, PR90, PR100)'',
     FM 0 5 0 1 ''AMD 5k86 (PR120, PR133)'',
     FM 0 5 0 2 ''AMD 5k86 (PR166)'',
     FM 0 5 0 3 ''AMD 5k86 (PR200)'',
     FM 0 5 0 5 ''AMD Geode GX'',
     FM 0 5 0 6 ''AMD K6'',
     FM 0 5 0 7 ''AMD K6 (Little Foot)'',
     FMS 0 5 0 8 0 ''AMD K6-2 (Chomper A)'',
     FMS 0 5 0 8 12 ''AMD K6-2 (Chomper A)'',
     FM 0 5 0 8 ''AMD K6-2 (Chomper)'',
     FMS 0 5 0 9 1 ''AMD K6-III (Sharptooth B)'',
     FM 0 5 0 9 ''AMD K6-III (Sharptooth)'',
     FM 0 5 0 10 ''AMD Geode LX'',
     FM 0 5 0 13 ''AMD K6-2+, K6-III+'',
     F 0 5 ''AMD 5k86 / K6 / Geode (unknown model)'',
     FM 0 6 0 1 ''AMD Athlon (Argon)'',
     FM 0 6 0 2 ''AMD Athlon (K75 / Pluto / Orion)'',
     FMS 0 6 0 3 0 ''AMD Duron / mobile Duron (Spitfire A0)'',
     FMS 0 6 0 3 1 ''AMD Duron / mobile Duron (Spitfire A2)'',
     FM 0 6 0 3 ''AMD Duron / mobile Duron (Spitfire)'',
     FMS 0 6 0 4 2 ''AMD Athlon (Thunderbird A4-A7)'',
     FMS 0 6 0 4 4 ''AMD Athlon (Thunderbird A9)'',
     FM 0 6 0 4 ''AMD Athlon (Thunderbird)'',
     FMSQ 0 6 0 6 0 sA ''AMD Athlon MP (Palomino A0)'',
     FMSQ 0 6 0 6 0 dA ''AMD Athlon (Palomino A0)'',
     FMSQ 0 6 0 6 0 MA ''AMD mobile Athlon 4 (Palomino A0)'',
     FMSQ 0 6 0 6 0 sD ''AMD Duron MP (Palomino A0)'',
     FMSQ 0 6 0 6 0 MD ''AMD mobile Duron (Palomino A0)'',
     FMS 0 6 0 6 0 ''AMD Athlon (unknown type)  (Palomino A0)'',
     FMSQ 0 6 0 6 1 sA ''AMD Athlon MP (Palomino A2)'',
     FMSQ 0 6 0 6 1 dA ''AMD Athlon (Palomino A2)'',
     FMSQ 0 6 0 6 1 MA ''AMD mobile Athlon 4 (Palomino A2)'',
     FMSQ 0 6 0 6 1 sD ''AMD Duron MP (Palomino A2)'',
     FMSQ 0 6 0 6 1 MD ''AMD mobile Duron (Palomino A2)'',
     FMSQ 0 6 0 6 1 dD ''AMD Duron (Palomino A2)'',
     FMS 0 6 0 6 1 ''AMD Athlon (unknown type) (Palomino A2)'',
     FMSQ 0 6 0 6 2 sA ''AMD Athlon MP (Palomino A5)'',
     FMSQ 0 6 0 6 2 dX ''AMD Athlon XP (Palomino A5)'',
     FMSQ 0 6 0 6 2 MA ''AMD mobile Athlon 4 (Palomino A5)'',
     FMSQ 0 6 0 6 2 sD ''AMD Duron MP (Palomino A5)'',
     FMSQ 0 6 0 6 2 MD ''AMD mobile Duron (Palomino A5)'',
     FMSQ 0 6 0 6 2 dD ''AMD Duron (Palomino A5)'',
     FMS 0 6 0 6 2 ''AMD Athlon (unknown type) (Palomino A5)'']"

definition amd_rules_02 :: "rule list" where
  "amd_rules_02 =
    [FMQ 0 6 0 6 MD ''AMD mobile Duron (Palomino)'',
     FMQ 0 6 0 6 dD ''AMD Duron (Palomino)'',
     FMQ 0 6 0 6 MA ''AMD mobile Athlon (Palomino)'',
     FMQ 0 6 0 6 dX ''AMD Athlon XP (Palomino)'',
     FMQ 0 6 0 6 dA ''AMD Athlon (Palomino)'',
     FM 0 6 0 6 ''AMD Athlon (unknown type) (Palomino)'',
     FMSQ 0 6 0 7 0 sD ''AMD Duron MP (Morgan A0)'',
     FMSQ 0 6 0 7 0 MD ''AMD mobile Duron (Morgan A0)'',
     FMSQ 0 6 0 7 0 dD ''AMD Duron (Morgan A0)'',
     FMS 0 6 0 7 0 ''AMD Duron (unknown type)  (Morgan A0)'',
     FMSQ 0 6 0 7 1 sD ''AMD Duron MP (Morgan A1)'',
     FMSQ 0 6 0 7 1 MD ''AMD mobile Duron (Morgan A1)'',
     FMSQ 0 6 0 7 1 dD ''AMD Duron (Morgan A1)'',
     FMS 0 6 0 7 1 ''AMD Duron (unknown type)  (Morgan A1)'',
     FMQ 0 6 0 7 sD ''AMD Duron MP (Morgan)'',
     FMQ 0 6 0 7 MD ''AMD mobile Duron (Morgan)'',
     FMQ 0 6 0 7 dD ''AMD Duron (Morgan)'',
     FM 0 6 0 7 ''AMD Duron (unknown type)  (Morgan)'',
     FMSQ 0 6 0 8 0 dS ''AMD Sempron (Thoroughbred A0)'',
     FMSQ 0 6 0 8 0 sD ''AMD Duron MP (Applebred A0)'',
     FMSQ 0 6 0 8 0 dD ''AMD Duron (Applebred A0)'',
     FMSQ 0 6 0 8 0 MX ''AMD mobile Athlon XP (Thoroughbred A0)'',
     FMSQ 0 6 0 8 0 sA ''AMD Athlon MP (Thoroughbred A0)'',
     FMSQ 0 6 0 8 0 dX ''AMD Athlon XP (Thoroughbred A0)'',
     FMSQ 0 6 0 8 0 dA ''AMD Athlon (Thoroughbred A0)'',
     FMS 0 6 0 8 0 ''AMD Athlon (unknown type) (Thoroughbred A0)'',
     FMSQ 0 6 0 8 1 MG ''AMD Geode NX (Thoroughbred B0)'',
     FMSQ 0 6 0 8 1 dS ''AMD Sempron (Thoroughbred B0)'',
     FMSQ 0 6 0 8 1 sD ''AMD Duron MP (Applebred B0)'',
     FMSQ 0 6 0 8 1 dD ''AMD Duron (Applebred B0)'',
     FMSQ 0 6 0 8 1 sA ''AMD Athlon MP (Thoroughbred B0)'',
     FMSQ 0 6 0 8 1 dX ''AMD Athlon XP (Thoroughbred B0)'',
     FMSQ 0 6 0 8 1 dA ''AMD Athlon (Thoroughbred B0)'',
     FMS 0 6 0 8 1 ''AMD Athlon (unknown type) (Thoroughbred B0)'',
     FMQ 0 6 0 8 MG ''AMD Geode NX (Thoroughbred)'',
     FMQ 0 6 0 8 dS ''AMD Sempron (Thoroughbred)'',
     FMQ 0 6 0 8 sD ''AMD Duron MP (Thoroughbred)'',
     FMQ 0 6 0 8 dD ''AMD Duron (Thoroughbred)'',
     FMQ 0 6 0 8 MX ''AMD mobile Athlon XP (Thoroughbred)'',
     FMQ 0 6 0 8 sA ''AMD Athlon MP (Thoroughbred)'',
     FMQ 0 6 0 8 dX ''AMD Athlon XP (Thoroughbred)'',
     FMQ 0 6 0 8 dA ''AMD Athlon XP (Thoroughbred)'',
     FM 0 6 0 8 ''AMD Athlon (unknown type) (Thoroughbred)'',
     FMSQ 0 6 0 10 0 dS ''AMD Sempron (Barton A2)'',
     FMSQ 0 6 0 10 0 ML_lv ''AMD mobile Athlon XP-M (LV) (Barton A2)'',
     FMSQ 0 6 0 10 0 MX ''AMD mobile Athlon XP-M (Barton A2)'',
     FMSQ 0 6 0 10 0 dt ''AMD Athlon XP (Thorton A2)'',
     FMSQ 0 6 0 10 0 sA ''AMD Athlon MP (Barton A2)'',
     FMSQ 0 6 0 10 0 dX ''AMD Athlon XP (Barton A2)'',
     FMS 0 6 0 10 0 ''AMD Athlon (unknown type) (Barton A2)'']"

definition amd_rules_03 :: "rule list" where
  "amd_rules_03 =
    [FMQ 0 6 0 10 dS ''AMD Sempron (Barton)'',
     FMQ 0 6 0 10 ML_lv ''AMD mobile Athlon XP-M (LV) (Barton)'',
     FMQ 0 6 0 10 MX ''AMD mobile Athlon XP-M (Barton)'',
     FMQ 0 6 0 10 sA ''AMD Athlon MP (Barton)'',
     FMQ 0 6 0 10 dX ''AMD Athlon XP (Barton)'',
     FM 0 6 0 10 ''AMD Athlon (unknown type) (Barton)'',
     F 0 6 ''AMD Athlon (unknown model)'',
     F 0 7 ''AMD Opteron (unknown model)'',
     FMS 0 15 0 4 0 ''AMD Athlon 64 (SledgeHammer SH7-B0)'',
     FMSQ 0 15 0 4 8 MX ''AMD mobile Athlon XP-M (SledgeHammer SH7-C0)'',
     FMSQ 0 15 0 4 8 MA ''AMD mobile Athlon 64 (SledgeHammer SH7-C0)'',
     FMSQ 0 15 0 4 8 dA ''AMD Athlon 64 (SledgeHammer SH7-C0)'',
     FMS 0 15 0 4 8 ''AMD Athlon 64 (unknown type) (SledgeHammer SH7-C0)'',
     FMSQ 0 15 0 4 10 MX ''AMD mobile Athlon XP-M (SledgeHammer SH7-CG)'',
     FMSQ 0 15 0 4 10 MA ''AMD mobile Athlon 64 (SledgeHammer SH7-CG)'',
     FMSQ 0 15 0 4 10 dA ''AMD Athlon 64 (SledgeHammer SH7-CG)'',
     FMS 0 15 0 4 10 ''AMD Athlon 64 (unknown type) (SledgeHammer SH7-CG)'',
     FMQ 0 15 0 4 MX ''AMD mobile Athlon XP-M (SledgeHammer SH7)'',
     FMQ 0 15 0 4 MA ''AMD mobile Athlon 64 (SledgeHammer SH7)'',
     FMQ 0 15 0 4 dA ''AMD Athlon 64 (SledgeHammer SH7)'',
     FM 0 15 0 4 ''AMD Athlon 64 (unknown type) (SledgeHammer SH7)'',
     FMS 0 15 0 5 0 ''AMD Opteron (DP SledgeHammer SH7-B0)'',
     FMS 0 15 0 5 1 ''AMD Opteron (DP SledgeHammer SH7-B3)'',
     FMSQ 0 15 0 5 8 sO ''AMD Opteron (DP SledgeHammer SH7-C0)'',
     FMSQ 0 15 0 5 8 dF ''AMD Athlon 64 FX (DP SledgeHammer SH7-C0)'',
     FMS 0 15 0 5 8 ''AMD Athlon 64 (unknown type) (DP SledgeHammer SH7-C0)'',
     FMSQ 0 15 0 5 10 sO ''AMD Opteron (DP SledgeHammer SH7-CG)'',
     FMSQ 0 15 0 5 10 dF ''AMD Athlon 64 FX (DP SledgeHammer SH7-CG)'',
     FMS 0 15 0 5 10 ''AMD Athlon 64 (unknown type) (DP SledgeHammer SH7-CG)'',
     FMQ 0 15 0 5 sO ''AMD Opteron (SledgeHammer SH7)'',
     FMQ 0 15 0 5 dF ''AMD Athlon 64 FX (SledgeHammer SH7)'',
     FM 0 15 0 5 ''AMD Athlon 64 (unknown type) (SledgeHammer SH7) FX'',
     FMSQ 0 15 0 7 10 dF ''AMD Athlon 64 FX (DP SledgeHammer SH7-CG)'',
     FMSQ 0 15 0 7 10 dA ''AMD Athlon 64 (DP SledgeHammer SH7-CG)'',
     FMS 0 15 0 7 10 ''AMD Athlon 64 (unknown type) (DP SledgeHammer SH7-CG)'',
     FMQ 0 15 0 7 dF ''AMD Athlon 64 FX (DP SledgeHammer SH7)'',
     FMQ 0 15 0 7 dA ''AMD Athlon 64 (DP SledgeHammer SH7)'',
     FM 0 15 0 7 ''AMD Athlon 64 (unknown type) (DP SledgeHammer SH7)'',
     FMSQ 0 15 0 8 2 MS ''AMD mobile Sempron (ClawHammer CH7-CG)'',
     FMSQ 0 15 0 8 2 MX ''AMD mobile Athlon XP-M (ClawHammer CH7-CG)'',
     FMSQ 0 15 0 8 2 MA ''AMD mobile Athlon 64 (Odessa CH7-CG)'',
     FMSQ 0 15 0 8 2 dA ''AMD Athlon 64 (ClawHammer CH7-CG)'',
     FMS 0 15 0 8 2 ''AMD Athlon 64 (unknown type) (ClawHammer/Odessa CH7-CG)'',
     FMQ 0 15 0 8 MS ''AMD mobile Sempron (Odessa CH7)'',
     FMQ 0 15 0 8 MX ''AMD mobile Athlon XP-M (Odessa CH7)'',
     FMQ 0 15 0 8 MA ''AMD mobile Athlon 64 (Odessa CH7)'',
     FMQ 0 15 0 8 dA ''AMD Athlon 64 (ClawHammer CH7)'',
     FM 0 15 0 8 ''AMD Athlon 64 (unknown type) (ClawHammer/Odessa CH7)'',
     FMS 0 15 0 11 2 ''AMD Athlon 64 (ClawHammer CH7-CG)'',
     FM 0 15 0 11 ''AMD Athlon 64 (ClawHammer CH7)'']"

definition amd_rules_04 :: "rule list" where
  "amd_rules_04 =
    [FMSQ 0 15 0 12 0 MS ''AMD mobile Sempron (Dublin DH7-CG)'',
     FMSQ 0 15 0 12 0 dS ''AMD Sempron (Paris DH7-CG)'',
     FMSQ 0 15 0 12 0 MX ''AMD mobile Athlon XP-M (ClawHammer/Odessa DH7-CG)'',
     FMSQ 0 15 0 12 0 MA ''AMD mobile Athlon 64 (ClawHammer/Odessa DH7-CG)'',
     FMSQ 0 15 0 12 0 dA ''AMD Athlon 64 (NewCastle DH7-CG)'',
     FMS 0 15 0 12 0 ''AMD Athlon 64 (unknown type) (ClawHammer/Odessa/NewCastle/Paris/Dublin DH7-CG)'',
     FMQ 0 15 0 12 MS ''AMD mobile Sempron (Dublin DH7)'',
     FMQ 0 15 0 12 dS ''AMD Sempron (Paris DH7)'',
     FMQ 0 15 0 12 MX ''AMD mobile Athlon XP-M (NewCastle DH7)'',
     FMQ 0 15 0 12 MA ''AMD mobile Athlon 64 (ClawHammer/Odessa DH7)'',
     FMQ 0 15 0 12 dA ''AMD Athlon 64 (NewCastle DH7)'',
     FM 0 15 0 12 ''AMD Athlon 64 (unknown type) (ClawHammer/Odessa/NewCastle/Paris/Dublin DH7)'',
     FMSQ 0 15 0 14 0 MS ''AMD mobile Sempron (Dublin DH7-CG)'',
     FMSQ 0 15 0 14 0 dS ''AMD Sempron (Paris DH7-CG)'',
     FMSQ 0 15 0 14 0 MX ''AMD mobile Athlon XP-M (ClawHammer/Odessa DH7-CG)'',
     FMSQ 0 15 0 14 0 MA ''AMD mobile Athlon 64 (ClawHammer/Odessa DH7-CG)'',
     FMSQ 0 15 0 14 0 dA ''AMD Athlon 64 (NewCastle DH7-CG)'',
     FMS 0 15 0 14 0 ''AMD Athlon 64 (unknown type) (ClawHammer/Odessa/NewCastle/Paris/Dublin DH7-CG)'',
     FMQ 0 15 0 14 dS ''AMD Sempron (Paris DH7)'',
     FMQ 0 15 0 14 MS ''AMD mobile Sempron (Dublin DH7)'',
     FMQ 0 15 0 14 MX ''AMD mobile Athlon XP-M (ClawHammer/Odessa DH7)'',
     FMQ 0 15 0 14 MA ''AMD mobile Athlon 64 (ClawHammer/Odessa DH7)'',
     FMQ 0 15 0 14 dA ''AMD Athlon 64 (NewCastle DH7)'',
     FM 0 15 0 14 ''AMD Athlon 64 (unknown type) (ClawHammer/Odessa/NewCastle/Paris/Dublin DH7)'',
     FMSQ 0 15 0 15 0 dS ''AMD Sempron (Paris DH7-CG)'',
     FMSQ 0 15 0 15 0 MA ''AMD mobile Athlon 64 (ClawHammer/Odessa DH7-CG)'',
     FMSQ 0 15 0 15 0 dA ''AMD Athlon 64 (NewCastle DH7-CG)'',
     FMS 0 15 0 15 0 ''AMD Athlon 64 (unknown type) (ClawHammer/Odessa/NewCastle/Paris DH7-CG)'',
     FMQ 0 15 0 15 dS ''AMD Sempron (Paris DH7)'',
     FMQ 0 15 0 15 MA ''AMD mobile Athlon 64 (ClawHammer/Odessa DH7)'',
     FMQ 0 15 0 15 dA ''AMD Athlon 64 (NewCastle DH7)'',
     FM 0 15 0 15 ''AMD Athlon 64 (unknown type) (ClawHammer/Odessa/NewCastle/Paris DH7)'',
     FMSQ 0 15 1 4 0 MX ''AMD mobile Athlon XP-M (Oakville SH7-D0)'',
     FMSQ 0 15 1 4 0 MA ''AMD mobile Athlon 64 (Oakville SH7-D0)'',
     FMSQ 0 15 1 4 0 dA ''AMD Athlon 64 (Winchester SH7-D0)'',
     FMS 0 15 1 4 0 ''AMD Athlon 64 (unknown type) (Winchester/Oakville SH7-D0)'',
     FMQ 0 15 1 4 MX ''AMD mobile Athlon XP-M (Oakville SH7)'',
     FMQ 0 15 1 4 MA ''AMD mobile Athlon 64 (Oakville SH7)'',
     FMQ 0 15 1 4 dA ''AMD Athlon 64 (Winchester SH7)'',
     FM 0 15 1 4 ''AMD Athlon 64 (unknown type) (Winchester/Oakville SH7)'',
     FMSQ 0 15 1 5 0 sO ''AMD Opteron (Winchester SH7-D0)'',
     FMSQ 0 15 1 5 0 dF ''AMD Athlon 64 FX (Winchester SH7-D0)'',
     FMS 0 15 1 5 0 ''AMD Athlon 64 (unknown type) (Winchester SH7-D0)'',
     FMQ 0 15 1 5 sO ''AMD Opteron (Winchester SH7)'',
     FMQ 0 15 1 5 dF ''AMD Athlon 64 FX (Winchester SH7)'',
     FM 0 15 1 5 ''AMD Athlon 64 (unknown type) (Winchester SH7)'',
     FMSQ 0 15 1 7 0 dF ''AMD Athlon 64 FX (Winchester SH7-D0)'',
     FMSQ 0 15 1 7 0 dA ''AMD Athlon 64 (Winchester SH7-D0)'',
     FMS 0 15 1 7 0 ''AMD Athlon 64 (unknown type) (Winchester SH7-D0)'',
     FMQ 0 15 1 7 dF ''AMD Athlon 64 FX (Winchester SH7)'']"

definition amd_rules_05 :: "rule list" where
  "amd_rules_05 =
    [FMQ 0 15 1 7 dA ''AMD Athlon 64 (Winchester SH7)'',
     FM 0 15 1 7 ''AMD Athlon 64 (unknown type) (Winchester SH7)'',
     FMSQ 0 15 1 8 0 MS ''AMD mobile Sempron (Georgetown/Sonora CH-D0)'',
     FMSQ 0 15 1 8 0 MX ''AMD mobile Athlon XP-M (Oakville CH-D0)'',
     FMSQ 0 15 1 8 0 MA ''AMD mobile Athlon 64 (Oakville CH-D0)'',
     FMSQ 0 15 1 8 0 dA ''AMD Athlon 64 (Winchester CH-D0)'',
     FMS 0 15 1 8 0 ''AMD Athlon 64 (unknown type) (Winchester/Oakville/Georgetown/Sonora CH-D0)'',
     FMQ 0 15 1 8 MS ''AMD mobile Sempron (Georgetown/Sonora CH)'',
     FMQ 0 15 1 8 MX ''AMD mobile Athlon XP-M (Oakville CH)'',
     FMQ 0 15 1 8 MA ''AMD mobile Athlon 64 (Oakville CH)'',
     FMQ 0 15 1 8 dA ''AMD Athlon 64 (Winchester CH)'',
     FM 0 15 1 8 ''AMD Athlon 64 (unknown type) (Winchester/Oakville/Georgetown/Sonora CH)'',
     FMS 0 15 1 11 0 ''AMD Athlon 64 (Winchester CH-D0)'',
     FM 0 15 1 11 ''AMD Athlon 64 (Winchester CH)'',
     FMSQ 0 15 1 12 0 MS ''AMD mobile Sempron (Georgetown/Sonora DH8-D0)'',
     FMSQ 0 15 1 12 0 dS ''AMD Sempron (Palermo DH8-D0)'',
     FMSQ 0 15 1 12 0 MX ''AMD Athlon XP-M (Winchester DH8-D0)'',
     FMSQ 0 15 1 12 0 MA ''AMD mobile Athlon 64 (Oakville DH8-D0)'',
     FMSQ 0 15 1 12 0 dA ''AMD Athlon 64 (Winchester DH8-D0)'',
     FMS 0 15 1 12 0 ''AMD Athlon 64 (unknown type) (Winchester/Oakville/Georgetown/Sonora/Palermo DH8-D0)'',
     FMQ 0 15 1 12 MS ''AMD mobile Sempron (Georgetown/Sonora DH8)'',
     FMQ 0 15 1 12 dS ''AMD Sempron (Palermo DH8)'',
     FMQ 0 15 1 12 MX ''AMD Athlon XP-M (Winchester DH8)'',
     FMQ 0 15 1 12 MA ''AMD mobile Athlon 64 (Oakville DH8)'',
     FMQ 0 15 1 12 dA ''AMD Athlon 64 (Winchester DH8)'',
     FM 0 15 1 12 ''AMD Athlon 64 (Winchester/Oakville/Georgetown/Sonora/Palermo DH8)'',
     FMSQ 0 15 1 15 0 dS ''AMD Sempron (Palermo DH8-D0)'',
     FMSQ 0 15 1 15 0 dA ''AMD Athlon 64 (Winchester DH8-D0)'',
     FMS 0 15 1 15 0 ''AMD Athlon 64 (Winchester DH8-D0) / Sempron (Palermo DH8-D0)'',
     FMQ 0 15 1 15 dS ''AMD Sempron (Palermo DH8)'',
     FMQ 0 15 1 15 dA ''AMD Athlon 64 (Winchester DH8)'',
     FM 0 15 1 15 ''AMD Athlon 64 (unknown type) (Winchester/Palermo DH8)'',
     FMSQ 0 15 2 1 0 s8 ''AMD Dual Core Opteron (Egypt JH-E1)'',
     FMSQ 0 15 2 1 0 sO ''AMD Dual Core Opteron (Italy JH-E1)'',
     FMS 0 15 2 1 0 ''AMD Dual Core Opteron (Italy/Egypt JH-E1)'',
     FMSQ 0 15 2 1 2 s8 ''AMD Dual Core Opteron (Egypt JH-E6)'',
     FMSQ 0 15 2 1 2 sO ''AMD Dual Core Opteron (Italy JH-E6)'',
     FMS 0 15 2 1 2 ''AMD Dual Core Opteron (Italy/Egypt JH-E6)'',
     FMQ 0 15 2 1 s8 ''AMD Dual Core Opteron (Egypt JH)'',
     FMQ 0 15 2 1 sO ''AMD Dual Core Opteron (Italy JH)'',
     FM 0 15 2 1 ''AMD Dual Core Opteron (Italy/Egypt JH)'',
     FMSQ 0 15 2 3 2 DO ''AMD Dual Core Opteron (Denmark JH-E6)'',
     FMSQ 0 15 2 3 2 dF ''AMD Athlon 64 FX (Toledo JH-E6)'',
     FMSQ 0 15 2 3 2 dm ''AMD Athlon 64 X2 (Manchester JH-E6)'',
     FMSQ 0 15 2 3 2 dA ''AMD Athlon 64 X2 (Toledo JH-E6)'',
     FMS 0 15 2 3 2 ''AMD Athlon 64 (unknown type) (Toledo/Manchester/Denmark JH-E6)'',
     FMQ 0 15 2 3 sO ''AMD Dual Core Opteron (Denmark JH)'',
     FMQ 0 15 2 3 dF ''AMD Athlon 64 FX (Toledo JH)'',
     FMQ 0 15 2 3 dm ''AMD Athlon 64 X2 (Manchester JH)'',
     FMQ 0 15 2 3 dA ''AMD Athlon 64 X2 (Toledo JH)'']"

definition amd_rules_06 :: "rule list" where
  "amd_rules_06 =
    [FM 0 15 2 3 ''AMD Athlon 64 (unknown type) (Toledo/Manchester/Denmark JH)'',
     FMSQ 0 15 2 4 2 MA ''AMD mobile Athlon 64 (Newark SH-E5)'',
     FMSQ 0 15 2 4 2 MT ''AMD mobile Turion (Lancaster/Richmond SH-E5)'',
     FMS 0 15 2 4 2 ''AMD mobile Athlon 64 (unknown type) (Newark/Lancaster/Richmond SH-E5)'',
     FMQ 0 15 2 4 MA ''AMD mobile Athlon 64 (Newark SH)'',
     FMQ 0 15 2 4 MT ''AMD mobile Turion (Lancaster/Richmond SH)'',
     FM 0 15 2 4 ''AMD mobile Athlon 64 (unknown type) (Newark/Lancaster/Richmond SH)'',
     FMQ 0 15 2 5 s8 ''AMD Opteron (Athens SH-E4)'',
     FMQ 0 15 2 5 sO ''AMD Opteron (Troy SH-E4)'',
     FM 0 15 2 5 ''AMD Opteron (Troy/Athens SH-E4)'',
     FMSQ 0 15 2 7 1 sO ''AMD Opteron (Venus SH-E4)'',
     FMSQ 0 15 2 7 1 dF ''AMD Athlon 64 FX (San Diego SH-E4)'',
     FMSQ 0 15 2 7 1 dA ''AMD Athlon 64 (San Diego SH-E4)'',
     FMS 0 15 2 7 1 ''AMD Athlon 64 (unknown type) (Venus/San Diego SH-E4)'',
     FMQ 0 15 2 7 sO ''AMD Opteron (San Diego SH)'',
     FMQ 0 15 2 7 dF ''AMD Athlon 64 FX (San Diego SH)'',
     FMQ 0 15 2 7 dA ''AMD Athlon 64 (San Diego SH)'',
     FM 0 15 2 7 ''AMD Athlon 64 (unknown type) (San Diego SH)'',
     FM 0 15 2 11 ''AMD Athlon 64 X2 (Manchester BH-E4)'',
     FMS 0 15 2 12 0 ''AMD Sempron (Palermo DH-E3)'',
     FMSQ 0 15 2 12 2 MS ''AMD mobile Sempron (Albany/Roma DH-E6)'',
     FMSQ 0 15 2 12 2 dS ''AMD Sempron (Palermo DH-E6)'',
     FMSQ 0 15 2 12 2 dA ''AMD Athlon 64 (Venice DH-E6)'',
     FMS 0 15 2 12 2 ''AMD Athlon 64 (Venice/Palermo/Albany/Roma DH-E6)'',
     FMQ 0 15 2 12 MS ''AMD mobile Sempron (Albany/Roma DH)'',
     FMQ 0 15 2 12 dS ''AMD Sempron (Palermo DH)'',
     FMQ 0 15 2 12 dA ''AMD Athlon 64 (Venice DH)'',
     FM 0 15 2 12 ''AMD Athlon 64 (Venice/Palermo/Albany/Roma DH)'',
     FMSQ 0 15 2 15 0 dS ''AMD Sempron (Palermo DH-E3)'',
     FMSQ 0 15 2 15 0 dA ''AMD Athlon 64 (Venice DH-E3)'',
     FMS 0 15 2 15 0 ''AMD Athlon 64 (Venice/Palermo DH-E3)'',
     FMSQ 0 15 2 15 2 dS ''AMD Sempron (Palermo DH-E6)'',
     FMSQ 0 15 2 15 2 dA ''AMD Athlon 64 (Venice DH-E6)'',
     FMS 0 15 2 15 2 ''AMD Athlon 64 (Venice/Palermo DH-E6)'',
     FMQ 0 15 2 15 dS ''AMD Sempron (Palermo DH)'',
     FMQ 0 15 2 15 dA ''AMD Athlon 64 (Venice DH)'',
     FM 0 15 2 15 ''AMD Athlon 64 (Venice/Palermo DH)'',
     FMS 0 15 4 1 2 ''AMD Dual-Core Opteron (Santa Rosa JH-F2)'',
     FMS 0 15 4 1 3 ''AMD Dual-Core Opteron (Santa Rosa JH-F3)'',
     FM 0 15 4 1 ''AMD Dual-Core Opteron (Santa Rosa)'',
     FMSQ 0 15 4 3 2 DO ''AMD Dual-Core Opteron (Santa Rosa JH-F2)'',
     FMSQ 0 15 4 3 2 sO ''AMD Opteron (Santa Rosa JH-F2)'',
     FMSQ 0 15 4 3 2 dF ''AMD Athlon 64 FX Dual-Core (Windsor JH-F2)'',
     FMSQ 0 15 4 3 2 dA ''AMD Athlon 64 X2 Dual-Core (Windsor JH-F2)'',
     FMS 0 15 4 3 2 ''AMD Athlon 64 (unknown type) (Windsor JH-F2)'',
     FMSQ 0 15 4 3 3 DO ''AMD Dual-Core Opteron (Santa Rosa JH-F3)'',
     FMSQ 0 15 4 3 3 sO ''AMD Opteron (Santa Rosa JH-F3)'',
     FMSQ 0 15 4 3 3 dF ''AMD Athlon 64 FX Dual-Core (Windsor JH-F3)'',
     FMSQ 0 15 4 3 3 dA ''AMD Athlon 64 X2 Dual-Core (Windsor JH-F3)'',
     FMS 0 15 4 3 3 ''AMD Athlon 64 (unknown type) (Windsor/Santa Rosa JH-F3)'']"

definition amd_rules_07 :: "rule list" where
  "amd_rules_07 =
    [FMQ 0 15 4 3 DO ''AMD Dual-Core Opteron (Santa Rosa)'',
     FMQ 0 15 4 3 sO ''AMD Opteron (Santa Rosa)'',
     FMQ 0 15 4 3 dF ''AMD Athlon 64 FX Dual-Core (Windsor)'',
     FMQ 0 15 4 3 dA ''AMD Athlon 64 X2 Dual-Core (Windsor)'',
     FM 0 15 4 3 ''AMD Athlon 64 (unknown type) (Windsor/Santa Rosa)'',
     FMSQ 0 15 4 8 2 dA ''AMD Athlon 64 X2 Dual-Core (Windsor BH-F2)'',
     FMSQ 0 15 4 8 2 Mt ''AMD Turion 64 X2 (Trinidad BH-F2)'',
     FMSQ 0 15 4 8 2 MT ''AMD Turion 64 X2 (Taylor BH-F2)'',
     FMS 0 15 4 8 2 ''AMD Athlon 64 (unknown type) (Windsor/Taylor/Trinidad BH-F2)'',
     FMQ 0 15 4 8 dA ''AMD Athlon 64 X2 Dual-Core (Windsor)'',
     FMQ 0 15 4 8 Mt ''AMD Turion 64 X2 (Trinidad)'',
     FMQ 0 15 4 8 MT ''AMD Turion 64 X2 (Taylor)'',
     FM 0 15 4 8 ''AMD Athlon 64 (unknown type) (Windsor/Taylor/Trinidad)'',
     FMS 0 15 4 11 2 ''AMD Athlon 64 X2 Dual-Core (Windsor BH-F2)'',
     FM 0 15 4 11 ''AMD Athlon 64 X2 Dual-Core (Windsor)'',
     FMSQ 0 15 4 12 2 MS ''AMD mobile Sempron (Keene BH-F2)'',
     FMSQ 0 15 4 12 2 dS ''AMD Sempron (Manila BH-F2)'',
     FMSQ 0 15 4 12 2 Mt ''AMD Turion (Trinidad BH-F2)'',
     FMSQ 0 15 4 12 2 MT ''AMD Turion (Taylor BH-F2)'',
     FMSQ 0 15 4 12 2 dA ''AMD Athlon 64 (Orleans BH-F2)'',
     FMS 0 15 4 12 2 ''AMD Athlon 64 (unknown type) (Orleans/Manila/Keene/Taylor/Trinidad BH-F2)'',
     FMQ 0 15 4 12 MS ''AMD mobile Sempron (Keene)'',
     FMQ 0 15 4 12 dS ''AMD Sempron (Manila)'',
     FMQ 0 15 4 12 Mt ''AMD Turion (Trinidad)'',
     FMQ 0 15 4 12 MT ''AMD Turion (Taylor)'',
     FMQ 0 15 4 12 dA ''AMD Athlon 64 (Orleans)'',
     FM 0 15 4 12 ''AMD Athlon 64 (unknown type) (Orleans/Manila/Keene/Taylor/Trinidad)'',
     FMSQ 0 15 4 15 2 MS ''AMD mobile Sempron (Keene DH-F2)'',
     FMSQ 0 15 4 15 2 dS ''AMD Sempron (Manila DH-F2)'',
     FMSQ 0 15 4 15 2 dA ''AMD Athlon 64 (Orleans DH-F2)'',
     FMS 0 15 4 15 2 ''AMD Athlon 64 (unknown type) (Orleans/Manila/Keene DH-F2)'',
     FMQ 0 15 4 15 MS ''AMD mobile Sempron (Keene)'',
     FMQ 0 15 4 15 dS ''AMD Sempron (Manila)'',
     FMQ 0 15 4 15 dA ''AMD Athlon 64 (Orleans)'',
     FM 0 15 4 15 ''AMD Athlon 64 (unknown type) (Orleans/Manila/Keene)'',
     FMS 0 15 5 13 3 ''AMD Opteron (Santa Rosa JH-F3)'',
     FM 0 15 5 13 ''AMD Opteron (Santa Rosa)'',
     FMSQ 0 15 5 15 2 MS ''AMD mobile Sempron (Keene DH-F2)'',
     FMSQ 0 15 5 15 2 dS ''AMD Sempron (Manila DH-F2)'',
     FMSQ 0 15 5 15 2 dA ''AMD Athlon 64 (Orleans DH-F2)'',
     FMS 0 15 5 15 2 ''AMD Athlon 64 (unknown type) (Orleans/Manila/Keene DH-F2)'',
     FMS 0 15 5 15 3 ''AMD Athlon 64 (Orleans DH-F3)'',
     FMQ 0 15 5 15 MS ''AMD mobile Sempron (Keene)'',
     FMQ 0 15 5 15 dS ''AMD Sempron (Manila)'',
     FMQ 0 15 5 15 dA ''AMD Athlon 64 (Orleans)'',
     FM 0 15 5 15 ''AMD Athlon 64 (unknown type) (Orleans/Manila/Keene)'',
     FM 0 15 5 15 ''AMD Athlon 64 (Orleans)'',
     FMS 0 15 6 8 1 ''AMD Turion 64 X2 (Tyler BH-G1)'',
     FMSQ 0 15 6 8 2 MT ''AMD Turion 64 X2 (Tyler BH-G2)'',
     FMSQ 0 15 6 8 2 dS ''AMD Sempron Dual-Core (Tyler BH-G2)'']"

definition amd_rules_08 :: "rule list" where
  "amd_rules_08 =
    [FMS 0 15 6 8 2 ''AMD Turion 64 (unknown type) (Tyler BH-G2)'',
     FMQ 0 15 6 8 MT ''AMD Turion 64 X2 (Tyler)'',
     FMQ 0 15 6 8 dS ''AMD Sempron Dual-Core (Tyler)'',
     FM 0 15 6 8 ''AMD Turion 64 (unknown type) (Tyler)'',
     FMSQ 0 15 6 11 1 dS ''AMD Sempron Dual-Core (Sparta BH-G1)'',
     FMSQ 0 15 6 11 1 dA ''AMD Athlon 64 X2 Dual-Core (Brisbane BH-G1)'',
     FMS 0 15 6 11 1 ''AMD Athlon 64 (unknown type) (Brisbane/Sparta BH-G1)'',
     FMSQ 0 15 6 11 2 dA ''AMD Athlon 64 X2 Dual-Core (Brisbane BH-G2)'',
     FMSQ 0 15 6 11 2 Mn ''AMD Turion Neo X2 Dual-Core (Huron BH-G2)'',
     FMSQ 0 15 6 11 2 MN ''AMD Athlon Neo X2 (Huron BH-G2)'',
     FMS 0 15 6 11 2 ''AMD Athlon 64 (unknown type) (Brisbane/Huron BH-G2)'',
     FMQ 0 15 6 11 dS ''AMD Sempron Dual-Core (Sparta)'',
     FMQ 0 15 6 11 Mn ''AMD Turion Neo X2 Dual-Core (Huron)'',
     FMQ 0 15 6 11 MN ''AMD Athlon Neo X2 (Huron)'',
     FMQ 0 15 6 11 dA ''AMD Athlon 64 X2 Dual-Core (Brisbane)'',
     FM 0 15 6 11 ''AMD Athlon 64 (unknown type) (Brisbane/Sparta/Huron)'',
     FMSQ 0 15 6 12 2 MS ''AMD mobile Sempron (Sherman DH-G2)'',
     FMSQ 0 15 6 12 2 dS ''AMD Sempron (Sparta DH-G2)'',
     FMSQ 0 15 6 12 2 dA ''AMD Athlon 64 (Lima DH-G2)'',
     FMS 0 15 6 12 2 ''AMD Athlon 64 (unknown type) (Lima/Sparta/Sherman DH-G2)'',
     FMQ 0 15 6 12 MS ''AMD mobile Sempron (Sherman)'',
     FMQ 0 15 6 12 dS ''AMD Sempron (Sparta)'',
     FMQ 0 15 6 12 dA ''AMD Athlon 64 (Lima)'',
     FM 0 15 6 12 ''AMD Athlon 64 (unknown type) (Lima/Sparta/Sherman)'',
     FMSQ 0 15 6 15 2 MS ''AMD mobile Sempron (Sherman DH-G2)'',
     FMSQ 0 15 6 15 2 dS ''AMD Sempron (Sparta DH-G2)'',
     FMSQ 0 15 6 15 2 MN ''AMD Athlon Neo (Huron DH-G2)'',
     FMS 0 15 6 15 2 ''AMD Athlon Neo (unknown type) (Huron/Sparta/Sherman DH-G2)'',
     FMQ 0 15 6 15 MS ''AMD mobile Sempron (Sherman)'',
     FMQ 0 15 6 15 dS ''AMD Sempron (Sparta)'',
     FMQ 0 15 6 15 MN ''AMD Athlon Neo (Huron)'',
     FM 0 15 6 15 ''AMD Athlon Neo (unknown type) (Huron/Sparta/Sherman)'',
     FMSQ 0 15 7 12 2 MS ''AMD mobile Sempron (Sherman DH-G2)'',
     FMSQ 0 15 7 12 2 dS ''AMD Sempron (Sparta DH-G2)'',
     FMSQ 0 15 7 12 2 dA ''AMD Athlon (Lima DH-G2)'',
     FMS 0 15 7 12 2 ''AMD Athlon (unknown type) (Lima/Sparta/Sherman DH-G2)'',
     FMQ 0 15 7 12 MS ''AMD mobile Sempron (Sherman)'',
     FMQ 0 15 7 12 dS ''AMD Sempron (Sparta)'',
     FMQ 0 15 7 12 dA ''AMD Athlon (Lima)'',
     FM 0 15 7 12 ''AMD Athlon (unknown type) (Lima/Sparta/Sherman)'',
     FMSQ 0 15 7 15 1 MS ''AMD mobile Sempron (Sherman DH-G1)'',
     FMSQ 0 15 7 15 1 dS ''AMD Sempron (Sparta DH-G1)'',
     FMSQ 0 15 7 15 1 dA ''AMD Athlon 64 (Lima DH-G1)'',
     FMS 0 15 7 15 1 ''AMD Athlon 64 (unknown type) (Lima/Sparta/Sherman DH-G1)'',
     FMSQ 0 15 7 15 2 MS ''AMD mobile Sempron (Sherman DH-G2)'',
     FMSQ 0 15 7 15 2 dS ''AMD Sempron (Sparta DH-G2)'',
     FMSQ 0 15 7 15 2 MN ''AMD Athlon Neo (Huron DH-G2)'',
     FMSQ 0 15 7 15 2 dA ''AMD Athlon 64 (Lima DH-G2)'',
     FMS 0 15 7 15 2 ''AMD Athlon 64 (unknown type) (Lima/Sparta/Sherman/Huron DH-G2)'',
     FMQ 0 15 7 15 MS ''AMD mobile Sempron (Sherman)'']"

definition amd_rules_09 :: "rule list" where
  "amd_rules_09 =
    [FMQ 0 15 7 15 dS ''AMD Sempron (Sparta)'',
     FMQ 0 15 7 15 MN ''AMD Athlon Neo (Huron)'',
     FMQ 0 15 7 15 dA ''AMD Athlon 64 (Lima)'',
     FM 0 15 7 15 ''AMD Athlon 64 (unknown type) (Lima/Sparta/Sherman/Huron)'',
     FMS 0 15 12 1 3 ''AMD Athlon 64 FX Dual-Core (Windsor JH-F3)'',
     FM 0 15 12 1 ''AMD Athlon 64 FX Dual-Core (Windsor)'',
     F 0 15 ''AMD (unknown model)'',
     FMSQ 1 15 0 2 1 sO ''AMD Quad-Core Opteron (Barcelona DR-B1)'',
     FMS 1 15 0 2 1 ''AMD (unknown type) (Barcelona DR-B1)'',
     FMSQ 1 15 0 2 2 EO ''AMD Embedded Opteron (Barcelona DR-B2)'',
     FMSQ 1 15 0 2 2 sO ''AMD Quad-Core Opteron (Barcelona DR-B2)'',
     FMSQ 1 15 0 2 2 Tp ''AMD Phenom Triple-Core (Toliman DR-B2)'',
     FMSQ 1 15 0 2 2 Qp ''AMD Phenom Quad-Core (Agena DR-B2)'',
     FMS 1 15 0 2 2 ''AMD (unknown type) (Barcelona/Toliman/Agena DR-B2)'',
     FMSQ 1 15 0 2 3 EO ''AMD Embedded Opteron (Barcelona DR-B3)'',
     FMSQ 1 15 0 2 3 sO ''AMD Quad-Core Opteron (Barcelona DR-B3)'',
     FMSQ 1 15 0 2 3 Tp ''AMD Phenom Triple-Core (Toliman DR-B3)'',
     FMSQ 1 15 0 2 3 Qp ''AMD Phenom Quad-Core (Agena DR-B3)'',
     FMSQ 1 15 0 2 3 dA ''AMD Athlon Dual-Core (Kuma DR-B3)'',
     FMS 1 15 0 2 3 ''AMD (unknown type) (Barcelona/Toliman/Agena/Kuma DR-B3)'',
     FMS 1 15 0 2 10 ''AMD Quad-Core Opteron (Barcelona DR-BA)'',
     FMQ 1 15 0 2 EO ''AMD Embedded Opteron (Barcelona)'',
     FMQ 1 15 0 2 sO ''AMD Quad-Core Opteron (Barcelona)'',
     FMQ 1 15 0 2 Tp ''AMD Phenom Triple-Core (Toliman)'',
     FMQ 1 15 0 2 Qp ''AMD Phenom Quad-Core (Agena)'',
     FMQ 1 15 0 2 dA ''AMD Athlon Dual-Core (Kuma)'',
     FM 1 15 0 2 ''AMD (unknown type) (Barcelona/Toliman/Agena/Kuma)'',
     FMSQ 1 15 0 4 2 EO ''AMD Embedded Opteron (Shanghai RB-C2)'',
     FMSQ 1 15 0 4 2 sO ''AMD Quad-Core Opteron (Shanghai RB-C2)'',
     FMSQ 1 15 0 4 2 dr ''AMD Athlon Dual-Core (Propus RB-C2)'',
     FMSQ 1 15 0 4 2 dA ''AMD Athlon Dual-Core (Regor RB-C2)'',
     FMSQ 1 15 0 4 2 Dp ''AMD Phenom II X2 (Callisto RB-C2)'',
     FMSQ 1 15 0 4 2 Tp ''AMD Phenom II X3 (Heka RB-C2)'',
     FMSQ 1 15 0 4 2 Qp ''AMD Phenom II X4 (Deneb RB-C2)'',
     FMS 1 15 0 4 2 ''AMD Athlon (unknown type) (Regor/Propus/Shanghai/Callisto/Heka/Deneb RB-C2)'',
     FMSQ 1 15 0 4 3 Dp ''AMD Phenom II X2 (Callisto RB-C3)'',
     FMSQ 1 15 0 4 3 Tp ''AMD Phenom II X3 (Heka RB-C3)'',
     FMSQ 1 15 0 4 3 Qp ''AMD Phenom II X4 (Deneb RB-C3)'',
     FMS 1 15 0 4 3 ''AMD Phenom II (unknown type) (Callisto/Heka/Deneb RB-C3)'',
     FMQ 1 15 0 4 EO ''AMD Embedded Opteron (Shanghai)'',
     FMQ 1 15 0 4 sO ''AMD Quad-Core Opteron (Shanghai)'',
     FMQ 1 15 0 4 dr ''AMD Athlon Dual-Core (Propus)'',
     FMQ 1 15 0 4 dA ''AMD Athlon Dual-Core (Regor)'',
     FMQ 1 15 0 4 Dp ''AMD Phenom II X2 (Callisto)'',
     FMQ 1 15 0 4 Tp ''AMD Phenom II X3 (Heka)'',
     FMQ 1 15 0 4 Qp ''AMD Phenom II X4 (Deneb)'',
     FM 1 15 0 4 ''AMD Athlon (unknown type) (Regor/Propus/Shanghai/Callisto/Heka/Deneb)'',
     FMSQ 1 15 0 5 2 DA ''AMD Athlon II X2 (Regor BL-C2)'',
     FMSQ 1 15 0 5 2 TA ''AMD Athlon II X3 (Rana BL-C2)'',
     FMSQ 1 15 0 5 2 QA ''AMD Athlon II X4 (Propus BL-C2)'']"

definition amd_rules_10 :: "rule list" where
  "amd_rules_10 =
    [FMS 1 15 0 5 2 ''AMD Athlon (unknown type) (Regor/Rana/Propus BL-C2)'',
     FMSQ 1 15 0 5 3 TA ''AMD Athlon II X3 (Rana BL-C3)'',
     FMSQ 1 15 0 5 3 QA ''AMD Athlon II X4 (Propus BL-C3)'',
     FMSQ 1 15 0 5 3 Tp ''AMD Phenom II Triple-Core (Heka BL-C3)'',
     FMSQ 1 15 0 5 3 Qp ''AMD Phenom II Quad-Core (Deneb BL-C3)'',
     FMS 1 15 0 5 3 ''AMD Athlon (unknown type) (Regor/Rana/Propus/Callisto/Heka/Deneb BL-C3)'',
     FMQ 1 15 0 5 DA ''AMD Athlon II X2 (Regor)'',
     FMQ 1 15 0 5 TA ''AMD Athlon II X3 (Rana)'',
     FMQ 1 15 0 5 QA ''AMD Athlon II X4 (Propus)'',
     FMQ 1 15 0 5 Tp ''AMD Phenom II Triple-Core (Heka)'',
     FMQ 1 15 0 5 Qp ''AMD Phenom II Quad-Core (Deneb)'',
     FM 1 15 0 5 ''AMD Athlon (unknown type) (Regor/Rana/Propus/Callisto/Heka/Deneb)'',
     FMSQ 1 15 0 6 2 MS ''AMD Sempron Mobile (Sargas DA-C2)'',
     FMSQ 1 15 0 6 2 dS ''AMD Sempron II (Sargas DA-C2)'',
     FMSQ 1 15 0 6 2 MT ''AMD Turion II Dual-Core Mobile (Caspian DA-C2)'',
     FMSQ 1 15 0 6 2 MA ''AMD Athlon II Dual-Core Mobile (Regor DA-C2)'',
     FMSQ 1 15 0 6 2 DA ''AMD Athlon II X2 (Regor DA-C2)'',
     FMSQ 1 15 0 6 2 dA ''AMD Athlon II (Sargas DA-C2)'',
     FMS 1 15 0 6 2 ''AMD Athlon (unknown type) (Regor/Sargas/Caspain DA-C2)'',
     FMSQ 1 15 0 6 3 Ms ''AMD V-Series Mobile (Champlain DA-C3)'',
     FMSQ 1 15 0 6 3 DS ''AMD Sempron II X2 (Regor DA-C3)'',
     FMSQ 1 15 0 6 3 dS ''AMD Sempron II (Sargas DA-C3)'',
     FMSQ 1 15 0 6 3 MT ''AMD Turion II Dual-Core Mobile (Champlain DA-C3)'',
     FMSQ 1 15 0 6 3 Mp ''AMD Phenom II Dual-Core Mobile (Champlain DA-C3)'',
     FMSQ 1 15 0 6 3 MA ''AMD Athlon II Dual-Core Mobile (Champlain DA-C3)'',
     FMSQ 1 15 0 6 3 DA ''AMD Athlon II X2 (Regor DA-C3)'',
     FMSQ 1 15 0 6 3 dA ''AMD Athlon II (Sargas DA-C3)'',
     FMS 1 15 0 6 3 ''AMD Athlon (unknown type) (Regor/Sargas/Champlain DA-C3)'',
     FMQ 1 15 0 6 Ms ''AMD V-Series Mobile (Champlain)'',
     FMQ 1 15 0 6 MS ''AMD Sempron Mobile (Sargas)'',
     FMQ 1 15 0 6 DS ''AMD Sempron II X2 (Regor)'',
     FMQ 1 15 0 6 dS ''AMD Sempron II (Sargas)'',
     FMQ 1 15 0 6 MT ''AMD Turion II Dual-Core Mobile (Caspian / Champlain)'',
     FMQ 1 15 0 6 Mp ''AMD Phenom II Dual-Core Mobile (Champlain)'',
     FMQ 1 15 0 6 MA ''AMD Athlon II Dual-Core Mobile (Regor / Champlain)'',
     FMQ 1 15 0 6 DA ''AMD Athlon II X2 (Regor)'',
     FMQ 1 15 0 6 dA ''AMD Athlon II (Sargas)'',
     FM 1 15 0 6 ''AMD Athlon (unknown type) (Regor/Sargas/Caspian/Champlain)'',
     FMSQ 1 15 0 8 0 SO ''AMD Six-Core Opteron (Istanbul HY-D0)'',
     FMSQ 1 15 0 8 0 sO ''AMD Opteron 4100 (Lisbon HY-D0)'',
     FMS 1 15 0 8 0 ''AMD Opteron (unknown type) (Lisbon/Istanbul HY-D0)'',
     FMS 1 15 0 8 1 ''AMD Opteron 4100 (Lisbon HY-D1)'',
     FMQ 1 15 0 8 SO ''AMD Six-Core Opteron (Istanbul)'',
     FMQ 1 15 0 8 sO ''AMD Opteron 4100 (Lisbon)'',
     FM 1 15 0 8 ''AMD Opteron (unknown type) (Lisbon/Istanbul)'',
     FMS 1 15 0 9 1 ''AMD Opteron 6100 (Magny-Cours HY-D1)'',
     FM 1 15 0 9 ''AMD Opteron 6100 (Magny-Cours)'',
     FMSQ 1 15 0 10 0 Qp ''AMD Phenom II X4 (Zosma PH-E0)'',
     FMSQ 1 15 0 10 0 Sp ''AMD Phenom II X6 (Thuban PH-E0)'',
     FMS 1 15 0 10 0 ''AMD Phenom II (unknown type) (Zosma/Thuban PH-E0)'']"

definition amd_rules_11 :: "rule list" where
  "amd_rules_11 =
    [FMQ 1 15 0 10 Qp ''AMD Phenom II X4 (Zosma)'',
     FMQ 1 15 0 10 Sp ''AMD Phenom II X6 (Thuban)'',
     FM 1 15 0 10 ''AMD Phenom II (unknown type) (Zosma/Thuban)'',
     F 1 15 ''AMD (unknown model)'',
     FMSQ 2 15 0 3 1 MU ''AMD Turion X2 Ultra Dual-Core Mobile (Griffin LG-B1)'',
     FMSQ 2 15 0 3 1 MT ''AMD Turion X2 Dual-Core Mobile (Lion LG-B1)'',
     FMSQ 2 15 0 3 1 DS ''AMD Sempron X2 Dual-Core (Sable LG-B1)'',
     FMSQ 2 15 0 3 1 dS ''AMD Sempron (Sable LG-B1)'',
     FMSQ 2 15 0 3 1 DA ''AMD Athlon X2 Dual-Core (Lion LG-B1)'',
     FMSQ 2 15 0 3 1 dA ''AMD Athlon (Lion LG-B1)'',
     FMS 2 15 0 3 1 ''AMD Athlon (unknown type) (Lion/Sable LG-B1)'',
     FMQ 2 15 0 3 MU ''AMD Turion X2 Ultra (Griffin)'',
     FMQ 2 15 0 3 MT ''AMD Turion X2 (Lion)'',
     FMQ 2 15 0 3 DS ''AMD Sempron X2 Dual-Core (Sable)'',
     FMQ 2 15 0 3 dS ''AMD Sempron (Sable)'',
     FMQ 2 15 0 3 DA ''AMD Athlon X2 Dual-Core (Lion)'',
     FMQ 2 15 0 3 dA ''AMD Athlon (Lion)'',
     FM 2 15 0 3 ''AMD Athlon (unknown type) (Lion/Sable)'',
     F 2 15 ''AMD (unknown model)'',
     FMSQ 3 15 0 1 0 dS ''AMD Sempron Dual-Core (Llano LN-B0)'',
     FMSQ 3 15 0 1 0 dA ''AMD Athlon II Dual-Core (Llano LN-B0)'',
     FMSQ 3 15 0 1 0 Sa ''AMD A-Series (Llano LN-B0)'',
     FMSQ 3 15 0 1 0 Se ''AMD E2-Series (Llano LN-B0)'',
     FMS 3 15 0 1 0 ''AMD Athlon (unknown type) (Llano LN-B0)'',
     FMQ 3 15 0 1 dS ''AMD Sempron Dual-Core (Llano)'',
     FMQ 3 15 0 1 dA ''AMD Athlon II Dual-Core (Llano)'',
     FMQ 3 15 0 1 Sa ''AMD A-Series (Llano)'',
     FMQ 3 15 0 1 Se ''AMD E2-Series (Llano)'',
     FM 3 15 0 1 ''AMD Athlon (unknown type) (Llano)'',
     F 3 15 ''AMD (unknown model) (Llano)'',
     FMSQ 5 15 0 1 0 Sc ''AMD C-Series (Ontario ON-B0)'',
     FMSQ 5 15 0 1 0 Se ''AMD E-Series (Zacate ON-B0)'',
     FMSQ 5 15 0 1 0 Sg ''AMD G-Series (Ontario/Zacate ON-B0)'',
     FMSQ 5 15 0 1 0 Sz ''AMD Z-Series (Desna ON-B0)'',
     FMS 5 15 0 1 0 ''AMD (unknown type) (Ontario/Zacate/Desna ON-B0)'',
     FM 5 15 0 1 ''AMD (unknown type) (Ontario/Zacate/Desna)'',
     FMSQ 5 15 0 2 0 Sc ''AMD C-Series (Ontario ON-C0)'',
     FMSQ 5 15 0 2 0 Se ''AMD E-Series (Zacate ON-C0)'',
     FMSQ 5 15 0 2 0 Sg ''AMD G-Series (Ontario/Zacate ON-C0)'',
     FMSQ 5 15 0 2 0 Sz ''AMD Z-Series (Desna ON-C0)'',
     FMS 5 15 0 2 0 ''AMD (unknown type) (Ontario/Zacate/Desna ON-C0)'',
     FM 5 15 0 2 ''AMD (unknown type) (Ontario/Zacate/Desna)'',
     F 5 15 ''AMD (unknown model)'',
     FMSQ 6 15 0 1 2 sO ''AMD Opteron 6200 (Interlagos OR-B2) / Opteron 4200 (Valencia OR-B2) / Opteron 3200 (Zurich OR-B2)'',
     FMSQ 6 15 0 1 2 df ''AMD FX-Series (Zambezi OR-B2)'',
     FMS 6 15 0 1 2 ''AMD (unknown type) (Interlagos/Valencia/Zurich/Zambezi OR-B2)'',
     FMQ 6 15 0 1 sO ''AMD Opteron 6200 (Interlagos) / Opteron 4200 (Valencia) / Opteron 3200 (Zurich)'',
     FMQ 6 15 0 1 df ''AMD FX-Series (Zambezi)'',
     FM 6 15 0 1 ''AMD (unknown type) (Interlagos/Valencia/Zurich/Zambezi)'',
     FMSQ 6 15 0 2 0 sO ''AMD Opteron 6300 (Abu Dhabi OR-C0) / Opteron 4300 (Seoul OR-C0) / Opteron 3300 (Delhi OR-C0)'']"

definition amd_rules_12 :: "rule list" where
  "amd_rules_12 =
    [FMSQ 6 15 0 2 0 df ''AMD FX-Series (Vishera OR-C0)'',
     FMS 6 15 0 2 0 ''AMD (unknown type) (Abu Dhabi/Seoul/Delhi/Vishera OR-C0)'',
     FMQ 6 15 0 2 sO ''AMD Opteron 6300 (Abu Dhabi) / Opteron 4300 (Seoul) / Opteron 3300 (Delhi)'',
     FMQ 6 15 0 2 df ''AMD FX-Series (Vishera)'',
     FM 6 15 0 2 ''AMD (unknown type) (Abu Dhabi/Seoul/Delhi/Vishera)'',
     FMSQ 6 15 1 0 1 Sa ''AMD A-Series (Trinity TN-A1)'',
     FMSQ 6 15 1 0 1 Sr ''AMD R-Series (Trinity TN-A1)'',
     FMSQ 6 15 1 0 1 dA ''AMD Athlon Dual-Core / Athlon Quad-Core (Trinity TN-A1)'',
     FMSQ 6 15 1 0 1 dS ''AMD Sempron Dual-Core (Trinity TN-A1)'',
     FMSQ 6 15 1 0 1 dI ''AMD FirePro (Trinity TN-A1)'',
     FMS 6 15 1 0 1 ''AMD (unknown type) (Trinity TN-A1)'',
     FMQ 6 15 1 0 Sa ''AMD A-Series (Trinity)'',
     FMQ 6 15 1 0 Sr ''AMD R-Series (Trinity)'',
     FMQ 6 15 1 0 dA ''AMD Athlon Dual-Core / Athlon Quad-Core (Trinity)'',
     FMQ 6 15 1 0 dS ''AMD Sempron Dual-Core (Trinity)'',
     FMQ 6 15 1 0 dI ''AMD FirePro (Trinity)'',
     FM 6 15 1 0 ''AMD (unknown type) (Trinity TN-A1)'',
     FMSQ 6 15 1 3 1 Sa ''AMD A-Series (Richland RL-A1)'',
     FMSQ 6 15 1 3 1 Sr ''AMD R-Series (Richland RL-A1)'',
     FMSQ 6 15 1 3 1 dA ''AMD Athlon Dual-Core / Athlon Quad-Core (Richland RL-A1)'',
     FMSQ 6 15 1 3 1 dS ''AMD Sempron Dual-Core (Richland RL-A1)'',
     FMSQ 6 15 1 3 1 dI ''AMD FirePro (Richland RL-A1)'',
     FMS 6 15 1 3 1 ''AMD (unknown type) (Richland RL-A1)'',
     FMQ 6 15 1 3 Sa ''AMD A-Series (Richland)'',
     FMQ 6 15 1 3 Sr ''AMD R-Series (Richland)'',
     FMQ 6 15 1 3 dA ''AMD Athlon Dual-Core / Athlon Quad-Core (Richland)'',
     FMQ 6 15 1 3 dS ''AMD Sempron Dual-Core (Richland)'',
     FMQ 6 15 1 3 dI ''AMD FirePro (Richland)'',
     FM 6 15 1 3 ''AMD (unknown type) (Richland)'',
     FMSQ 6 15 3 0 1 Sa ''AMD Elite Performance A-Series (Kaveri KV-A1)'',
     FMSQ 6 15 3 0 1 Mr ''AMD Mobile R-Series (Kaveri KV-A1)'',
     FMSQ 6 15 3 0 1 sO ''AMD Opteron X1200 / X2200 (Kaveri KV-A1)'',
     FMS 6 15 3 0 1 ''AMD (unknown type) (Kaveri KV-A1)'',
     FMQ 6 15 3 0 Sa ''AMD Elite Performance A-Series (Kaveri)'',
     FMQ 6 15 3 0 Mr ''AMD Mobile R-Series (Kaveri)'',
     FMQ 6 15 3 0 sO ''AMD Opteron X1200 / X2200 (Kaveri)'',
     FM 6 15 3 0 ''AMD (unknown type) (Kaveri)'',
     FMQ 6 15 3 8 Sa ''AMD A-Series (Godavari)'',
     FM 6 15 3 8 ''AMD (unknown type) (Godavari)'',
     FMQ 6 15 6 5 Sa ''AMD A-Series (Carrizo/Bristol Ridge/Stoney Ridge)'',
     FMQ 6 15 6 5 Se ''AMD E-Series (Stoney Ridge)'',
     FMQ 6 15 6 5 Sg ''AMD G-Series (Brown Falcon/Prairie Falcon)'',
     FM 6 15 6 5 ''AMD (unknown type) (Carrizo/Bristol Ridge/Stoney Ridge/Toronto/Brown Falcon/Prairie Falcon)'',
     FMSQ 6 15 7 0 0 Sa ''AMD A-Series (Carrizo/Bristol Ridge/Stoney Ridge ST-A0)'',
     FMSQ 6 15 7 0 0 Se ''AMD E-Series (Stoney Ridge ST-A0)'',
     FMSQ 6 15 7 0 0 Sg ''AMD G-Series (Brown Falcon/Prairie Falcon ST-A0)'',
     FMS 6 15 7 0 0 ''AMD (unknown type) (Carrizo/Bristol Ridge/Stoney Ridge/Toronto/Brown Falcon/Prairie Falcon ST-A0)'',
     FMQ 6 15 7 0 Sa ''AMD A-Series (Carrizo/Bristol Ridge/Stoney Ridge)'',
     FMQ 6 15 7 0 Se ''AMD E-Series (Stoney Ridge)'',
     FMQ 6 15 7 0 Sg ''AMD G-Series (Brown Falcon/Prairie Falcon)'']"

definition amd_rules_13 :: "rule list" where
  "amd_rules_13 =
    [FM 6 15 7 0 ''AMD (unknown type) (Carrizo/Bristol Ridge/Stoney Ridge/Toronto/Brown Falcon/Prairie Falcon)'',
     F 6 15 ''AMD (unknown model)'',
     FMSQ 7 15 0 0 1 dA ''AMD Athlon (Kabini KB-A1)'',
     FMSQ 7 15 0 0 1 Sa ''AMD A-Series (Kabini/Temash KB-A1)'',
     FMSQ 7 15 0 0 1 Se ''AMD E-Series (Kabini KB-A1)'',
     FMSQ 7 15 0 0 1 Sg ''AMD G-Series (Kabini KB-A1)'',
     FMSQ 7 15 0 0 1 sO ''AMD Opteron X1100/X2100 Series (Kyoto KB-A1)'',
     FMS 7 15 0 0 1 ''AMD (unknown type) (Kabini/Temash/Kyoto KB-A1)'',
     FMQ 7 15 0 0 dA ''AMD Athlon (Kabini)'',
     FMQ 7 15 0 0 Sa ''AMD A-Series (Kabini/Temash)'',
     FMQ 7 15 0 0 Se ''AMD E-Series (Kabini)'',
     FMQ 7 15 0 0 Sg ''AMD G-Series (Kabini)'',
     FMQ 7 15 0 0 sO ''AMD Opteron X1100/X2100 Series (Kyoto)'',
     FM 7 15 0 0 ''AMD (unknown type) (Kabini/Temash/Kyoto)'',
     FMSQ 7 15 3 0 1 Sa ''AMD A-Series (Beema ML-A1)'',
     FMSQ 7 15 3 0 1 Se ''AMD E-Series (Beema ML-A1)'',
     FMSQ 7 15 3 0 1 Ta ''AMD A-Series Micro (Mullins ML-A1)'',
     FMSQ 7 15 3 0 1 Te ''AMD E-Series Micro (Mullins ML-A1)'',
     FMS 7 15 3 0 1 ''AMD (unknown type) (Beema/Mullins ML-A1)'',
     FMQ 7 15 3 0 Sa ''AMD A-Series (Beema)'',
     FMQ 7 15 3 0 Se ''AMD E-Series (Beema)'',
     FMQ 7 15 3 0 Ta ''AMD A-Series Micro (Mullins)'',
     FMQ 7 15 3 0 Te ''AMD E-Series Micro (Mullins)'',
     FM 7 15 3 0 ''AMD (unknown type) (Beema/Mullins)'',
     F 7 15 ''AMD (unknown model)'',
     FMSQ 8 15 0 1 0 dR ''AMD Ryzen (Summit Ridge ZP-B0)'',
     FMSQ 8 15 0 1 0 sE ''AMD EPYC (Naples B0)'',
     FMS 8 15 0 1 0 ''AMD (unknown type) (Summit Ridge/Naples ZP-B0)'',
     FMSQ 8 15 0 1 1 sE ''AMD EPYC (Naples B1)'',
     FMSQ 8 15 0 1 1 dR ''AMD Ryzen (Summit Ridge ZP-B1)'',
     FMS 8 15 0 1 1 ''AMD (unknown type) (Summit Ridge/Naples ZP-B1)'',
     FMSQ 8 15 0 1 2 dR ''AMD Ryzen (Summit Ridge ZP-B2)'',
     FMSQ 8 15 0 1 2 sE ''AMD EPYC (Naples B2)'',
     FMS 8 15 0 1 2 ''AMD (unknown type) (Summit Ridge/Naples ZP-B2)'',
     FMQ 8 15 0 1 dR ''AMD Ryzen (Summit Ridge)'',
     FMQ 8 15 0 1 sE ''AMD EPYC (Naples)'',
     FM 8 15 0 1 ''AMD (unknown type) (Summit Ridge/Naples)'',
     FM 8 15 1 1 ''AMD Ryzen (Raven Ridge)'',
     FMS 8 15 0 8 2 ''AMD Ryzen (Pinnacle Ridge PiR-B2)'',
     FM 8 15 0 8 ''AMD Ryzen (Pinnacle Ridge)'',
     FM 8 15 1 8 ''AMD Ryzen (Picasso)'',
     FMQ 8 15 3 1 dR ''AMD Ryzen (Castle Peak)'',
     FMQ 8 15 3 1 sE ''AMD EPYC (Rome)'',
     FM 8 15 3 1 ''AMD Ryzen (Castle Peak) / EPYC (Rome)'',
     FM 8 15 5 0 ''AMD DG02SRTBP4MFA (Fenghuang 15FF)'',
     FMS 8 15 7 1 0 ''AMD Ryzen (Matisse B0)'',
     FM 8 15 7 1 ''AMD Ryzen (Matisse)'',
     DEFAULT ''unknown'']"

definition amd_rules :: "rule list" where
  "amd_rules =
     amd_rules_01
     @ amd_rules_02
     @ amd_rules_03
     @ amd_rules_04
     @ amd_rules_05
     @ amd_rules_06
     @ amd_rules_07
     @ amd_rules_08
     @ amd_rules_09
     @ amd_rules_10
     @ amd_rules_11
     @ amd_rules_12
     @ amd_rules_13"

section \<open>decode\_amd\_model: the AMD legacy brand reconstruction\<close>

text \<open>
  \<^verbatim>\<open>printf\<close>'s \<^verbatim>\<open>%02d\<close> on an \<^verbatim>\<open>unsigned int\<close> argument: the 32 bits are read as an
  \<^verbatim>\<open>int\<close> and printed in decimal, padded with zeros to two characters (a minus sign
  counts as one of them).
\<close>

fun dec_digits :: "nat \<Rightarrow> string" where
  "dec_digits n =
     (if n < 10 then [''0123456789'' ! n]
      else dec_digits (n div 10) @ [''0123456789'' ! (n mod 10)])"

definition fmt_02d :: "u32 \<Rightarrow> string" where
  "fmt_02d x =
     (let i = sint x
      in if i < 0 then CHR ''-'' # dec_digits (nat (- i))
         else if i < 10 then CHR ''0'' # dec_digits (nat i)
         else dec_digits (nat i))"

text \<open>
  A \<^verbatim>\<open>switch\<close> whose cases all end in \<^verbatim>\<open>break\<close>: the body of the group of labels that
  holds the value, if any. (C does not allow a label twice in one \<^verbatim>\<open>switch\<close>.)
\<close>

definition switch_case :: "(u32 list \<times> 'a) list \<Rightarrow> u32 \<Rightarrow> 'a option" where
  "switch_case cases key = map_option snd (find (\<lambda>c. key \<in> set (fst c)) cases)"

text \<open>The same for a \<^verbatim>\<open>switch\<close> with one label for each body.\<close>

definition switch_one :: "(u32 \<times> 'a) list \<Rightarrow> u32 \<Rightarrow> 'a option" where
  "switch_one cases key = map_option snd (find (\<lambda>c. key = fst c) cases)"

text \<open>
  The processor-number formulas of the first branch (\<^verbatim>\<open>XX\<close>, \<^verbatim>\<open>YY\<close>, \<^verbatim>\<open>ZZ\<close>, \<^verbatim>\<open>TT\<close>, \<^verbatim>\<open>RR\<close>,
  \<^verbatim>\<open>EE\<close>) and of the second branch (\<^verbatim>\<open>RR\<close>, \<^verbatim>\<open>PP\<close>, \<^verbatim>\<open>TT\<close>, \<^verbatim>\<open>ZZ\<close>, \<^verbatim>\<open>YY\<close>), which the source
  defines and undefines around each \<^verbatim>\<open>switch\<close>; all in \<^verbatim>\<open>unsigned int\<close> arithmetic.
\<close>

definition XX_k8 :: "u32 \<Rightarrow> u32" where "XX_k8 NN = 22 + NN"
definition YY_k8 :: "u32 \<Rightarrow> u32" where "YY_k8 NN = 38 + 2 * NN"
definition ZZ_k8 :: "u32 \<Rightarrow> u32" where "ZZ_k8 NN = 24 + NN"
definition TT_k8 :: "u32 \<Rightarrow> u32" where "TT_k8 NN = 24 + NN"
definition RR_k8 :: "u32 \<Rightarrow> u32" where "RR_k8 NN = 45 + 5 * NN"
definition EE_k8 :: "u32 \<Rightarrow> u32" where "EE_k8 NN = 9 + NN"

definition RR_npt :: "u32 \<Rightarrow> u32" where "RR_npt NN = NN - 1"
definition PP_npt :: "u32 \<Rightarrow> u32" where "PP_npt NN = 26 + NN"
definition TT_npt :: "u32 \<Rightarrow> u32 \<Rightarrow> u32" where "TT_npt cmpcap NN = 15 + cmpcap * 10 + NN"
definition ZZ_npt :: "u32 \<Rightarrow> u32" where "ZZ_npt NN = 57 + NN"
definition YY_npt :: "u32 \<Rightarrow> u32" where "YY_npt NN = 29 + NN"

definition PKGTYPE :: "u32 \<Rightarrow> u32" where "PKGTYPE pkgtype = push_bit 11 pkgtype"
definition CMPCAP :: "u32 \<Rightarrow> u32" where "CMPCAP cmpcap = push_bit 9 cmpcap"
definition BTI :: "u32 \<Rightarrow> u32" where "BTI bti = push_bit 4 bti"
definition PWRLMT :: "u32 \<Rightarrow> u32" where "PWRLMT pwrlmt = pwrlmt"

definition NC :: "u32 \<Rightarrow> u32" where "NC nc = push_bit 9 nc"
definition PG :: "u32 \<Rightarrow> u32" where "PG pg = push_bit 8 pg"
definition STR1 :: "u32 \<Rightarrow> u32" where "STR1 str1 = push_bit 4 str1"
definition STR2 :: "u32 \<Rightarrow> u32" where "STR2 str2 = str2"

text \<open>
  The \<^verbatim>\<open>switch (bti)\<close> of the first branch of \<^verbatim>\<open>decode_amd_model\<close> (Family 0Fh before
  model 40h): for each group of \<^verbatim>\<open>case\<close> labels the brand prefix, the processor number
  printed by \<^verbatim>\<open>sprintf\<close>, and the brand suffix when one is assigned.
\<close>

definition k8_cases :: "u32 \<Rightarrow> (u32 list \<times> string \<times> string \<times> string option) list" where
  "k8_cases NN =
    [([0x04],
        ''AMD Athlon(tm) 64'',
        ''Processor '' @ fmt_02d (XX_k8 NN) @ ''00+'', None),
     ([0x05],
        ''AMD Athlon(tm) 64 X2 Dual Core'',
        ''Processor '' @ fmt_02d (XX_k8 NN) @ ''00+'', None),
     ([0x06],
        ''AMD Athlon(tm) 64'',
        ''FX-'' @ fmt_02d (ZZ_k8 NN), Some ''Dual Core''),
     ([0x08],
        ''AMD Athlon(tm) 64'',
        ''Processor '' @ fmt_02d (XX_k8 NN) @ ''00+'', None),
     ([0x09],
        ''AMD Athlon(tm) 64'',
        ''Processor '' @ fmt_02d (XX_k8 NN) @ ''00+'', None),
     ([0x0a],
        ''AMD Turion(tm) Mobile Technology'',
        ''ML-'' @ fmt_02d (XX_k8 NN), None),
     ([0x0b],
        ''AMD Turion(tm) Mobile Technology'',
        ''MT-'' @ fmt_02d (XX_k8 NN), None),
     ([0x0c,
       0x0d],
        ''AMD Opteron(tm)'',
        ''Processor 1'' @ fmt_02d (YY_k8 NN), None),
     ([0x0e],
        ''AMD Opteron(tm)'',
        ''Processor 1'' @ fmt_02d (YY_k8 NN) @ '' HE'', None),
     ([0x0f],
        ''AMD Opteron(tm)'',
        ''Processor 1'' @ fmt_02d (YY_k8 NN) @ '' EE'', None),
     ([0x10,
       0x11],
        ''AMD Opteron(tm)'',
        ''Processor 2'' @ fmt_02d (YY_k8 NN), None),
     ([0x12],
        ''AMD Opteron(tm)'',
        ''Processor 2'' @ fmt_02d (YY_k8 NN) @ '' HE'', None),
     ([0x13],
        ''AMD Opteron(tm)'',
        ''Processor 2'' @ fmt_02d (YY_k8 NN) @ '' EE'', None),
     ([0x14,
       0x15],
        ''AMD Opteron(tm)'',
        ''Processor 8'' @ fmt_02d (YY_k8 NN), None),
     ([0x16],
        ''AMD Opteron(tm)'',
        ''Processor 8'' @ fmt_02d (YY_k8 NN) @ '' HE'', None),
     ([0x17],
        ''AMD Opteron(tm)'',
        ''Processor 8'' @ fmt_02d (YY_k8 NN) @ '' EE'', None),
     ([0x18],
        ''AMD Athlon(tm) 64'',
        ''Processor '' @ fmt_02d (EE_k8 NN) @ ''00+'', None),
     ([0x1d],
        ''Mobile AMD Athlon(tm) XP-M'',
        ''Processor '' @ fmt_02d (XX_k8 NN) @ ''00+'', None),
     ([0x1e],
        ''Mobile AMD Athlon(tm) XP-M'',
        ''Processor '' @ fmt_02d (XX_k8 NN) @ ''00+'', None),
     ([0x20],
        ''AMD Athlon(tm) XP'',
        ''Processor '' @ fmt_02d (XX_k8 NN) @ ''00+'', None),
     ([0x21,
       0x23],
        ''Mobile AMD Sempron(tm)'',
        ''Processor '' @ fmt_02d (TT_k8 NN) @ ''00+'', None),
     ([0x22,
       0x26],
        ''AMD Sempron(tm)'',
        ''Processor '' @ fmt_02d (TT_k8 NN) @ ''00+'', None),
     ([0x24],
        ''AMD Athlon(tm) 64'',
        ''FX-'' @ fmt_02d (ZZ_k8 NN), None),
     ([0x29,
       0x2c,
       0x2d,
       0x38,
       0x3b],
        ''Dual Core AMD Opteron(tm)'',
        ''Processor 1'' @ fmt_02d (RR_k8 NN), None),
     ([0x2a,
       0x30,
       0x31,
       0x39,
       0x3c],
        ''Dual Core AMD Opteron(tm)'',
        ''Processor 2'' @ fmt_02d (RR_k8 NN), None),
     ([0x2b,
       0x34,
       0x35,
       0x3a,
       0x3d],
        ''Dual Core AMD Opteron(tm)'',
        ''Processor 8'' @ fmt_02d (RR_k8 NN), None),
     ([0x2e],
        ''Dual Core AMD Opteron(tm)'',
        ''Processor 1'' @ fmt_02d (RR_k8 NN) @ '' HE'', None),
     ([0x2f],
        ''Dual Core AMD Opteron(tm)'',
        ''Processor 1'' @ fmt_02d (RR_k8 NN) @ '' EE'', None),
     ([0x32],
        ''Dual Core AMD Opteron(tm)'',
        ''Processor 2'' @ fmt_02d (RR_k8 NN) @ '' HE'', None),
     ([0x33],
        ''Dual Core AMD Opteron(tm)'',
        ''Processor 2'' @ fmt_02d (RR_k8 NN) @ '' EE'', None),
     ([0x36],
        ''Dual Core AMD Opteron(tm)'',
        ''Processor 8'' @ fmt_02d (RR_k8 NN) @ '' HE'', None),
     ([0x37],
        ''Dual Core AMD Opteron(tm)'',
        ''Processor 8'' @ fmt_02d (RR_k8 NN) @ '' EE'', None)]"

text \<open>
  The \<^verbatim>\<open>switch (PKGTYPE(pkgtype) + CMPCAP(cmpcap) + BTI(bti) + PWRLMT(pwrlmt))\<close> of the
  second branch (NPT Family 0Fh, model 40h and above).
\<close>

definition npt_cases :: "u32 \<Rightarrow> u32 \<Rightarrow> (u32 list \<times> string \<times> string \<times> string option) list" where
  "npt_cases cmpcap NN =
    [([PKGTYPE 1 + CMPCAP 0 + BTI 1 + PWRLMT 2],
        ''AMD Opteron(tm)'',
        ''Processor 22'' @ fmt_02d (RR_npt NN) @ '' EE'', None),
     ([PKGTYPE 1 + CMPCAP 1 + BTI 1 + PWRLMT 2],
        ''Dual-Core AMD Opteron(tm)'',
        ''Processor 22'' @ fmt_02d (RR_npt NN) @ '' EE'', None),
     ([PKGTYPE 1 + CMPCAP 1 + BTI 0 + PWRLMT 2],
        ''Dual-Core AMD Opteron(tm)'',
        ''Processor 12'' @ fmt_02d (RR_npt NN) @ '' EE'', None),
     ([PKGTYPE 1 + CMPCAP 1 + BTI 0 + PWRLMT 6],
        ''Dual-Core AMD Opteron(tm)'',
        ''Processor 12'' @ fmt_02d (RR_npt NN) @ '' HE'', None),
     ([PKGTYPE 1 + CMPCAP 1 + BTI 1 + PWRLMT 6],
        ''Dual-Core AMD Opteron(tm)'',
        ''Processor 22'' @ fmt_02d (RR_npt NN) @ '' HE'', None),
     ([PKGTYPE 1 + CMPCAP 1 + BTI 1 + PWRLMT 10],
        ''Dual-Core AMD Opteron(tm)'',
        ''Processor 22'' @ fmt_02d (RR_npt NN), None),
     ([PKGTYPE 1 + CMPCAP 1 + BTI 1 + PWRLMT 12],
        ''Dual-Core AMD Opteron(tm)'',
        ''Processor 22'' @ fmt_02d (RR_npt NN) @ '' SE'', None),
     ([PKGTYPE 1 + CMPCAP 1 + BTI 4 + PWRLMT 2],
        ''Dual-Core AMD Opteron(tm)'',
        ''Processor 82'' @ fmt_02d (RR_npt NN) @ '' EE'', None),
     ([PKGTYPE 1 + CMPCAP 1 + BTI 4 + PWRLMT 6],
        ''Dual-Core AMD Opteron(tm)'',
        ''Processor 82'' @ fmt_02d (RR_npt NN) @ '' HE'', None),
     ([PKGTYPE 1 + CMPCAP 1 + BTI 4 + PWRLMT 10],
        ''Dual-Core AMD Opteron(tm)'',
        ''Processor 82'' @ fmt_02d (RR_npt NN), None),
     ([PKGTYPE 1 + CMPCAP 1 + BTI 4 + PWRLMT 12],
        ''Dual-Core AMD Opteron(tm)'',
        ''Processor 82'' @ fmt_02d (RR_npt NN) @ '' SE'', None),
     ([PKGTYPE 1 + CMPCAP 1 + BTI 6 + PWRLMT 14],
        ''AMD Athlon(tm) 64'',
        ''FX-'' @ fmt_02d (ZZ_npt NN), None),
     ([PKGTYPE 3 + CMPCAP 0 + BTI 1 + PWRLMT 5],
        ''AMD Sempron(tm)'',
        ''Processor LE-1'' @ fmt_02d (RR_npt NN) @ ''0'', None),
     ([PKGTYPE 3 + CMPCAP 0 + BTI 2 + PWRLMT 6],
        ''AMD Athlon(tm)'',
        ''Processor LE-1'' @ fmt_02d (ZZ_npt NN) @ ''0'', None),
     ([PKGTYPE 3 + CMPCAP 0 + BTI 3 + PWRLMT 6],
        ''AMD Athlon(tm)'',
        ''Processor 1'' @ fmt_02d (ZZ_npt NN) @ ''0B'', None),
     ([PKGTYPE 3 + CMPCAP 0 + BTI 4 + PWRLMT 1,
       PKGTYPE 3 + CMPCAP 0 + BTI 4 + PWRLMT 2,
       PKGTYPE 3 + CMPCAP 0 + BTI 4 + PWRLMT 3,
       PKGTYPE 3 + CMPCAP 0 + BTI 4 + PWRLMT 4,
       PKGTYPE 3 + CMPCAP 0 + BTI 4 + PWRLMT 5,
       PKGTYPE 3 + CMPCAP 0 + BTI 4 + PWRLMT 8],
        ''AMD Athlon(tm) 64'',
        ''Processor '' @ fmt_02d (TT_npt cmpcap NN) @ ''00+'', None),
     ([PKGTYPE 3 + CMPCAP 0 + BTI 5 + PWRLMT 2],
        ''AMD Sempron(tm)'',
        ''Processor '' @ fmt_02d (RR_npt NN) @ ''50p'', None),
     ([PKGTYPE 3 + CMPCAP 0 + BTI 6 + PWRLMT 4,
       PKGTYPE 3 + CMPCAP 0 + BTI 6 + PWRLMT 8],
        ''AMD Sempron(tm)'',
        ''Processor '' @ fmt_02d (TT_npt cmpcap NN) @ ''00+'', None),
     ([PKGTYPE 3 + CMPCAP 0 + BTI 7 + PWRLMT 1,
       PKGTYPE 3 + CMPCAP 0 + BTI 7 + PWRLMT 2],
        ''AMD Sempron(tm)'',
        ''Processor '' @ fmt_02d (TT_npt cmpcap NN) @ ''0U'', None),
     ([PKGTYPE 3 + CMPCAP 0 + BTI 8 + PWRLMT 2,
       PKGTYPE 3 + CMPCAP 0 + BTI 8 + PWRLMT 3],
        ''AMD Athlon(tm)'',
        ''Processor '' @ fmt_02d (TT_npt cmpcap NN) @ ''50e'', None),
     ([PKGTYPE 3 + CMPCAP 0 + BTI 9 + PWRLMT 2],
        ''AMD Athlon(tm) Neo'',
        ''Processor MV-'' @ fmt_02d (TT_npt cmpcap NN), None),
     ([PKGTYPE 3 + CMPCAP 0 + BTI 12 + PWRLMT 2],
        ''AMD Sempron(tm)'',
        ''Processor 2'' @ fmt_02d (RR_npt NN) @ ''U'', None),
     ([PKGTYPE 3 + CMPCAP 1 + BTI 1 + PWRLMT 6],
        ''Dual-Core AMD Opteron(tm)'',
        ''Processor 12'' @ fmt_02d (RR_npt NN) @ '' HE'', None),
     ([PKGTYPE 3 + CMPCAP 1 + BTI 1 + PWRLMT 10],
        ''Dual-Core AMD Opteron(tm)'',
        ''Processor 12'' @ fmt_02d (RR_npt NN), None),
     ([PKGTYPE 3 + CMPCAP 1 + BTI 1 + PWRLMT 12],
        ''Dual-Core AMD Opteron(tm)'',
        ''Processor 12'' @ fmt_02d (RR_npt NN) @ '' SE'', None),
     ([PKGTYPE 3 + CMPCAP 1 + BTI 3 + PWRLMT 3],
        ''AMD Athlon(tm) X2 Dual Core'',
        ''Processor BE-2'' @ fmt_02d (TT_npt cmpcap NN) @ ''0'', None),
     ([PKGTYPE 3 + CMPCAP 1 + BTI 4 + PWRLMT 1,
       PKGTYPE 3 + CMPCAP 1 + BTI 4 + PWRLMT 2,
       PKGTYPE 3 + CMPCAP 1 + BTI 4 + PWRLMT 6,
       PKGTYPE 3 + CMPCAP 1 + BTI 4 + PWRLMT 8,
       PKGTYPE 3 + CMPCAP 1 + BTI 4 + PWRLMT 12],
        ''AMD Athlon(tm) 64 X2 Dual Core'',
        ''Processor '' @ fmt_02d (TT_npt cmpcap NN) @ ''00+'', None),
     ([PKGTYPE 3 + CMPCAP 1 + BTI 5 + PWRLMT 12],
        ''AMD Athlon(tm) 64'',
        ''FX-'' @ fmt_02d (ZZ_npt NN), Some ''Dual Core''),
     ([PKGTYPE 3 + CMPCAP 1 + BTI 6 + PWRLMT 6],
        ''AMD Sempron(tm) Dual Core'',
        ''Processor '' @ fmt_02d (RR_npt NN) @ ''00'', None),
     ([PKGTYPE 3 + CMPCAP 1 + BTI 7 + PWRLMT 3],
        ''AMD Athlon(tm) Dual Core'',
        ''Processor '' @ fmt_02d (TT_npt cmpcap NN) @ ''50e'', None),
     ([PKGTYPE 3 + CMPCAP 1 + BTI 7 + PWRLMT 6,
       PKGTYPE 3 + CMPCAP 1 + BTI 7 + PWRLMT 7],
        ''AMD Athlon(tm) Dual Core'',
        ''Processor '' @ fmt_02d (TT_npt cmpcap NN) @ ''00B'', None),
     ([PKGTYPE 3 + CMPCAP 1 + BTI 8 + PWRLMT 3],
        ''AMD Athlon(tm) Dual Core'',
        ''Processor '' @ fmt_02d (TT_npt cmpcap NN) @ ''50B'', None),
     ([PKGTYPE 3 + CMPCAP 1 + BTI 9 + PWRLMT 1],
        ''AMD Athlon(tm) X2 Dual Core'',
        ''Processor '' @ fmt_02d (TT_npt cmpcap NN) @ ''50e'', None),
     ([PKGTYPE 3 + CMPCAP 1 + BTI 10 + PWRLMT 1,
       PKGTYPE 3 + CMPCAP 1 + BTI 10 + PWRLMT 2],
        ''AMD Athlon(tm) Neo X2 Dual Core'',
        ''Processor '' @ fmt_02d (TT_npt cmpcap NN) @ ''50e'', None),
     ([PKGTYPE 3 + CMPCAP 1 + BTI 11 + PWRLMT 0],
        ''AMD Turion(tm) Neo X2 Dual Core'',
        ''Processor L6'' @ fmt_02d (RR_npt NN), None),
     ([PKGTYPE 3 + CMPCAP 1 + BTI 12 + PWRLMT 0],
        ''AMD Turion(tm) Neo X2 Dual Core'',
        ''Processor L3'' @ fmt_02d (RR_npt NN), None),
     ([PKGTYPE 0 + CMPCAP 0 + BTI 1 + PWRLMT 2],
        ''AMD Athlon(tm) 64'',
        ''Processor '' @ fmt_02d (TT_npt cmpcap NN) @ ''00+'', None),
     ([PKGTYPE 0 + CMPCAP 0 + BTI 2 + PWRLMT 12],
        ''AMD Turion(tm) 64 Mobile Technology'',
        ''MK-'' @ fmt_02d (YY_npt NN), None),
     ([PKGTYPE 0 + CMPCAP 0 + BTI 3 + PWRLMT 1],
        ''Mobile AMD Sempron(tm)'',
        ''Processor '' @ fmt_02d (TT_npt cmpcap NN) @ ''00+'', None),
     ([PKGTYPE 0 + CMPCAP 0 + BTI 3 + PWRLMT 6,
       PKGTYPE 0 + CMPCAP 0 + BTI 3 + PWRLMT 12],
        ''Mobile AMD Sempron(tm)'',
        ''Processor '' @ fmt_02d (PP_npt NN) @ ''00+'', None),
     ([PKGTYPE 0 + CMPCAP 0 + BTI 4 + PWRLMT 2],
        ''AMD Sempron(tm)'',
        ''Processor '' @ fmt_02d (TT_npt cmpcap NN) @ ''00+'', None),
     ([PKGTYPE 0 + CMPCAP 0 + BTI 6 + PWRLMT 4,
       PKGTYPE 0 + CMPCAP 0 + BTI 6 + PWRLMT 6,
       PKGTYPE 0 + CMPCAP 0 + BTI 6 + PWRLMT 12],
        ''AMD Athlon(tm)'',
        ''Processor TF-'' @ fmt_02d (TT_npt cmpcap NN), None),
     ([PKGTYPE 0 + CMPCAP 0 + BTI 7 + PWRLMT 3],
        ''AMD Athlon(tm)'',
        ''Processor L1'' @ fmt_02d (RR_npt NN), None),
     ([PKGTYPE 0 + CMPCAP 1 + BTI 1 + PWRLMT 12],
        ''AMD Sempron(tm)'',
        ''Processor TJ-'' @ fmt_02d (YY_npt NN), None),
     ([PKGTYPE 0 + CMPCAP 1 + BTI 2 + PWRLMT 12],
        ''AMD Turion(tm) 64 X2 Mobile Technology'',
        ''Processor TL-'' @ fmt_02d (YY_npt NN), None),
     ([PKGTYPE 0 + CMPCAP 1 + BTI 3 + PWRLMT 4,
       PKGTYPE 0 + CMPCAP 1 + BTI 3 + PWRLMT 12],
        ''AMD Turion(tm) 64 X2 Dual-Core'',
        ''Processor TK-'' @ fmt_02d (YY_npt NN), None),
     ([PKGTYPE 0 + CMPCAP 1 + BTI 5 + PWRLMT 4],
        ''AMD Turion(tm) 64 X2 Dual Core'',
        ''Processor '' @ fmt_02d (TT_npt cmpcap NN) @ ''00+'', None),
     ([PKGTYPE 0 + CMPCAP 1 + BTI 6 + PWRLMT 2],
        ''AMD Turion(tm) X2 Dual Core'',
        ''Processor L3'' @ fmt_02d (RR_npt NN), None),
     ([PKGTYPE 0 + CMPCAP 1 + BTI 7 + PWRLMT 4],
        ''AMD Turion(tm) X2 Dual Core'',
        ''Processor L5'' @ fmt_02d (RR_npt NN), None)]"

text \<open>
  The String1 and String2 tables of the third branch (Family 10h, 11h, 12h and 14h), one
  pair for each family and package type; a String1 entry is the brand prefix and
  \<^verbatim>\<open>s1\<close>, a String2 entry is \<^verbatim>\<open>s2\<close>. The labels are written as in the source (some String2
  tables spell their last summand with \<^verbatim>\<open>STR1\<close>).
\<close>

definition fam10_pkg0_str1 :: "(u32 \<times> string \<times> string) list" where
  "fam10_pkg0_str1 =
    [(PG 0 + NC 3 + STR1 0, ''Quad-Core AMD Opteron(tm)'', ''Processor 83''),
     (PG 0 + NC 3 + STR1 1, ''Quad-Core AMD Opteron(tm)'', ''Processor 23''),
     (PG 0 + NC 5 + STR1 0, ''Six-Core AMD Opteron(tm)'', ''Processor 84''),
     (PG 0 + NC 5 + STR1 1, ''Six-Core AMD Opteron(tm)'', ''Processor 24''),
     (PG 1 + NC 3 + STR1 1, ''Embedded AMD Opteron(tm)'', ''Processor ''),
     (PG 1 + NC 5 + STR1 1, ''Embedded AMD Opteron(tm)'', ''Processor '')]"

definition fam10_pkg0_str2 :: "(u32 \<times> string) list" where
  "fam10_pkg0_str2 =
    [(PG 0 + NC 3 + STR2 10, '' SE''),
     (PG 0 + NC 3 + STR2 11, '' HE''),
     (PG 0 + NC 3 + STR2 12, '' EE''),
     (PG 0 + NC 5 + STR2 0, '' SE''),
     (PG 0 + NC 5 + STR2 1, '' HE''),
     (PG 0 + NC 5 + STR2 2, '' EE''),
     (PG 1 + NC 3 + STR2 1, ''GF HE''),
     (PG 1 + NC 3 + STR2 2, ''HF HE''),
     (PG 1 + NC 3 + STR2 3, ''VS''),
     (PG 1 + NC 3 + STR2 4, ''QS HE''),
     (PG 1 + NC 3 + STR2 5, ''NP HE''),
     (PG 1 + NC 3 + STR2 6, ''KH HE''),
     (PG 1 + NC 3 + STR2 7, ''KS HE''),
     (PG 1 + NC 5 + STR2 1, ''QS''),
     (PG 1 + NC 5 + STR2 2, ''KS HE'')]"

definition fam10_pkg1_str1 :: "(u32 \<times> string \<times> string) list" where
  "fam10_pkg1_str1 =
    [(PG 0 + NC 0 + STR1 2, ''AMD Sempron(tm)'', ''1''),
     (PG 0 + NC 0 + STR1 1, ''AMD Athlon(tm)'', []),
     (PG 0 + NC 0 + STR1 3, ''AMD Athlon(tm) II X2'', ''2''),
     (PG 0 + NC 0 + STR1 4, ''AMD Athlon(tm) II X2'', ''B''),
     (PG 0 + NC 0 + STR1 5, ''AMD Athlon(tm) II X2'', []),
     (PG 0 + NC 0 + STR1 7, ''AMD Phenom(tm) II X2'', ''5''),
     (PG 0 + NC 0 + STR1 10, ''AMD Phenom(tm) II X2'', []),
     (PG 0 + NC 0 + STR1 11, ''AMD Phenom(tm) II X2'', ''B''),
     (PG 0 + NC 0 + STR1 12, ''AMD Sempron(tm) X2'', ''1''),
     (PG 0 + NC 2 + STR1 0, ''AMD Phenom(tm)'', []),
     (PG 0 + NC 2 + STR1 3, ''AMD Phenom(tm) II X3'', ''B''),
     (PG 0 + NC 2 + STR1 4, ''AMD Phenom(tm) II X3'', []),
     (PG 0 + NC 2 + STR1 7, ''AMD Phenom(tm) II X3'', ''4''),
     (PG 0 + NC 2 + STR1 8, ''AMD Phenom(tm) II X3'', ''7''),
     (PG 0 + NC 2 + STR1 10, ''AMD Phenom(tm) II X3'', []),
     (PG 0 + NC 3 + STR1 0, ''Quad-Core AMD Opteron(tm)'', ''Processor 13''),
     (PG 0 + NC 3 + STR1 2, ''AMD Phenom(tm)'', []),
     (PG 0 + NC 3 + STR1 3, ''AMD Phenom(tm) II X4'', ''9''),
     (PG 0 + NC 3 + STR1 4, ''AMD Phenom(tm) II X4'', ''8''),
     (PG 0 + NC 3 + STR1 7, ''AMD Phenom(tm) II X4'', ''B''),
     (PG 0 + NC 3 + STR1 8, ''AMD Phenom(tm) II X4'', []),
     (PG 0 + NC 3 + STR1 10, ''AMD Athlon(tm) II X4'', ''6''),
     (PG 0 + NC 3 + STR1 15, ''AMD Athlon(tm) II X4'', []),
     (PG 0 + NC 5 + STR1 0, ''AMD Phenom(tm) II X6'', ''1''),
     (PG 1 + NC 1 + STR1 1, ''AMD Athlon(tm) II XLT V'', []),
     (PG 1 + NC 1 + STR1 2, ''AMD Athlon(tm) II XL V'', []),
     (PG 1 + NC 3 + STR1 1, ''AMD Phenom(tm) II XLT Q'', []),
     (PG 1 + NC 3 + STR1 2, ''AMD Phenom(tm) II X4'', ''9''),
     (PG 1 + NC 3 + STR1 3, ''AMD Phenom(tm) II X4'', ''8''),
     (PG 1 + NC 3 + STR1 4, ''AMD Phenom(tm) II X4'', ''6'')]"

definition fam10_pkg1_str2 :: "(u32 \<times> string) list" where
  "fam10_pkg1_str2 =
    [(PG 0 + NC 0 + STR2 10, '' Processor''),
     (PG 0 + NC 0 + STR2 11, ''u Processor''),
     (PG 0 + NC 1 + STR2 3, ''50 Dual-Core Processor''),
     (PG 0 + NC 1 + STR2 6, '' Processor''),
     (PG 0 + NC 1 + STR2 7, ''e Processor''),
     (PG 0 + NC 1 + STR2 9, ''0 Processor''),
     (PG 0 + NC 1 + STR2 10, ''0e Processor''),
     (PG 0 + NC 1 + STR2 11, ''u Processor''),
     (PG 0 + NC 2 + STR2 0, ''00 Triple-Core Processor''),
     (PG 0 + NC 2 + STR2 1, ''00e Triple-Core Processor''),
     (PG 0 + NC 2 + STR2 2, ''00B Triple-Core Processor''),
     (PG 0 + NC 2 + STR2 3, ''50 Triple-Core Processor''),
     (PG 0 + NC 2 + STR2 4, ''50e Triple-Core Processor''),
     (PG 0 + NC 2 + STR2 5, ''50B Triple-Core Processor''),
     (PG 0 + NC 2 + STR2 6, '' Processor''),
     (PG 0 + NC 2 + STR2 7, ''e Processor''),
     (PG 0 + NC 2 + STR2 9, ''0e Processor''),
     (PG 0 + NC 2 + STR2 10, ''0 Processor''),
     (PG 0 + NC 3 + STR2 0, ''00 Quad-Core Processor''),
     (PG 0 + NC 3 + STR2 1, ''00e Quad-Core Processor''),
     (PG 0 + NC 3 + STR2 2, ''00B Quad-Core Processor''),
     (PG 0 + NC 3 + STR2 3, ''50 Quad-Core Processor''),
     (PG 0 + NC 3 + STR2 4, ''50e Quad-Core Processor''),
     (PG 0 + NC 3 + STR2 5, ''50B Quad-Core Processor''),
     (PG 0 + NC 3 + STR2 6, '' Processor''),
     (PG 0 + NC 3 + STR2 7, ''e Processor''),
     (PG 0 + NC 3 + STR2 9, ''0e Processor''),
     (PG 0 + NC 3 + STR2 14, ''0 Processor''),
     (PG 0 + NC 5 + STR2 0, ''5T Processor''),
     (PG 0 + NC 5 + STR2 1, ''0T Processor''),
     (PG 1 + NC 1 + STR2 1, ''L Processor''),
     (PG 1 + NC 1 + STR2 2, ''C Processor''),
     (PG 1 + NC 3 + STR2 1, ''L Processor''),
     (PG 1 + NC 3 + STR2 4, ''T Processor'')]"

definition fam10_pkg2_str1 :: "(u32 \<times> string \<times> string) list" where
  "fam10_pkg2_str1 =
    [(PG 0 + NC 0 + STR1 0, ''AMD Sempron(tm)'', ''M1''),
     (PG 0 + NC 0 + STR1 1, ''AMD'', ''V''),
     (PG 0 + NC 1 + STR1 0, ''AMD Turion(tm) II Ultra Dual-Core Mobile'', ''M6''),
     (PG 0 + NC 1 + STR1 1, ''AMD Turion(tm) II Dual-Core Mobile'', ''M5''),
     (PG 0 + NC 1 + STR1 2, ''AMD Athlon(tm) II Dual-Core'', ''M3''),
     (PG 0 + NC 1 + STR1 3, ''AMD Turion(tm) II'', ''P''),
     (PG 0 + NC 1 + STR1 4, ''AMD Athlon(tm) II'', ''P''),
     (PG 0 + NC 1 + STR1 5, ''AMD Phenom(tm) II'', ''X''),
     (PG 0 + NC 1 + STR1 6, ''AMD Phenom(tm) II'', ''N''),
     (PG 0 + NC 1 + STR1 7, ''AMD Turion(tm) II'', ''N''),
     (PG 0 + NC 1 + STR1 8, ''AMD Athlon(tm) II'', ''N''),
     (PG 0 + NC 2 + STR1 2, ''AMD Phenom(tm) II'', ''P''),
     (PG 0 + NC 2 + STR1 3, ''AMD Phenom(tm) II'', ''N''),
     (PG 0 + NC 3 + STR1 1, ''AMD Phenom(tm) II'', ''P''),
     (PG 0 + NC 3 + STR1 2, ''AMD Phenom(tm) II'', ''X''),
     (PG 0 + NC 3 + STR1 3, ''AMD Phenom(tm) II'', ''N'')]"

definition fam10_pkg2_str2 :: "(u32 \<times> string) list" where
  "fam10_pkg2_str2 =
    [(PG 0 + NC 0 + STR2 1, ''0 Processor''),
     (PG 0 + NC 1 + STR2 2, ''0 Dual-Core Processor''),
     (PG 0 + NC 2 + STR2 2, ''0 Triple-Core Processor''),
     (PG 0 + NC 3 + STR2 1, ''0 Quad-Core Processor'')]"

definition fam10_pkg3_str1 :: "(u32 \<times> string \<times> string) list" where
  "fam10_pkg3_str1 =
    [(PG 0 + NC 7 + STR1 0, ''AMD Opteron(tm)'', ''Processor 61''),
     (PG 0 + NC 11 + STR1 0, ''AMD Opteron(tm)'', ''Processor 61''),
     (PG 1 + NC 7 + STR1 1, ''Embedded AMD Opteron(tm)'', ''Processor '')]"

definition fam10_pkg3_str2 :: "(u32 \<times> string) list" where
  "fam10_pkg3_str2 =
    [(PG 0 + NC 7 + STR1 0, '' HE''),
     (PG 0 + NC 7 + STR1 1, '' SE''),
     (PG 0 + NC 11 + STR1 0, '' HE''),
     (PG 0 + NC 11 + STR1 1, '' SE''),
     (PG 1 + NC 7 + STR1 1, ''QS''),
     (PG 1 + NC 7 + STR1 2, ''KS'')]"

definition fam10_pkg4_str1 :: "(u32 \<times> string \<times> string) list" where
  "fam10_pkg4_str1 =
    [(PG 0 + NC 0 + STR1 1, ''AMD Athlon(tm) II Neo'', ''K''),
     (PG 0 + NC 0 + STR1 2, ''AMD'', ''V''),
     (PG 0 + NC 0 + STR1 3, ''AMD Athlon(tm) II Neo'', ''R''),
     (PG 0 + NC 1 + STR1 1, ''AMD Turion(tm) II Neo'', ''K''),
     (PG 0 + NC 1 + STR1 2, ''AMD Athlon(tm) II Neo'', ''K''),
     (PG 0 + NC 1 + STR1 3, ''AMD'', ''V''),
     (PG 0 + NC 1 + STR1 4, ''AMD Turion(tm) II Neo'', ''N''),
     (PG 0 + NC 1 + STR1 5, ''AMD Athlon(tm) II Neo'', ''N'')]"

definition fam10_pkg4_str2 :: "(u32 \<times> string) list" where
  "fam10_pkg4_str2 =
    [(PG 0 + NC 0 + STR1 1, ''5 Processor''),
     (PG 0 + NC 0 + STR1 2, ''L Processor''),
     (PG 0 + NC 1 + STR1 1, ''5 Dual-Core Processor''),
     (PG 0 + NC 1 + STR1 2, ''L Dual-Core Processor'')]"

definition fam10_pkg5_str1 :: "(u32 \<times> string \<times> string) list" where
  "fam10_pkg5_str1 =
    [(PG 0 + NC 3 + STR1 0, ''AMD Opteron(tm)'', ''41''),
     (PG 0 + NC 5 + STR1 0, ''AMD Opteron(tm)'', ''41''),
     (PG 1 + NC 3 + STR1 1, ''Embedded AMD Opteron(tm)'', '' ''),
     (PG 1 + NC 5 + STR1 1, ''Embedded AMD Opteron(tm)'', '' '')]"

definition fam10_pkg5_str2 :: "(u32 \<times> string) list" where
  "fam10_pkg5_str2 =
    [(PG 0 + NC 3 + STR1 0, '' HE''),
     (PG 0 + NC 3 + STR1 1, '' EE''),
     (PG 0 + NC 5 + STR1 0, '' HE''),
     (PG 0 + NC 5 + STR1 1, '' EE''),
     (PG 1 + NC 3 + STR1 1, ''QS HE''),
     (PG 1 + NC 3 + STR1 2, ''LE HE''),
     (PG 1 + NC 3 + STR1 3, ''CL EE''),
     (PG 1 + NC 5 + STR1 1, ''KX HE''),
     (PG 1 + NC 5 + STR1 2, ''GL EE'')]"

definition fam11_pkg2_str1 :: "(u32 \<times> string \<times> string) list" where
  "fam11_pkg2_str1 =
    [(PG 0 + NC 0 + STR1 0, ''AMD Sempron(tm)'', ''SI-''),
     (PG 0 + NC 0 + STR1 1, ''AMD Athlon(tm)'', ''QI-''),
     (PG 0 + NC 1 + STR1 0, ''AMD Turion(tm) X2 Ultra Dual-Core Mobile'', ''ZM-''),
     (PG 0 + NC 1 + STR1 1, ''AMD Turion(tm) X2 Dual-Core Mobile'', ''RM-''),
     (PG 0 + NC 1 + STR1 2, ''AMD Athlon(tm) X2 Dual-Core'', ''QL-''),
     (PG 0 + NC 1 + STR1 3, ''AMD Sempron(tm) X2 Dual-Core'', ''NI-'')]"

definition fam11_pkg2_str2 :: "(u32 \<times> string) list" where
  "fam11_pkg2_str2 =
    [(PG 0 + NC 0 + STR2 0, []),
     (PG 0 + NC 1 + STR2 0, [])]"

definition fam12_pkg1_str1 :: "(u32 \<times> string \<times> string) list" where
  "fam12_pkg1_str1 =
    [(PG 0 + NC 1 + STR1 3, ''AMD'', ''A4-33''),
     (PG 0 + NC 1 + STR1 5, ''AMD'', ''E2-30''),
     (PG 0 + NC 3 + STR1 1, ''AMD'', ''A8-35''),
     (PG 0 + NC 3 + STR1 3, ''AMD'', ''A6-34'')]"

definition fam12_pkg1_str2 :: "(u32 \<times> string) list" where
  "fam12_pkg1_str2 =
    [(PG 0 + NC 1 + STR2 1, ''M''),
     (PG 0 + NC 1 + STR2 2, ''MX''),
     (PG 0 + NC 3 + STR2 1, ''M''),
     (PG 0 + NC 3 + STR2 2, ''MX'')]"

definition fam12_pkg2_str1 :: "(u32 \<times> string \<times> string) list" where
  "fam12_pkg2_str1 =
    [(PG 0 + NC 1 + STR1 1, ''AMD'', ''A4-33''),
     (PG 0 + NC 1 + STR1 2, ''AMD'', ''E2-32''),
     (PG 0 + NC 1 + STR1 4, ''AMD Athlon(tm) II X2'', ''2''),
     (PG 0 + NC 1 + STR1 5, ''AMD'', ''A4-34''),
     (PG 0 + NC 1 + STR1 12, ''AMD Sempron(tm) X2'', ''1''),
     (PG 0 + NC 2 + STR1 5, ''AMD'', ''A6-35''),
     (PG 0 + NC 3 + STR1 5, ''AMD'', ''A8-38''),
     (PG 0 + NC 3 + STR1 6, ''AMD'', ''A6-36''),
     (PG 0 + NC 3 + STR1 13, ''AMD Athlon(tm) II X4'', ''6'')]"

definition fam12_pkg2_str2 :: "(u32 \<times> string) list" where
  "fam12_pkg2_str2 =
    [(PG 0 + NC 1 + STR2 1, '' APU with Radeon(tm) HD Graphics''),
     (PG 0 + NC 1 + STR2 2, '' Dual-Core Processor''),
     (PG 0 + NC 2 + STR2 1, '' APU with Radeon(tm) HD Graphics''),
     (PG 0 + NC 3 + STR2 1, '' APU with Radeon(tm) HD Graphics''),
     (PG 0 + NC 3 + STR2 3, '' Quad-Core Processor'')]"

definition fam14_pkg0_str1 :: "(u32 \<times> string \<times> string) list" where
  "fam14_pkg0_str1 =
    [(PG 0 + NC 0 + STR1 1, ''AMD'', ''C-''),
     (PG 0 + NC 0 + STR1 2, ''AMD'', ''E-''),
     (PG 0 + NC 0 + STR1 4, ''AMD'', ''G-T''),
     (PG 0 + NC 1 + STR1 1, ''AMD'', ''C-''),
     (PG 0 + NC 1 + STR1 2, ''AMD'', ''E-''),
     (PG 0 + NC 1 + STR1 3, ''AMD'', ''Z-''),
     (PG 0 + NC 1 + STR1 4, ''AMD'', ''G-T''),
     (PG 0 + NC 1 + STR1 5, ''AMD'', ''E1-1''),
     (PG 0 + NC 1 + STR1 6, ''AMD'', ''E2-1''),
     (PG 0 + NC 1 + STR1 7, ''AMD'', ''E2-2'')]"

definition fam14_pkg0_str2 :: "(u32 \<times> string) list" where
  "fam14_pkg0_str2 =
    [(PG 0 + NC 0 + STR2 1, []),
     (PG 0 + NC 0 + STR2 2, ''0''),
     (PG 0 + NC 0 + STR2 3, ''5''),
     (PG 0 + NC 0 + STR2 4, ''0x''),
     (PG 0 + NC 0 + STR2 5, ''5x''),
     (PG 0 + NC 0 + STR2 6, ''x''),
     (PG 0 + NC 0 + STR2 7, ''L''),
     (PG 0 + NC 0 + STR2 8, ''N''),
     (PG 0 + NC 0 + STR2 9, ''R''),
     (PG 0 + NC 0 + STR2 10, ''0''),
     (PG 0 + NC 0 + STR2 11, ''5''),
     (PG 0 + NC 0 + STR2 12, []),
     (PG 0 + NC 0 + STR2 13, ''0D''),
     (PG 0 + NC 1 + STR2 1, []),
     (PG 0 + NC 1 + STR2 2, ''0''),
     (PG 0 + NC 1 + STR2 3, ''5''),
     (PG 0 + NC 1 + STR2 4, ''0x''),
     (PG 0 + NC 1 + STR2 5, ''5x''),
     (PG 0 + NC 1 + STR2 6, ''x''),
     (PG 0 + NC 1 + STR2 7, ''L''),
     (PG 0 + NC 1 + STR2 8, ''N''),
     (PG 0 + NC 1 + STR2 9, ''0''),
     (PG 0 + NC 1 + STR2 10, ''5''),
     (PG 0 + NC 1 + STR2 11, []),
     (PG 0 + NC 1 + STR2 12, ''E''),
     (PG 0 + NC 1 + STR2 13, ''0D'')]"

text \<open>
  The third branch picks its pair of tables by family and package type; any other
  package type gives \<^verbatim>\<open>s1 = NULL\<close> and \<^verbatim>\<open>s2 = NULL\<close>.
\<close>

definition fam1x_tables ::
  "u32 \<Rightarrow> u32 \<Rightarrow> (u32 \<times> string \<times> string) list \<times> (u32 \<times> string) list" where
  "fam1x_tables fam pkgtype =
     (if fam = put_XF 1 + put_F 15 then
        (if pkgtype = 0 then (fam10_pkg0_str1, fam10_pkg0_str2)
         else if pkgtype = 1 then (fam10_pkg1_str1, fam10_pkg1_str2)
         else if pkgtype = 2 then (fam10_pkg2_str1, fam10_pkg2_str2)
         else if pkgtype = 3 then (fam10_pkg3_str1, fam10_pkg3_str2)
         else if pkgtype = 4 then (fam10_pkg4_str1, fam10_pkg4_str2)
         else if pkgtype = 5 then (fam10_pkg5_str1, fam10_pkg5_str2)
         else ([], []))
      else if fam = put_XF 2 + put_F 15 then
        (if pkgtype = 2 then (fam11_pkg2_str1, fam11_pkg2_str2) else ([], []))
      else if fam = put_XF 3 + put_F 15 then
        (if pkgtype = 1 then (fam12_pkg1_str1, fam12_pkg1_str2)
         else if pkgtype = 2 then (fam12_pkg2_str1, fam12_pkg2_str2)
         else ([], []))
      else if fam = put_XF 5 + put_F 15 then
        (if pkgtype = 0 then (fam14_pkg0_str1, fam14_pkg0_str2) else ([], []))
      else ([], []))"

text \<open>
  \<^verbatim>\<open>partialmodel--\<close> happens for Family 10h when \<^verbatim>\<open>pkgtype >= 2\<close>, and always for
  Family 12h and 14h.
\<close>

definition fam1x_partialmodel :: "u32 \<Rightarrow> u32 \<Rightarrow> u32 \<Rightarrow> u32" where
  "fam1x_partialmodel fam pkgtype partialmodel =
     (if fam = put_XF 1 + put_F 15 then
        (if pkgtype \<ge> 2 then partialmodel - 1 else partialmodel)
      else if fam = put_XF 2 + put_F 15 then partialmodel
      else if fam = put_XF 3 + put_F 15 then partialmodel - 1
      else if fam = put_XF 5 + put_F 15 then partialmodel - 1
      else partialmodel)"

text \<open>
  \<^verbatim>\<open>decode_amd_model\<close> returns through its three out-parameters: \<^verbatim>\<open>*brand_pre\<close> and
  \<^verbatim>\<open>*brand_post\<close> (\<^verbatim>\<open>NULL\<close> is \<open>None\<close>) and the string \<^verbatim>\<open>proc\<close>. All three start empty, and
  stay so for a \<^verbatim>\<open>NULL\<close> stash, a family with no table and a key with no \<^verbatim>\<open>case\<close>.
\<close>

definition decode_amd_model ::
  "code_stash_t option \<Rightarrow> string option \<times> string option \<times> string" where
  "decode_amd_model stash_ptr =
     (case stash_ptr of
        None \<Rightarrow> (None, None, [])
      | Some stash \<Rightarrow>
          if mask_F (val_1_eax stash) = put_XF 0 + put_F 15
             \<and> mask_M (val_1_eax stash) < put_XM 4 + put_M 0 then
            (let key =
                   (if mask_B (val_1_ebx stash) \<noteq> 0 then
                      Some (push_bit 2 (BIT_EXTRACT_LE (mask_B (val_1_ebx stash)) 5 8),
                            BIT_EXTRACT_LE (mask_B (val_1_ebx stash)) 0 5)
                    else if BIT_EXTRACT_LE (val_80000001_ebx stash) 0 12 \<noteq> 0 then
                      Some (BIT_EXTRACT_LE (val_80000001_ebx stash) 6 12,
                            BIT_EXTRACT_LE (val_80000001_ebx stash) 0 6)
                    else None)
             in case key of
                  None \<Rightarrow> (None, None, [])
                | Some (bti, NN) \<Rightarrow>
                    (case switch_case (k8_cases NN) bti of
                       None \<Rightarrow> (None, None, [])
                     | Some (brand_pre, proc, brand_post) \<Rightarrow>
                         (Some brand_pre, brand_post, proc)))
          else if mask_F (val_1_eax stash) = put_XF 0 + put_F 15
                  \<and> mask_M (val_1_eax stash) \<ge> put_XM 4 + put_M 0 then
            (let pwrlmt = push_bit 1 (BIT_EXTRACT_LE (val_80000001_ebx stash) 6 9)
                            + BIT_EXTRACT_LE (val_80000001_ebx stash) 14 15;
                 bti = BIT_EXTRACT_LE (val_80000001_ebx stash) 9 14;
                 NN = push_bit 5 (BIT_EXTRACT_LE (val_80000001_ebx stash) 15 16)
                        + BIT_EXTRACT_LE (val_80000001_ebx stash) 0 5;
                 pkgtype = BIT_EXTRACT_LE (val_80000001_eax stash) 4 6;
                 cmpcap = (if BIT_EXTRACT_LE (val_80000008_ecx stash) 0 8 > 0 then 1 else 0)
             in case switch_case (npt_cases cmpcap NN)
                       (PKGTYPE pkgtype + CMPCAP cmpcap + BTI bti + PWRLMT pwrlmt) of
                  None \<Rightarrow> (None, None, [])
                | Some (brand_pre, proc, brand_post) \<Rightarrow>
                    (Some brand_pre, brand_post, proc))
          else if mask_F (val_1_eax stash) = put_XF 1 + put_F 15
                  \<or> mask_F (val_1_eax stash) = put_XF 2 + put_F 15
                  \<or> mask_F (val_1_eax stash) = put_XF 3 + put_F 15
                  \<or> mask_F (val_1_eax stash) = put_XF 5 + put_F 15 then
            (let str2 = BIT_EXTRACT_LE (val_80000001_ebx stash) 0 4;
                 partialmodel = BIT_EXTRACT_LE (val_80000001_ebx stash) 4 11;
                 str1 = BIT_EXTRACT_LE (val_80000001_ebx stash) 11 15;
                 pg = BIT_EXTRACT_LE (val_80000001_ebx stash) 15 16;
                 pkgtype = BIT_EXTRACT_LE (val_80000001_ebx stash) 28 32;
                 nc = BIT_EXTRACT_LE (val_80000008_ecx stash) 0 8;
                 fam = mask_F (val_1_eax stash);
                 partialmodel = fam1x_partialmodel fam pkgtype partialmodel;
                 (table1, table2) = fam1x_tables fam pkgtype;
                 s1 = switch_one table1 (PG pg + NC nc + STR1 str1);
                 s2 = switch_one table2 (PG pg + NC nc + STR2 str2)
             in case s1 of
                  None \<Rightarrow> (None, None, [])
                | Some (brand_pre, s1) \<Rightarrow>
                    (Some brand_pre, None,
                     s1 @ fmt_02d partialmodel @ (case s2 of None \<Rightarrow> [] | Some s \<Rightarrow> s)))
          else (None, None, []))"

text \<open>
  \<^verbatim>\<open>decode_override_brand\<close>: for AMD and Hygon, when the captured brand string holds
  "model unknown" and \<^verbatim>\<open>decode_amd_model\<close> found a brand prefix, the override brand is
  written with \<^verbatim>\<open>sprintf(b, "%s %s", brand_pre, proc)\<close> and, for a brand suffix,
  \<^verbatim>\<open>sprintf(b, " %s", brand_post)\<close> after it. Otherwise it is left as it was.
\<close>

definition decode_override_brand :: "code_stash_t \<Rightarrow> code_stash_t" where
  "decode_override_brand stash =
     (if (vendor stash = VENDOR_AMD \<or> vendor stash = VENDOR_HYGON)
         \<and> strstr_found (brand stash) ''model unknown''
      then
        (case decode_amd_model (Some stash) of
           (None, brand_post, proc) \<Rightarrow> stash
         | (Some brand_pre, brand_post, proc) \<Rightarrow>
             stash\<lparr>override_brand :=
               brand_pre @ '' '' @ proc
                 @ (case brand_post of None \<Rightarrow> [] | Some p \<Rightarrow> '' '' @ p)\<rparr>)
      else stash)"

section \<open>The rule tables and decoders of the other vendors\<close>

text \<open>
  \<^verbatim>\<open>decode_synth_cyrix\<close> .. \<^verbatim>\<open>decode_synth_zhaoxin\<close>: each is \<^verbatim>\<open>cstring result = NULL; START;\<close>
  its rules, \<^verbatim>\<open>return result\<close>. Ten of them take the signature only; their tables hold no
  rule with a query, the only rules that read the stash, and the chain is run here
  with no stash.
\<close>

definition cyrix_rules :: "rule list" where
  "cyrix_rules =
    [FM 0 4 0 4 ''Cyrix Media GX / GXm'',
     FM 0 4 0 9 ''Cyrix 5x86'',
     F 0 4 ''Cyrix 5x86 (unknown model)'',
     FM 0 5 0 2 ''Cyrix M1 6x86'',
     FMQ 0 5 0 4 cm ''Cyrix MediaGX (C6)'',
     FM 0 5 0 4 ''Cyrix M1 WinChip (C6)'',
     FM 0 5 0 8 ''Cyrix M1 WinChip 2 (C6-2)'',
     FM 0 5 0 9 ''Cyrix M1 WinChip 3 (C6-2)'',
     F 0 5 ''Cyrix M1 (unknown model)'',
     FM 0 6 0 0 ''Cyrix M2 6x86MX'',
     FM 0 6 0 5 ''Cyrix M2'',
     F 0 6 ''Cyrix M2 (unknown model)'',
     DEFAULT ''unknown'']"

definition decode_synth_cyrix :: "u32 \<Rightarrow> code_stash_t option \<Rightarrow> string option" where
  "decode_synth_cyrix val stash = synth_chain cyrix_rules val stash"

definition via_rules :: "rule list" where
  "via_rules =
    [FM 0 5 0 4 ''VIA WinChip (C6)'',
     FM 0 5 0 8 ''VIA WinChip 2 (C6-2)'',
     FM 0 6 0 6 ''VIA C3 (Samuel WinChip C5A core)'',
     FMS 0 6 0 7 0 ''VIA C3 (Samuel 2 WinChip C5B core) / Eden ESP 4000/5000/6000'',
     FMS 0 6 0 7 1 ''VIA C3 (Samuel 2 WinChip C5B core) / Eden ESP 4000/5000/6000'',
     FMS 0 6 0 7 2 ''VIA C3 (Samuel 2 WinChip C5B core) / Eden ESP 4000/5000/6000'',
     FMS 0 6 0 7 3 ''VIA C3 (Samuel 2 WinChip C5B core) / Eden ESP 4000/5000/6000'',
     FMS 0 6 0 7 4 ''VIA C3 (Samuel 2 WinChip C5B core) / Eden ESP 4000/5000/6000'',
     FMS 0 6 0 7 5 ''VIA C3 (Samuel 2 WinChip C5B core) / Eden ESP 4000/5000/6000'',
     FMS 0 6 0 7 6 ''VIA C3 (Samuel 2 WinChip C5B core) / Eden ESP 4000/5000/6000'',
     FMS 0 6 0 7 7 ''VIA C3 (Samuel 2 WinChip C5B core) / Eden ESP 4000/5000/6000'',
     FM 0 6 0 7 ''VIA C3 (Ezra WinChip C5C core)'',
     FM 0 6 0 8 ''VIA C3 (Ezra-T WinChip C5N core)'',
     FMS 0 6 0 9 0 ''VIA C3 / Eden ESP 7000/8000/10000 (Nehemiah WinChip C5XL core)'',
     FMS 0 6 0 9 1 ''VIA C3 / Eden ESP 7000/8000/10000 (Nehemiah WinChip C5XL core)'',
     FMS 0 6 0 9 2 ''VIA C3 / Eden ESP 7000/8000/10000 (Nehemiah WinChip C5XL core)'',
     FMS 0 6 0 9 3 ''VIA C3 / Eden ESP 7000/8000/10000 (Nehemiah WinChip C5XL core)'',
     FMS 0 6 0 9 4 ''VIA C3 / Eden ESP 7000/8000/10000 (Nehemiah WinChip C5XL core)'',
     FMS 0 6 0 9 5 ''VIA C3 / Eden ESP 7000/8000/10000 (Nehemiah WinChip C5XL core)'',
     FMS 0 6 0 9 6 ''VIA C3 / Eden ESP 7000/8000/10000 (Nehemiah WinChip C5XL core)'',
     FMS 0 6 0 9 7 ''VIA C3 / Eden ESP 7000/8000/10000 (Nehemiah WinChip C5XL core)'',
     FM 0 6 0 9 ''VIA C3 / C3-M / Eden-N (Antaur WinChip C5P core)'',
     FM 0 6 0 10 ''VIA C7 / C7-M (Esther WinChip C5J core)'',
     FM 0 6 0 13 ''VIA C7 / C7-M / C7-D / Eden (Esther C5J core)'',
     FMS 0 6 0 15 0 ''VIA Nano (Isaiah CNA A0)'',
     FMS 0 6 0 15 1 ''VIA Nano (Isaiah CNA A1)'',
     FMS 0 6 0 15 2 ''VIA Nano (Isaiah CNA A2)'',
     FMS 0 6 0 15 3 ''VIA Nano (Isaiah CNA A3)'',
     FMS 0 6 0 15 8 ''VIA Nano (Isaiah CNB A1)'',
     FMS 0 6 0 15 10 ''VIA Nano (Isaiah CNC A2)'',
     FMS 0 6 0 15 12 ''VIA Nano (Isaiah CNQ A1)'',
     FMS 0 6 0 15 13 ''VIA Nano (Isaiah CNQ A2)'',
     FMS 0 6 0 15 14 ''VIA Eden (Isaiah CNR)'',
     FM 0 6 0 15 ''VIA Nano / Eden (Isaiah)'',
     F 0 6 ''VIA C3 / C3-M / C7 / C7-M / Eden / Eden ESP 7000/8000/10000 / Nano (unknown model)'',
     DEFAULT ''unknown'']"

definition decode_synth_via :: "u32 \<Rightarrow> string option" where
  "decode_synth_via val = synth_chain via_rules val None"

definition umc_rules :: "rule list" where
  "umc_rules =
    [FM 0 4 0 1 ''UMC U5D (486DX)'',
     FMS 0 4 0 2 3 ''UMC U5S (486SX)'',
     FM 0 4 0 2 ''UMC U5S (486SX) (unknown stepping)'',
     DEFAULT ''unknown'']"

definition decode_synth_umc :: "u32 \<Rightarrow> string option" where
  "decode_synth_umc val = synth_chain umc_rules val None"

definition nexgen_rules :: "rule list" where
  "nexgen_rules =
    [FMS 0 5 0 0 4 ''NexGen P100'',
     FMS 0 5 0 0 6 ''NexGen P120 (E2/C0)'',
     DEFAULT ''unknown'']"

definition decode_synth_nexgen :: "u32 \<Rightarrow> string option" where
  "decode_synth_nexgen val = synth_chain nexgen_rules val None"

definition rise_rules :: "rule list" where
  "rise_rules =
    [FM 0 5 0 0 ''Rise mP6 iDragon, .25u'',
     FM 0 5 0 2 ''Rise mP6 iDragon, .18u'',
     FM 0 5 0 8 ''Rise mP6 iDragon II, .25u'',
     FM 0 5 0 9 ''Rise mP6 iDragon II, .18u'',
     DEFAULT ''unknown'']"

definition decode_synth_rise :: "u32 \<Rightarrow> string option" where
  "decode_synth_rise val = synth_chain rise_rules val None"

definition transmeta_rules :: "rule list" where
  "transmeta_rules =
    [FMSQ 0 5 0 4 2 t2 ''Transmeta Crusoe TM3200'',
     FMS 0 5 0 4 2 ''Transmeta Crusoe TM3x00 (unknown model)'',
     FMSQ 0 5 0 4 3 t4 ''Transmeta Crusoe TM5400'',
     FMSQ 0 5 0 4 3 t5 ''Transmeta Crusoe TM5500 / Crusoe SE TM55E'',
     FMSQ 0 5 0 4 3 t6 ''Transmeta Crusoe TM5600'',
     FMSQ 0 5 0 4 3 t8 ''Transmeta Crusoe TM5800 / Crusoe SE TM58E'',
     FMS 0 5 0 4 3 ''Transmeta Crusoe TM5x00 (unknown model)'',
     FM 0 5 0 4 ''Transmeta Crusoe'',
     F 0 5 ''Transmeta Crusoe (unknown model)'',
     FM 0 15 0 2 ''Transmeta Efficeon TM8x00'',
     FM 0 15 0 3 ''Transmeta Efficeon TM8x00'',
     F 0 15 ''Transmeta Efficeon (unknown model)'',
     DEFAULT ''unknown'']"

definition decode_synth_transmeta :: "u32 \<Rightarrow> code_stash_t option \<Rightarrow> string option" where
  "decode_synth_transmeta val stash = synth_chain transmeta_rules val stash"

definition sis_rules :: "rule list" where
  "sis_rules =
    [FM 0 5 0 0 ''SiS 55x'',
     DEFAULT ''unknown'']"

definition decode_synth_sis :: "u32 \<Rightarrow> string option" where
  "decode_synth_sis val = synth_chain sis_rules val None"

definition nsc_rules :: "rule list" where
  "nsc_rules =
    [FM 0 5 0 4 ''NSC Geode GX1/GXLV/GXm'',
     FM 0 5 0 5 ''NSC Geode GX2'',
     F 0 5 ''NSC Geode (unknown model)'',
     DEFAULT ''unknown'']"

definition decode_synth_nsc :: "u32 \<Rightarrow> string option" where
  "decode_synth_nsc val = synth_chain nsc_rules val None"

definition vortex_rules :: "rule list" where
  "vortex_rules =
    [FM 0 5 0 2 ''Vortex86DX'',
     FM 0 5 0 8 ''Vortex86MX'',
     DEFAULT ''unknown'']"

definition decode_synth_vortex :: "u32 \<Rightarrow> string option" where
  "decode_synth_vortex val = synth_chain vortex_rules val None"

definition rdc_rules :: "rule list" where
  "rdc_rules =
    [FM 0 5 0 8 ''RDC IAD 100'',
     DEFAULT ''unknown'']"

definition decode_synth_rdc :: "u32 \<Rightarrow> string option" where
  "decode_synth_rdc val = synth_chain rdc_rules val None"

definition hygon_rules :: "rule list" where
  "hygon_rules =
    [FMS 9 15 0 0 1 ''Hygon Dhyana (A1)'',
     FMS 9 15 0 0 2 ''Hygon Dhyana (A2)'',
     DEFAULT ''unknown'']"

definition decode_synth_hygon :: "u32 \<Rightarrow> string option" where
  "decode_synth_hygon val = synth_chain hygon_rules val None"

definition zhaoxin_rules :: "rule list" where
  "zhaoxin_rules =
    [FM 0 7 1 11 ''Zhaoxin KaiXian/Kaisheng (WuDaoKou)'',
     DEFAULT ''unknown'']"

definition decode_synth_zhaoxin :: "u32 \<Rightarrow> string option" where
  "decode_synth_zhaoxin val = synth_chain zhaoxin_rules val None"

section \<open>decode\_synth\_intel\<close>

text \<open>\<^verbatim>\<open>decode_synth_intel\<close> returns what its chain assigned to \<^verbatim>\<open>result\<close>.\<close>

definition decode_synth_intel :: "u32 \<Rightarrow> code_stash_t option \<Rightarrow> string option" where
  "decode_synth_intel val stash = synth_chain intel_rules val stash"

section \<open>decode\_synth\_amd\<close>

text \<open>
  \<^verbatim>\<open>printf\<close>'s \<^verbatim>\<open>%s\<close> on a \<^verbatim>\<open>cstring\<close>: the GNU C library prints \<^verbatim>\<open>(null)\<close> for a \<^verbatim>\<open>NULL\<close>
  pointer.
\<close>

definition fmt_s :: "string option \<Rightarrow> string" where
  "fmt_s s = (case s of None \<Rightarrow> ''(null)'' | Some str \<Rightarrow> str)"

text \<open>
  \<^verbatim>\<open>decode_synth_amd\<close>: after the chain, \<^verbatim>\<open>decode_amd_model\<close> is asked for a processor
  number; if \<^verbatim>\<open>proc[0] != 0\<close> the result is \<^verbatim>\<open>sprintf(buffer, "%s %s", result, proc)\<close>,
  otherwise it is \<^verbatim>\<open>result\<close>.
\<close>

definition decode_synth_amd :: "u32 \<Rightarrow> code_stash_t option \<Rightarrow> string option" where
  "decode_synth_amd val stash =
     (let result = synth_chain amd_rules val stash;
          (brand_pre, brand_post, proc) = decode_amd_model stash
      in if proc \<noteq> [] then Some (fmt_s result @ '' '' @ proc) else result)"

section \<open>The brand steps of do\_final\<close>

text \<open>
  \<^verbatim>\<open>decode_brand_id_stash\<close>: a \<^verbatim>\<open>switch\<close> on the brand id \<^verbatim>\<open>__B(val_1_ebx)\<close> that sets one
  flag of \<^verbatim>\<open>stash->bri\<close>; the ids 0, 5, 13 and those above 23 set none.
\<close>

definition decode_brand_id_stash :: "code_stash_t \<Rightarrow> code_stash_t" where
  "decode_brand_id_stash stash =
     (let val_1_eax = val_1_eax stash;
          val_1_ebx = val_1_ebx stash;
          b = mask_B val_1_ebx;
          set_desktop_celeron = stash\<lparr>bri := (bri stash)\<lparr>desktop_celeron := True\<rparr>\<rparr>;
          set_desktop_pentium = stash\<lparr>bri := (bri stash)\<lparr>desktop_pentium := True\<rparr>\<rparr>;
          set_mobile_pentium = stash\<lparr>bri := (bri stash)\<lparr>mobile_pentium := True\<rparr>\<rparr>;
          set_mobile_pentium_m = stash\<lparr>bri := (bri stash)\<lparr>mobile_pentium_m := True\<rparr>\<rparr>;
          set_mobile_celeron = stash\<lparr>bri := (bri stash)\<lparr>mobile_celeron := True\<rparr>\<rparr>;
          set_xeon_mp = stash\<lparr>bri := (bri stash)\<lparr>bri_xeon_mp := True\<rparr>\<rparr>;
          set_xeon = stash\<lparr>bri := (bri stash)\<lparr>bri_xeon := True\<rparr>\<rparr>
      in if b = 0 then stash
         else if b = 1 then set_desktop_celeron
         else if b = 2 then set_desktop_pentium
         else if b = 3 then
           (if mask_FMS val_1_eax = val_FMS 0 6 0 11 1 then set_desktop_celeron else set_xeon)
         else if b = 4 then set_desktop_pentium
         else if b = 6 then set_desktop_pentium
         else if b = 7 then set_desktop_celeron
         else if b = 8 then set_desktop_pentium
         else if b = 9 then set_desktop_pentium
         else if b = 10 then set_desktop_celeron
         else if b = 11 then
           (if mask_FMS val_1_eax \<le> val_FMS 0 15 0 1 2 then set_xeon_mp else set_xeon)
         else if b = 12 then set_xeon_mp
         else if b = 14 then
           (if mask_FMS val_1_eax \<le> val_FMS 0 15 0 1 3 then set_xeon
            else set_mobile_pentium_m)
         else if b = 15 then
           (if mask_FM val_1_eax = val_FM 0 15 0 2 then set_mobile_pentium_m
            else set_mobile_celeron)
         else if b = 16 then set_desktop_celeron
         else if b = 17 then set_mobile_pentium
         else if b = 18 then set_desktop_celeron
         else if b = 19 then set_mobile_celeron
         else if b = 20 then set_desktop_celeron
         else if b = 21 then set_mobile_pentium
         else if b = 22 then set_desktop_pentium
         else if b = 23 then set_mobile_celeron
         else stash)"

text \<open>
  The brand steps of \<^verbatim>\<open>do_final\<close>, in its order: \<^verbatim>\<open>decode_override_brand\<close>,
  \<^verbatim>\<open>decode_brand_id_stash\<close>, \<^verbatim>\<open>decode_brand_stash\<close> (the printing calls between them
  leave the stash alone). The queries of the rule tables are evaluated on the stash
  these steps leave.
\<close>

definition do_final_brand :: "(string \<Rightarrow> string \<Rightarrow> bool) \<Rightarrow> code_stash_t \<Rightarrow> code_stash_t" where
  "do_final_brand strregexp stash =
     decode_brand_stash strregexp (decode_brand_id_stash (decode_override_brand stash))"

section \<open>The switch of decode\_synth\<close>

text \<open>
  \<^verbatim>\<open>decode_synth\<close> starts with \<^verbatim>\<open>cstring synth = NULL\<close>, assigns \<^verbatim>\<open>synth\<close> in a \<^verbatim>\<open>switch\<close>
  on the vendor, and returns \<^verbatim>\<open>append_uarch(synth, val_eax, vendor)\<close>.
  \<open>decode_synth_switch\<close> is the value of \<^verbatim>\<open>synth\<close> after the \<^verbatim>\<open>switch\<close>, the first argument
  of \<^verbatim>\<open>append_uarch\<close>; \<^verbatim>\<open>append_uarch\<close> itself is not part of this development.
\<close>

definition decode_synth_switch :: "u32 \<Rightarrow> vendor_t \<Rightarrow> code_stash_t option \<Rightarrow> string option" where
  "decode_synth_switch val_eax v stash =
     (case v of
        VENDOR_INTEL \<Rightarrow> decode_synth_intel val_eax stash
      | VENDOR_AMD \<Rightarrow> decode_synth_amd val_eax stash
      | VENDOR_CYRIX \<Rightarrow> decode_synth_cyrix val_eax stash
      | VENDOR_VIA \<Rightarrow> decode_synth_via val_eax
      | VENDOR_TRANSMETA \<Rightarrow> decode_synth_transmeta val_eax stash
      | VENDOR_UMC \<Rightarrow> decode_synth_umc val_eax
      | VENDOR_NEXGEN \<Rightarrow> decode_synth_nexgen val_eax
      | VENDOR_RISE \<Rightarrow> decode_synth_rise val_eax
      | VENDOR_SIS \<Rightarrow> decode_synth_sis val_eax
      | VENDOR_NSC \<Rightarrow> decode_synth_nsc val_eax
      | VENDOR_VORTEX \<Rightarrow> decode_synth_vortex val_eax
      | VENDOR_RDC \<Rightarrow> decode_synth_rdc val_eax
      | VENDOR_HYGON \<Rightarrow> decode_synth_hygon val_eax
      | VENDOR_ZHAOXIN \<Rightarrow> decode_synth_zhaoxin val_eax
      | VENDOR_UNKNOWN \<Rightarrow> None)"

section \<open>The signature part of a rule's condition\<close>

text \<open>
  Every rule compares some of the bits \<^verbatim>\<open>0x0fff3fff\<close> of the signature with a constant.
  \<open>may_fire fms r\<close> is what the condition of \<open>r\<close> requires of the family, model and
  stepping bits \<open>fms\<close> (the signature under \<^verbatim>\<open>__FMS\<close>), leaving out the type bits and the
  query: a rule can fire only where it holds.
\<close>

fun may_fire :: "u32 \<Rightarrow> rule \<Rightarrow> bool" where
  "may_fire fms (F xf f str) = (fms AND 0x0ff00f00 = put_XF xf + put_F f)"
| "may_fire fms (FM xf f xm m str) =
     (fms AND 0x0fff0ff0 = put_XF xf + put_XM xm + put_F f + put_M m)"
| "may_fire fms (FMS xf f xm m s str) =
     (fms = put_XF xf + put_XM xm + put_F f + put_M m + put_S s)"
| "may_fire fms (TF t xf f str) =
     (fms AND 0x0ff00f00 = (put_T t + put_XF xf + put_F f) AND 0x0ff00f00)"
| "may_fire fms (TFM t xf f xm m str) =
     (fms AND 0x0fff0ff0 = (put_T t + put_XF xf + put_XM xm + put_F f + put_M m) AND 0x0fff0ff0)"
| "may_fire fms (TFMS t xf f xm m s str) =
     (fms = (put_T t + put_XF xf + put_XM xm + put_F f + put_M m + put_S s) AND 0x0fff0fff)"
| "may_fire fms (FQ xf f q str) = (fms AND 0x0ff00f00 = put_XF xf + put_F f)"
| "may_fire fms (FMQ xf f xm m q str) =
     (fms AND 0x0fff0ff0 = put_XF xf + put_XM xm + put_F f + put_M m)"
| "may_fire fms (FMSQ xf f xm m s q str) =
     (fms = put_XF xf + put_XM xm + put_F f + put_M m + put_S s)"
| "may_fire fms (DEFAULT str) = True"

section \<open>The table of each vendor\<close>

text \<open>
  \<open>vendor_rules vendor\<close> is the table of the function that the \<^verbatim>\<open>switch\<close> of
  \<^verbatim>\<open>decode_synth\<close> calls for \<open>vendor\<close>; \<^verbatim>\<open>VENDOR_UNKNOWN\<close> has no function and no rule.
\<close>

fun vendor_rules :: "vendor_t \<Rightarrow> rule list" where
  "vendor_rules VENDOR_INTEL = intel_rules"
| "vendor_rules VENDOR_AMD = amd_rules"
| "vendor_rules VENDOR_CYRIX = cyrix_rules"
| "vendor_rules VENDOR_VIA = via_rules"
| "vendor_rules VENDOR_TRANSMETA = transmeta_rules"
| "vendor_rules VENDOR_UMC = umc_rules"
| "vendor_rules VENDOR_NEXGEN = nexgen_rules"
| "vendor_rules VENDOR_RISE = rise_rules"
| "vendor_rules VENDOR_SIS = sis_rules"
| "vendor_rules VENDOR_NSC = nsc_rules"
| "vendor_rules VENDOR_VORTEX = vortex_rules"
| "vendor_rules VENDOR_RDC = rdc_rules"
| "vendor_rules VENDOR_HYGON = hygon_rules"
| "vendor_rules VENDOR_ZHAOXIN = zhaoxin_rules"
| "vendor_rules VENDOR_UNKNOWN = []"

text \<open>
  What \<^verbatim>\<open>decode_synth_amd\<close> writes after the string of its chain: nothing when
  \<^verbatim>\<open>decode_amd_model\<close> leaves \<^verbatim>\<open>proc\<close> empty, a space and \<^verbatim>\<open>proc\<close> otherwise.
\<close>

definition proc_suffix :: "code_stash_t option \<Rightarrow> string" where
  "proc_suffix stash =
     (case decode_amd_model stash of
        (brand_pre, brand_post, proc) \<Rightarrow> if proc = [] then [] else '' '' @ proc)"

section \<open>Example inputs\<close>

text \<open>
  A leaf-2 observation whose EAX holds the descriptor bytes 0x42 and 0x4e (byte 0 is the
  iteration count 0x01), and a leaf-0x80000006 observation of a 4-way 512K L2 cache.
\<close>

definition ex_obs2 :: observation where
  "ex_obs2 = \<lparr> obs_reg = 2, obs_try = 0, obs_words = (\<lambda>_. 0)(0 := 0x004e4201) \<rparr>"

definition ex_obs6 :: observation where
  "ex_obs6 = \<lparr> obs_reg = 0x80000006, obs_try = 0, obs_words = (\<lambda>_. 0)(2 := 0x02004040) \<rparr>"

text \<open>
  An Intel stash where leaf 0x1f (2 threads per core, 16 logical processors: SMT level
  in subleaf 0, core level in subleaf 1) and leaf 0xb (2 and 8) were both captured and
  disagree, leaf 4 reports 8 cores per package and leaf 1 reports 16 logical processors;
  then the same stash with leaf 0x1f, leaf 0xb and leaf 4 not seen, one after the other.
\<close>

definition ex_stash_1f_b :: code_stash_t where
  "ex_stash_1f_b = NIL_STASH\<lparr> vendor := VENDOR_INTEL, saw_4 := True, saw_b := True, saw_1f := True,
     val_1_ebx := 0x00100800, val_4_eax := 0x1c004121,
     val_b_ebx := (\<lambda>_. 0)(0 := 2, 1 := 8),
     val_1f_ebx := (\<lambda>_. 0)(0 := 2, 1 := 16),
     val_1f_ecx := (\<lambda>_. 0)(0 := 0x100, 1 := 0x201) \<rparr>"

definition ex_stash_b :: code_stash_t where
  "ex_stash_b = ex_stash_1f_b\<lparr> saw_1f := False \<rparr>"

definition ex_stash_4 :: code_stash_t where
  "ex_stash_4 = ex_stash_1f_b\<lparr> saw_1f := False, saw_b := False \<rparr>"

definition ex_stash_1 :: code_stash_t where
  "ex_stash_1 = ex_stash_1f_b\<lparr> saw_1f := False, saw_b := False, saw_4 := False \<rparr>"

text \<open>
  An Intel stash with leaf 0xb seen whose subleaf 0 reports no logical processor; and
  Intel stashes with leaf 4 seen but an all-zero EAX, reporting 1 and 8 logical
  processors in leaf 1.
\<close>

definition ex_stash_b_zero :: code_stash_t where
  "ex_stash_b_zero = NIL_STASH\<lparr> vendor := VENDOR_INTEL, saw_b := True,
     val_b_ebx := (\<lambda>_. 0)(0 := 0, 1 := 8) \<rparr>"

definition ex_stash_4_zero_1 :: code_stash_t where
  "ex_stash_4_zero_1 = NIL_STASH\<lparr> vendor := VENDOR_INTEL, saw_4 := True,
     val_1_ebx := 0x00010800, val_4_eax := 0 \<rparr>"

definition ex_stash_4_zero_8 :: code_stash_t where
  "ex_stash_4_zero_8 = NIL_STASH\<lparr> vendor := VENDOR_INTEL, saw_4 := True,
     val_1_ebx := 0x00080800, val_4_eax := 0 \<rparr>"

text \<open>
  An Intel stash with signature 0x000306A9 (family 6, model 0x3A, stepping 9) and no
  brand flag set; and the same stash with the brand flags of a mobile Core part.
\<close>

definition ex_stash_ivy :: code_stash_t where
  "ex_stash_ivy = NIL_STASH\<lparr> vendor := VENDOR_INTEL, val_1_eax := 0x000306A9 \<rparr>"

definition ex_stash_ivy_mobile :: code_stash_t where
  "ex_stash_ivy_mobile = ex_stash_ivy\<lparr> br := NIL_BR\<lparr> mobile := True, core := True \<rparr> \<rparr>"

text \<open>
  AMD stashes whose brand string is the BIOS placeholder. The first has signature
  0x00000F48 (Family 0Fh, model 4, stepping 8) and brand id 0x2C in leaf-1 EBX (brand
  table index 4, NN = 12); the second has the same signature and takes its brand table
  index 6 and NN = 29 from leaf 0x80000001 EBX; the third has signature 0x00800F11
  (Family 17h), for which decode\_amd\_model has no table.
\<close>

definition ex_stash_amd_k8 :: code_stash_t where
  "ex_stash_amd_k8 = NIL_STASH\<lparr> vendor := VENDOR_AMD, val_1_eax := 0x00000F48,
     val_1_ebx := 0x0000002C, brand := ''AMD Processor model unknown'' \<rparr>"

definition ex_stash_amd_fx :: code_stash_t where
  "ex_stash_amd_fx = NIL_STASH\<lparr> vendor := VENDOR_AMD, val_1_eax := 0x00000F48,
     val_80000001_ebx := 0x0000019D, brand := ''AMD Processor model unknown'' \<rparr>"

definition ex_stash_amd_zen :: code_stash_t where
  "ex_stash_amd_zen = NIL_STASH\<lparr> vendor := VENDOR_AMD, val_1_eax := 0x00800F11,
     brand := ''AMD Processor model unknown'' \<rparr>"

text \<open>A matcher that matches nothing, to run the brand decoding on an example.\<close>

definition no_regexp :: "string \<Rightarrow> string \<Rightarrow> bool" where
  "no_regexp haystack needle = False"

section \<open>Properties of bits\_needed\<close>

lemma highest_bit_le: "highest_bit n w \<le> n"
  by (induction n) auto






lemma bsr16_unfold:
  "bsr16 w = highest_bit (Suc (Suc (Suc (Suc (Suc (Suc (Suc (Suc (Suc (Suc (Suc (Suc
               (Suc (Suc (Suc 0))))))))))))))) w"
  unfolding bsr16_def by (simp add: eval_nat_numeral)



lemma bits_needed32_values:
  "bits_needed32 1 = 0 \<and> bits_needed32 2 = 1 \<and> bits_needed32 5 = 3 \<and> bits_needed32 8 = 3
     \<and> bits_needed32 9 = 4"
  by (simp add: bits_needed32_def bsr16_unfold)





section \<open>Properties of the cache stash\<close>

text \<open>
  C7: a descriptor byte sets \<^verbatim>\<open>L2_256K\<close> exactly when it is one of 0x21, 0x3c, 0x42, 0x7a,
  0x7e, 0x82, and sets \<^verbatim>\<open>L2_6M\<close> exactly when it is 0x4e; any other byte leaves the flag
  as it was.
\<close>

theorem stash_intel_cache_L2_256K_L2_6M:
  "L2_256K (stash_intel_cache stash v)
     = (L2_256K stash \<or> v \<in> {0x21, 0x3c, 0x42, 0x7a, 0x7e, 0x82})
   \<and> L2_6M (stash_intel_cache stash v) = (L2_6M stash \<or> v = 0x4e)"
  by (simp add: stash_intel_cache_def Let_def)

lemma flag_val_stash_intel_cache:
  "flag_val f (stash_intel_cache stash v)
     = (flag_val f stash \<or> flag_val f (stash_intel_cache NIL_STASH v))"
  by (cases f) (simp_all add: stash_intel_cache_def Let_def NIL_STASH_def)

lemma flag_val_NIL_STASH: "\<not> flag_val f NIL_STASH"
  by (cases f) (simp_all add: NIL_STASH_def)

lemma flag_val_foldl_cache:
  "flag_val f (foldl stash_intel_cache stash bs)
     = (flag_val f stash \<or> (\<exists>b\<in>set bs. flag_val f (stash_intel_cache NIL_STASH b)))"
proof (induction bs arbitrary: stash)
  case Nil
  then show ?case by simp
next
  case (Cons b bs)
  show ?case
    by (simp add: Cons.IH flag_val_stash_intel_cache [of f stash b] disj_assoc)
qed

lemma flag_val_print_reg_2:
  "flag_val f (print_reg_2 words try stash)
     = (flag_val f stash \<or> flag_val f (print_reg_2 words try NIL_STASH))"
  unfolding print_reg_2_def
  by (simp add: flag_val_foldl_cache [of f stash] flag_val_foldl_cache [of f NIL_STASH]
        flag_val_NIL_STASH)

lemma flag_val_print_80000006_ecx:
  "flag_val f (print_80000006_ecx v stash)
     = (flag_val f stash \<or> flag_val f (print_80000006_ecx v NIL_STASH))"
  by (cases f) (simp_all add: print_80000006_ecx_def NIL_STASH_def)

lemma flag_val_saw_4 [simp]: "flag_val f (stash\<lparr>saw_4 := b\<rparr>) = flag_val f stash"
  by (cases f) simp_all

lemma flag_val_val_4_eax [simp]: "flag_val f (stash\<lparr>val_4_eax := x\<rparr>) = flag_val f stash"
  by (cases f) simp_all

lemma print_reg_flag:
  assumes "print_reg reg words raw try stash = Some stash'"
  shows "flag_val f stash'
           = (flag_val f stash
              \<or> (case print_reg reg words raw try NIL_STASH of
                    None \<Rightarrow> False | Some s \<Rightarrow> flag_val f s))"
  using assms flag_val_print_reg_2 [of f words "try" stash]
    flag_val_print_80000006_ecx [of f "words WORD_ECX" stash]
  by (auto simp add: print_reg_def Let_def flag_val_NIL_STASH split: if_splits)

lemma print_reg_defined:
  "reg \<in> {2, 4, 0x8000001d, 0x80000006} \<Longrightarrow> \<exists>s. print_reg reg words raw try stash = Some s"
  by (auto simp add: print_reg_def)

lemma cache_pass_flag:
  "cache_pass raw stash obs = Some stash'
    \<Longrightarrow> flag_val f stash' = (flag_val f stash \<or> (\<exists>ob\<in>set obs. obs_raises raw ob f))"
proof (induction obs arbitrary: stash)
  case Nil
  then show ?case by simp
next
  case (Cons ob obs)
  from Cons.prems obtain s1 where
    s1: "print_reg (obs_reg ob) (obs_words ob) raw (obs_try ob) stash = Some s1"
    and rest: "cache_pass raw s1 obs = Some stash'"
    by (auto split: option.splits)
  have "flag_val f s1 = (flag_val f stash \<or> obs_raises raw ob f)"
    using print_reg_flag [OF s1, of f] by (simp add: obs_raises_def)
  with Cons.IH [OF rest] show ?case by auto
qed

lemma cache_pass_defined:
  "\<forall>ob\<in>set obs. obs_reg ob \<in> {2, 4, 0x8000001d, 0x80000006}
    \<Longrightarrow> \<exists>s. cache_pass raw stash obs = Some s"
proof (induction obs arbitrary: stash)
  case Nil
  then show ?case by simp
next
  case (Cons ob obs)
  then obtain s1 where "print_reg (obs_reg ob) (obs_words ob) raw (obs_try ob) stash = Some s1"
    using print_reg_defined [of "obs_reg ob"] by fastforce
  with Cons show ?case by simp
qed

lemma cache_pass_append:
  "cache_pass raw stash (xs @ ys)
     = (case cache_pass raw stash xs of None \<Rightarrow> None | Some s \<Rightarrow> cache_pass raw s ys)"
  by (induction xs arbitrary: stash) (auto split: option.splits)

text \<open>
  C3: over any sequence of observations of the cache leaves 2, 4, 0x8000001d and
  0x80000006 the pass runs to its end; a flag set after a prefix of the sequence is
  still set after the whole sequence; and the final value of a flag is its value
  at the start or-ed with what each single observation raises (the union over all
  observations). Leaves 4 and 0x8000001d raise no flag at all.
\<close>

theorem cache_flags_write_once:
  assumes "\<forall>ob\<in>set (xs @ ys). obs_reg ob \<in> {2, 4, 0x8000001d, 0x80000006}"
  shows "\<exists>s1 s2. cache_pass raw stash xs = Some s1
           \<and> cache_pass raw stash (xs @ ys) = Some s2
           \<and> (flag_val f s1 \<longrightarrow> flag_val f s2)
           \<and> flag_val f s2
               = (flag_val f stash \<or> (\<exists>ob\<in>set (xs @ ys). obs_raises raw ob f))"
proof -
  from assms have "\<forall>ob\<in>set xs. obs_reg ob \<in> {2, 4, 0x8000001d, 0x80000006}" by simp
  from cache_pass_defined [OF this] obtain s1 where s1: "cache_pass raw stash xs = Some s1"
    by blast
  from cache_pass_defined [OF assms] obtain s2 where
    s2: "cache_pass raw stash (xs @ ys) = Some s2" by blast
  from s1 s2 have s12: "cache_pass raw s1 ys = Some s2" by (simp add: cache_pass_append)
  from cache_pass_flag [OF s12] have "flag_val f s1 \<longrightarrow> flag_val f s2" by simp
  with s1 s2 cache_pass_flag [OF s2] show ?thesis by blast
qed


lemma upt4: "[0 ..< 4] = [0, 1, 2, 3]" "[Suc 0 ..< 4] = [1, 2, 3]"
  by (simp_all add: upt_conv_Cons)
lemma ex_obs2_raises_L2_6M: "obs_raises False ex_obs2 Flag_L2_6M"
  by (simp add: obs_raises_def ex_obs2_def print_reg_def print_reg_2_def leaf2_bytes_def WORD_EAX_def byte_of_def upt4 stash_intel_cache_def Let_def)
theorem cache_flags_write_once_witness:
  "\<exists>s1 s2. cache_pass False NIL_STASH [ex_obs2] = Some s1
     \<and> cache_pass False NIL_STASH ([ex_obs2] @ [ex_obs6]) = Some s2
     \<and> flag_val Flag_L2_6M s1 \<and> flag_val Flag_L2_6M s2"
proof -
  have h: "\<forall>ob\<in>set ([ex_obs2] @ [ex_obs6]). obs_reg ob \<in> {2, 4, 0x8000001d, 0x80000006}"
    by (simp add: ex_obs2_def ex_obs6_def)
  have h1: "\<forall>ob\<in>set ([ex_obs2] @ []). obs_reg ob \<in> {2, 4, 0x8000001d, 0x80000006}"
    by (simp add: ex_obs2_def)
  from cache_flags_write_once [OF h, of False NIL_STASH Flag_L2_6M]
    cache_flags_write_once [OF h1, of False NIL_STASH Flag_L2_6M] ex_obs2_raises_L2_6M
  show ?thesis by auto
qed
section \<open>Properties of the multi-processing synthesis\<close>


lemmas get_defs = GET_ApicIdCoreIdSize_def GET_LogicalProcessorCount_def IS_HTT_def
  IS_CmpLegacy_def GET_NC_INTEL_def GET_NC_AMD_def GET_X2APIC_PROCESSORS_def
  GET_V2_TOPO_LEVEL_def GET_V2_TOPO_PROCESSORS_def V2_TOPO_SMT_def V2_TOPO_CORE_def
  BIT_EXTRACT_LE_def RIGHTMASK_def POWER2_def BPI_def

lemma ex_stash_b_result: "decode_mp_synth ex_stash_b = Inr (ex_stash_b\<lparr>mp := \<lparr>mp_method = Some ''Intel leaf 0xb'', mp_cores = 4, mp_hyperthreads = 2\<rparr>\<rparr>)"
  by (simp add: decode_mp_synth_def decode_mp_synth_intel_def ex_stash_b_def ex_stash_1f_b_def NIL_STASH_def NIL_MP_def udiv_def get_defs)
lemma ex_stash_4_result: "decode_mp_synth ex_stash_4 = Inr (ex_stash_4\<lparr>mp := \<lparr>mp_method = Some ''Intel leaf 1/4'', mp_cores = 8, mp_hyperthreads = 2\<rparr>\<rparr>)"
  by (simp add: decode_mp_synth_def decode_mp_synth_intel_def ex_stash_4_def ex_stash_1f_b_def NIL_STASH_def NIL_MP_def udiv_def get_defs)
lemma ex_stash_1_result: "decode_mp_synth ex_stash_1 = Inr (ex_stash_1\<lparr>mp := \<lparr>mp_method = Some ''Intel leaf 1'', mp_cores = 1, mp_hyperthreads = 1\<rparr>\<rparr>)"
  by (simp add: decode_mp_synth_def decode_mp_synth_intel_def ex_stash_1_def ex_stash_1f_b_def NIL_STASH_def NIL_MP_def udiv_def get_defs)





lemma intel_b:
  assumes "vendor s = VENDOR_INTEL" "\<not> saw_1f s" "saw_b s"
  shows "decode_mp_synth s = Inr (s\<lparr>mp := \<lparr> mp_method = Some ''Intel leaf 0xb'',
            mp_cores = GET_X2APIC_PROCESSORS (val_b_ebx s 1)
                         div (if GET_X2APIC_PROCESSORS (val_b_ebx s 0) = 0 then 1
                              else GET_X2APIC_PROCESSORS (val_b_ebx s 0)),
            mp_hyperthreads = (if GET_X2APIC_PROCESSORS (val_b_ebx s 0) = 0 then 1
                              else GET_X2APIC_PROCESSORS (val_b_ebx s 0)) \<rparr>\<rparr>)"
  using assms by (simp add: decode_mp_synth_def decode_mp_synth_intel_def udiv_def Let_def)










text \<open>
  C9: on the Intel leaf-0xb path the divisor is never zero, so the result is always
  produced; and when subleaf 0 reports no logical processor, the hyperthread count is 1
  and the core count is the processor count of subleaf 1.
\<close>

theorem leaf_b_divisor_guard:
  assumes "vendor s = VENDOR_INTEL" and "\<not> saw_1f s" and "saw_b s"
  shows "(\<exists>r. decode_mp_synth s = Inr r)
     \<and> (GET_X2APIC_PROCESSORS (val_b_ebx s 0) = 0 \<longrightarrow>
          decode_mp_synth s
            = Inr (s\<lparr>mp := \<lparr> mp_method = Some ''Intel leaf 0xb'',
                              mp_cores = GET_X2APIC_PROCESSORS (val_b_ebx s 1),
                              mp_hyperthreads = 1 \<rparr>\<rparr>))"
  using intel_b [OF assms] by simp

theorem leaf_b_divisor_guard_witness:
  "decode_mp_synth ex_stash_b_zero
     = Inr (ex_stash_b_zero\<lparr>mp := \<lparr> mp_method = Some ''Intel leaf 0xb'',
                                      mp_cores = 8, mp_hyperthreads = 1 \<rparr>\<rparr>)"
proof -
  have "vendor ex_stash_b_zero = VENDOR_INTEL" "\<not> saw_1f ex_stash_b_zero"
    "saw_b ex_stash_b_zero"
    by (simp_all add: ex_stash_b_zero_def NIL_STASH_def)
  from leaf_b_divisor_guard [OF this] show ?thesis
    by (simp add: ex_stash_b_zero_def get_defs)
qed

text \<open>
  The zero-fallback path on its own: with at least two logical processors in leaf 1 it
  reports half of them as cores; with fewer, the core count is 0 and the division that
  follows has a zero divisor.
\<close>

lemma zero_fallback_8:
  "decode_mp_synth ex_stash_4_zero_8
     = Inr (ex_stash_4_zero_8\<lparr>mp := \<lparr> mp_method = Some ''Intel leaf 1/4 (zero fallback)'',
                                        mp_cores = 4, mp_hyperthreads = 2 \<rparr>\<rparr>)"
  by (simp add: decode_mp_synth_def decode_mp_synth_intel_def ex_stash_4_zero_8_def
        NIL_STASH_def udiv_def get_defs)

text \<open>
  C10 at a stash the claim covers (Intel, leaf 4 seen with bits 0-4 of its EAX zero,
  leaf 0x1f and leaf 0xb not seen) whose leaf-1 EBX reports 1 logical processor: the core
  count is 1 / 2 = 0 and \<^verbatim>\<open>tc / c\<close> divides by zero, so no method and no counts are
  reported.
\<close>

theorem zero_fallback_divides_by_zero:
  "decode_mp_synth ex_stash_4_zero_1 = Inl DivideByZero"
  by (simp add: decode_mp_synth_def decode_mp_synth_intel_def ex_stash_4_zero_1_def
        NIL_STASH_def udiv_def get_defs)

section \<open>Properties of the rule chain\<close>

lemmas mask_defs = mask_F_def mask_M_def mask_FM_def mask_FMS_def mask_TF_def mask_TFM_def
  mask_TFMS_def mask_B_def put_T_def put_F_def put_M_def put_S_def put_XF_def put_XM_def

lemma synth_chain_append:
  "synth_chain (xs @ ys) val stash
     = (case synth_chain xs val stash of None \<Rightarrow> synth_chain ys val stash | Some r \<Rightarrow> Some r)"
  by (induction xs) auto

lemma synth_chain_none_iff:
  "synth_chain rules val stash = None \<longleftrightarrow> (\<forall>r\<in>set rules. \<not> fires val stash r)"
  by (induction rules) auto

lemma synth_chain_first:
  assumes "k < length rules" and "fires val stash (rules ! k)"
    and "\<forall>l<k. \<not> fires val stash (rules ! l)"
  shows "synth_chain rules val stash = Some (act (rules ! k))"
  using assms
proof (induction rules arbitrary: k)
  case Nil
  then show ?case by simp
next
  case (Cons r rs)
  show ?case
  proof (cases k)
    case 0
    with Cons.prems show ?thesis by simp
  next
    case (Suc k')
    from Cons.prems(3) Suc have nf: "\<not> fires val stash r" by auto
    have "\<forall>l<k'. \<not> fires val stash (rs ! l)"
      using Cons.prems(3) Suc by auto
    with Cons.IH [of k'] Cons.prems(1,2) Suc nf show ?thesis by simp
  qed
qed

lemma earliest_exists:
  assumes "i < length rules" and "fires val stash (rules ! i)"
  shows "\<exists>k\<le>i. fires val stash (rules ! k) \<and> (\<forall>l<k. \<not> fires val stash (rules ! l))"
proof -
  define k where "k = (LEAST n. fires val stash (rules ! n))"
  have "fires val stash (rules ! k)" unfolding k_def using assms(2) by (rule LeastI)
  moreover have "k \<le> i" unfolding k_def using assms(2) by (rule Least_le)
  moreover have "\<forall>l<k. \<not> fires val stash (rules ! l)"
    unfolding k_def using not_less_Least by blast
  ultimately show ?thesis by blast
qed

text \<open>
  In any list of rules, when two rules both fire, the chain returns the string of the
  earliest rule that fires, a rule at or before the earlier of the two; and whatever
  stands after that rule in the list has no effect on the result.
\<close>

lemma synth_chain_first_match:
  assumes "i < j" and "j < length rules"
    and "fires val stash (rules ! i)" and "fires val stash (rules ! j)"
  shows "\<exists>k\<le>i. fires val stash (rules ! k)
           \<and> (\<forall>l<k. \<not> fires val stash (rules ! l))
           \<and> synth_chain rules val stash = Some (act (rules ! k))
           \<and> (\<forall>later. synth_chain (take (Suc k) rules @ later) val stash
                          = Some (act (rules ! k)))"
proof -
  from assms have i: "i < length rules" by simp
  from earliest_exists [OF i assms(3)] obtain k where
    k: "k \<le> i" "fires val stash (rules ! k)" "\<forall>l<k. \<not> fires val stash (rules ! l)"
    by blast
  from k(1) i have kl: "k < length rules" by simp
  have res: "synth_chain rules val stash = Some (act (rules ! k))"
    by (rule synth_chain_first [OF kl k(2,3)])
  have "synth_chain (take (Suc k) rules @ later) val stash = Some (act (rules ! k))" for later
  proof -
    have len: "k < length (take (Suc k) rules @ later)" using kl by simp
    have nth: "(take (Suc k) rules @ later) ! l = rules ! l" if "l \<le> k" for l
      using that kl by (simp add: nth_append)
    show ?thesis
      using synth_chain_first [OF len, of val stash] k(2,3) nth by simp
  qed
  with k res show ?thesis by blast
qed

section \<open>Properties of decode\_synth\_intel\<close>

text \<open>
  A table that holds a \<^verbatim>\<open>DEFAULT\<close> rule always returns a string, that of its earliest
  rule that fires; so do the Intel table and the AMD table.
\<close>

lemma chain_with_default:
  assumes "DEFAULT str \<in> set rules"
  shows "\<exists>k<length rules. fires val stash (rules ! k)
           \<and> (\<forall>l<k. \<not> fires val stash (rules ! l))
           \<and> synth_chain rules val stash = Some (act (rules ! k))"
proof -
  from assms obtain i where i: "i < length rules" "rules ! i = DEFAULT str"
    by (auto simp add: in_set_conv_nth)
  then have "fires val stash (rules ! i)" by simp
  from earliest_exists [OF i(1) this] obtain k where
    k: "k \<le> i" "fires val stash (rules ! k)" "\<forall>l<k. \<not> fires val stash (rules ! l)"
    by blast
  from k(1) i(1) have kl: "k < length rules" by simp
  from synth_chain_first [OF kl k(2,3)] kl k show ?thesis by blast
qed

lemma intel_rules_default: "DEFAULT ''unknown'' \<in> set intel_rules"
  by (simp add: intel_rules_def intel_rules_13_def)

lemma decode_synth_intel_earliest:
  "\<exists>k<length intel_rules. fires val stash (intel_rules ! k)
      \<and> (\<forall>l<k. \<not> fires val stash (intel_rules ! l))
      \<and> decode_synth_intel val stash = Some (act (intel_rules ! k))"
  unfolding decode_synth_intel_def by (rule chain_with_default [OF intel_rules_default])

lemma and_sub: "(v::u32) AND a = k \<Longrightarrow> a AND b = b \<Longrightarrow> v AND b = k AND b"
  by (metis and.assoc)

lemma fires_may_fire: "fires val stash r \<Longrightarrow> may_fire (mask_FMS val) r"
proof (cases r)
  case (F xf f str)
  assume "fires val stash r"
  with F have e: "val AND 0x0ff00f00 = put_XF xf + put_F f" by (simp add: mask_F_def)
  show ?thesis using F by (simp add: e [symmetric] mask_FMS_def and.assoc)
next
  case (FM xf f xm m str)
  assume "fires val stash r"
  with FM have e: "val AND 0x0fff0ff0 = put_XF xf + put_XM xm + put_F f + put_M m"
    by (simp add: mask_FM_def)
  show ?thesis using FM by (simp add: e [symmetric] mask_FMS_def and.assoc)
next
  case (FMS xf f xm m s str)
  assume "fires val stash r"
  with FMS show ?thesis by simp
next
  case (TF t xf f str)
  assume "fires val stash r"
  with TF have e: "val AND 0x0ff03f00 = put_T t + put_XF xf + put_F f" by (simp add: mask_TF_def)
  show ?thesis using TF by (simp add: e [symmetric] mask_FMS_def and.assoc)
next
  case (TFM t xf f xm m str)
  assume "fires val stash r"
  with TFM have e: "val AND 0x0fff3ff0 = put_T t + put_XF xf + put_XM xm + put_F f + put_M m"
    by (simp add: mask_TFM_def)
  show ?thesis using TFM by (simp add: e [symmetric] mask_FMS_def and.assoc)
next
  case (TFMS t xf f xm m s str)
  assume "fires val stash r"
  with TFMS have e: "val AND 0x0fff3fff
      = put_T t + put_XF xf + put_XM xm + put_F f + put_M m + put_S s"
    by (simp add: mask_TFMS_def)
  show ?thesis using TFMS by (simp add: e [symmetric] mask_FMS_def and.assoc)
next
  case (FQ xf f q str)
  assume "fires val stash r"
  with FQ have e: "val AND 0x0ff00f00 = put_XF xf + put_F f" by (simp add: mask_F_def)
  show ?thesis using FQ by (simp add: e [symmetric] mask_FMS_def and.assoc)
next
  case (FMQ xf f xm m q str)
  assume "fires val stash r"
  with FMQ have e: "val AND 0x0fff0ff0 = put_XF xf + put_XM xm + put_F f + put_M m"
    by (simp add: mask_FM_def)
  show ?thesis using FMQ by (simp add: e [symmetric] mask_FMS_def and.assoc)
next
  case (FMSQ xf f xm m s q str)
  assume "fires val stash r"
  with FMSQ show ?thesis by simp
next
  case (DEFAULT str)
  then show ?thesis by simp
qed

lemma synth_chain_skip:
  assumes "list_all (\<lambda>r. \<not> may_fire (mask_FMS val) r) pre"
  shows "synth_chain (pre @ rest) val stash = synth_chain rest val stash"
  using assms by (induction pre) (auto dest: fires_may_fire)


lemma skip_01: "list_all (\<lambda>r. \<not> may_fire 0x000306A9 r) intel_rules_01"
  by (simp add: intel_rules_01_def mask_defs)
lemma skip_02: "list_all (\<lambda>r. \<not> may_fire 0x000306A9 r) intel_rules_02"
  by (simp add: intel_rules_02_def mask_defs)
lemma skip_03: "list_all (\<lambda>r. \<not> may_fire 0x000306A9 r) intel_rules_03"
  by (simp add: intel_rules_03_def mask_defs)
lemma skip_04: "list_all (\<lambda>r. \<not> may_fire 0x000306A9 r) intel_rules_04"
  by (simp add: intel_rules_04_def mask_defs)
lemma skip_05: "list_all (\<lambda>r. \<not> may_fire 0x000306A9 r) intel_rules_05"
  by (simp add: intel_rules_05_def mask_defs)
lemma skip_06: "list_all (\<lambda>r. \<not> may_fire 0x000306A9 r) intel_rules_06"
  by (simp add: intel_rules_06_def mask_defs)
lemma skip_07: "list_all (\<lambda>r. \<not> may_fire 0x000306A9 r) (take 47 intel_rules_07)"
  by (simp add: intel_rules_07_def mask_defs)

lemma decode_synth_intel_ivy:
  assumes fms: "mask_FMS val = val_FMS 0 6 3 10 9"
  shows "decode_synth_intel val stash =
     Some (if query stash Mc
             then ''Intel Mobile Core i*-3000 (Ivy Bridge E1/L1) / Pentium 900/1000/2000/2100 (P0)''
           else if query stash dc then ''Intel Core i*-3000 (Ivy Bridge E1/N0/L1)''
           else if query stash sX
             then ''Intel Xeon E3-1100 v2 / E3-1200 v2 (Ivy Bridge E1/N0/L1)''
           else if query stash dP
             then ''Intel Pentium G1600/G2000/G2100 / Pentium B925C (Ivy Bridge P0)''
           else ''Intel Core (unknown type) (Ivy Bridge E1/N0/L1/P0)'')"
proof -
  have f: "mask_FMS val = 0x000306A9" using fms by (simp add: val_FMS_def mask_defs)
  let ?tail = "intel_rules_08 @ intel_rules_09 @ intel_rules_10 @ intel_rules_11
                 @ intel_rules_12 @ intel_rules_13"
  have "decode_synth_intel val stash = synth_chain (intel_rules_07 @ ?tail) val stash"
    unfolding decode_synth_intel_def intel_rules_def
    using skip_01 skip_02 skip_03 skip_04 skip_05 skip_06
    by (simp add: synth_chain_skip f)
  also have "\<dots> = synth_chain (take 47 intel_rules_07 @ drop 47 intel_rules_07 @ ?tail)
                        val stash"
    by (simp only: append_assoc [symmetric] append_take_drop_id)
  also have "\<dots> = synth_chain (drop 47 intel_rules_07 @ ?tail) val stash"
    using skip_07 by (simp only: synth_chain_skip f)
  also have "\<dots> = Some (if query stash Mc
             then ''Intel Mobile Core i*-3000 (Ivy Bridge E1/L1) / Pentium 900/1000/2000/2100 (P0)''
           else if query stash dc then ''Intel Core i*-3000 (Ivy Bridge E1/N0/L1)''
           else if query stash sX
             then ''Intel Xeon E3-1100 v2 / E3-1200 v2 (Ivy Bridge E1/N0/L1)''
           else if query stash dP
             then ''Intel Pentium G1600/G2000/G2100 / Pentium B925C (Ivy Bridge P0)''
           else ''Intel Core (unknown type) (Ivy Bridge E1/N0/L1/P0)'')"
    by (simp add: intel_rules_07_def intel_rules_08_def f put_XF_def put_XM_def put_F_def
          put_M_def put_S_def)
  finally show ?thesis .
qed

text \<open>
  C5, amended: for every signature with family 6, model 0x3A and stepping 9 (whatever
  the other bits of leaf-1 EAX and whatever the stash), no rule before the Ivy Bridge
  group fires and the result is decided inside the stepping-9 rules: the string of the
  stepping-9 "Mobile Core i*-3000" rule when the query Mc holds, then those of dc, sX and
  dP, and "Intel Core (unknown type) (Ivy Bridge E1/N0/L1/P0)" when no query holds. The
  rules for any stepping, among them the family rule "Intel Mobile Core i*-3000 (Ivy
  Bridge) / ...", are never reached.
\<close>

theorem ivy_bridge_stepping_9:
  assumes fms: "mask_FMS val = val_FMS 0 6 3 10 9"
  shows "decode_synth_intel val stash =
     Some (if query stash Mc
             then ''Intel Mobile Core i*-3000 (Ivy Bridge E1/L1) / Pentium 900/1000/2000/2100 (P0)''
           else if query stash dc then ''Intel Core i*-3000 (Ivy Bridge E1/N0/L1)''
           else if query stash sX
             then ''Intel Xeon E3-1100 v2 / E3-1200 v2 (Ivy Bridge E1/N0/L1)''
           else if query stash dP
             then ''Intel Pentium G1600/G2000/G2100 / Pentium B925C (Ivy Bridge P0)''
           else ''Intel Core (unknown type) (Ivy Bridge E1/N0/L1/P0)'')"
  using fms by (rule decode_synth_intel_ivy)

theorem ivy_bridge_stepping_9_witness:
  "decode_synth_intel 0x000306A9 (Some ex_stash_ivy_mobile)
     = Some ''Intel Mobile Core i*-3000 (Ivy Bridge E1/L1) / Pentium 900/1000/2000/2100 (P0)''"
proof -
  have "mask_FMS 0x000306A9 = val_FMS 0 6 3 10 9"
    by (simp add: val_FMS_def mask_defs)
  from ivy_bridge_stepping_9 [OF this, of "Some ex_stash_ivy_mobile"] show ?thesis
    by (simp add: query_def Mc_def is_intel_def is_mobile_def ex_stash_ivy_mobile_def
          ex_stash_ivy_def NIL_STASH_def NIL_BR_def)
qed

text \<open>
  C5 as the claim states it fails: for the Intel stash with signature 0x000306A9 and no
  query holding ("no disambiguating predicate"), the result is the string of the
  stepping-9 rule without a query, which is neither of the two "Mobile Core i*-3000"
  strings of the Ivy Bridge group.
\<close>

theorem ivy_bridge_plain_counterexample:
  "decode_synth_intel 0x000306A9 (Some ex_stash_ivy)
     = Some ''Intel Core (unknown type) (Ivy Bridge E1/N0/L1/P0)''
   \<and> decode_synth_intel 0x000306A9 (Some ex_stash_ivy)
     \<noteq> Some ''Intel Mobile Core i*-3000 (Ivy Bridge) / Pentium 900/1000/2000/2100''
   \<and> decode_synth_intel 0x000306A9 (Some ex_stash_ivy)
     \<noteq> Some ''Intel Mobile Core i*-3000 (Ivy Bridge E1/L1) / Pentium 900/1000/2000/2100 (P0)''"
proof -
  have fms: "mask_FMS 0x000306A9 = val_FMS 0 6 3 10 9"
    by (simp add: val_FMS_def mask_defs)
  have "decode_synth_intel 0x000306A9 (Some ex_stash_ivy)
          = Some ''Intel Core (unknown type) (Ivy Bridge E1/N0/L1/P0)''"
    unfolding decode_synth_intel_ivy [OF fms]
    by (simp add: query_def Mc_def dc_def sX_def dP_def is_intel_def is_mobile_def
          ex_stash_ivy_def NIL_STASH_def NIL_BR_def NIL_BRI_def)
  then show ?thesis by simp
qed

section \<open>Properties of the AMD brand reconstruction\<close>

lemmas bit_extract_defs = BIT_EXTRACT_LE_def RIGHTMASK_def POWER2_def BPI_def
lemmas amd_key_defs = PKGTYPE_def CMPCAP_def BTI_def PWRLMT_def NC_def PG_def STR1_def STR2_def
  XX_k8_def YY_k8_def ZZ_k8_def TT_k8_def RR_k8_def EE_k8_def
  RR_npt_def PP_npt_def TT_npt_def ZZ_npt_def YY_npt_def

lemma fmt_02d_examples: "fmt_02d 34 = ''34''" "fmt_02d 53 = ''53''" "fmt_02d 5 = ''05''" "fmt_02d (-1) = ''-1''" "fmt_02d 127 = ''127''"
  by (simp_all add: fmt_02d_def)

lemma ex_stash_amd_k8_model: "decode_amd_model (Some ex_stash_amd_k8) = (Some ''AMD Athlon(tm) 64'', None, ''Processor 3400+'')"
  by (simp add: decode_amd_model_def ex_stash_amd_k8_def NIL_STASH_def mask_defs bit_extract_defs
     switch_case_def k8_cases_def amd_key_defs fmt_02d_def)
lemma ex_stash_amd_fx_model: "decode_amd_model (Some ex_stash_amd_fx) = (Some ''AMD Athlon(tm) 64'', Some ''Dual Core'', ''FX-53'')"
  by (simp add: decode_amd_model_def ex_stash_amd_fx_def NIL_STASH_def mask_defs bit_extract_defs
     switch_case_def k8_cases_def amd_key_defs fmt_02d_def)
lemma ex_stash_amd_zen_model: "decode_amd_model (Some ex_stash_amd_zen) = (None, None, [])"
  by (simp add: decode_amd_model_def ex_stash_amd_zen_def NIL_STASH_def mask_defs bit_extract_defs)
lemma model_unknown_found: "strstr_found ''AMD Processor model unknown'' ''model unknown''"
  by (simp add: strstr_found_def sublist_code)

lemma amd_rules_default: "DEFAULT ''unknown'' \<in> set amd_rules"
  by (simp add: amd_rules_def amd_rules_13_def)

lemma decode_synth_amd_earliest:
  "\<exists>k<length amd_rules. fires val stash (amd_rules ! k)
      \<and> (\<forall>l<k. \<not> fires val stash (amd_rules ! l))
      \<and> synth_chain amd_rules val stash = Some (act (amd_rules ! k))"
  by (rule chain_with_default [OF amd_rules_default])
lemma amd_chain_some: "\<exists>base. synth_chain amd_rules val stash = Some base"
proof -
  have "fires val stash (DEFAULT ''unknown'')" by simp
  with amd_rules_default have "synth_chain amd_rules val stash \<noteq> None"
    unfolding synth_chain_none_iff by blast
  then show ?thesis by auto
qed

text \<open>
  C8: the chain of \<^verbatim>\<open>decode_synth_amd\<close> always yields a base string (its last rule is
  \<^verbatim>\<open>DEFAULT\<close>); when \<^verbatim>\<open>decode_amd_model\<close> produces a non-empty processor number, the result
  is the base string, a space and the processor number, and otherwise the base string
  itself: the base string is kept in both cases.
\<close>

theorem decode_synth_amd_appends:
  assumes "decode_amd_model stash = (brand_pre, brand_post, proc)"
  shows "\<exists>base. synth_chain amd_rules val stash = Some base
            \<and> decode_synth_amd val stash
                = Some (if proc \<noteq> [] then base @ '' '' @ proc else base)"
proof -
  from amd_chain_some obtain base where b: "synth_chain amd_rules val stash = Some base"
    by blast
  with assms show ?thesis
    by (simp add: decode_synth_amd_def fmt_s_def)
qed

lemma ex_stash_amd_k8_base:
  "synth_chain amd_rules 0x00000F48 (Some ex_stash_amd_k8)
     = Some ''AMD Athlon 64 (unknown type) (SledgeHammer SH7-C0)''"
  by (simp add: amd_rules_def amd_rules_01_def amd_rules_02_def amd_rules_03_def mask_defs
        query_def MX_def MA_def dA_def is_amd_def is_mobile_def ex_stash_amd_k8_def
        NIL_STASH_def NIL_BR_def)

theorem decode_synth_amd_appends_witness:
  "decode_synth_amd 0x00000F48 (Some ex_stash_amd_k8)
     = Some ''AMD Athlon 64 (unknown type) (SledgeHammer SH7-C0) Processor 3400+''"
  using decode_synth_amd_appends [OF ex_stash_amd_k8_model, of "0x00000F48"] ex_stash_amd_k8_base
  by simp

lemma override_brand_cases:
  "decode_override_brand stash =
     (if (vendor stash = VENDOR_AMD \<or> vendor stash = VENDOR_HYGON)
         \<and> strstr_found (brand stash) ''model unknown''
      then
        (case decode_amd_model (Some stash) of
           (None, brand_post, proc) \<Rightarrow> stash
         | (Some brand_pre, brand_post, proc) \<Rightarrow>
             stash\<lparr>override_brand :=
               brand_pre @ '' '' @ proc
                 @ (case brand_post of None \<Rightarrow> [] | Some p \<Rightarrow> '' '' @ p)\<rparr>)
      else stash)"
  by (simp add: decode_override_brand_def)

lemma decode_brand_id_stash_keeps:
  "override_brand (decode_brand_id_stash s) = override_brand s"
  "brand (decode_brand_id_stash s) = brand s"
  by (simp_all add: decode_brand_id_stash_def Let_def)

lemma br_decode_brand_string:
  "br (decode_brand_string strregexp b s) = br (decode_brand_string strregexp b s')"
  by (simp add: decode_brand_string_def)

lemma br_do_final_brand:
  "br (do_final_brand strregexp stash)
     = br (decode_brand_string strregexp
             (if override_brand (decode_override_brand stash) \<noteq> []
              then override_brand (decode_override_brand stash)
              else brand (decode_override_brand stash)) stash)"
  unfolding do_final_brand_def decode_brand_stash_def decode_brand_id_stash_keeps
  by (auto intro: br_decode_brand_string)

lemma brand_decode_override_brand: "brand (decode_override_brand stash) = brand stash"
  by (simp add: decode_override_brand_def split: option.splits prod.splits)

text \<open>
  C4, amended: for an AMD or Hygon stash whose brand string holds "model unknown" (and
  whose override brand is still empty, as it is when \<^verbatim>\<open>do_final\<close> starts): when
  \<^verbatim>\<open>decode_amd_model\<close> resolves a brand prefix, the override brand is the prefix, a space,
  the processor number and, for a resolved suffix, a space and the suffix; it is not
  empty, and the brand flags after the brand steps of \<^verbatim>\<open>do_final\<close> are those of the
  override brand. When no prefix is resolved, the override brand stays empty and the
  brand flags are those of the captured brand string.
\<close>

theorem override_brand_formatted:
  assumes "vendor stash = VENDOR_AMD \<or> vendor stash = VENDOR_HYGON"
    and "strstr_found (brand stash) ''model unknown''"
    and "override_brand stash = []"
  shows
    "case decode_amd_model (Some stash) of
       (Some brand_pre, brand_post, proc) \<Rightarrow>
         override_brand (decode_override_brand stash)
           = brand_pre @ '' '' @ proc
               @ (case brand_post of None \<Rightarrow> [] | Some p \<Rightarrow> '' '' @ p)
         \<and> override_brand (decode_override_brand stash) \<noteq> []
         \<and> br (do_final_brand strregexp stash)
             = br (decode_brand_string strregexp
                     (override_brand (decode_override_brand stash)) stash)
     | (None, brand_post, proc) \<Rightarrow>
         override_brand (decode_override_brand stash) = []
         \<and> br (do_final_brand strregexp stash)
             = br (decode_brand_string strregexp (brand stash) stash)"
proof (cases "decode_amd_model (Some stash)")
  case (fields pre post proc)
  show ?thesis
  proof (cases pre)
    case None
    with fields assms have same: "decode_override_brand stash = stash"
      by (simp add: decode_override_brand_def)
    show ?thesis
      using fields None assms(3)
      by (simp add: br_do_final_brand same)
  next
    case (Some brand_pre)
    with fields assms have
      ob: "override_brand (decode_override_brand stash)
             = brand_pre @ '' '' @ proc
                 @ (case post of None \<Rightarrow> [] | Some p \<Rightarrow> '' '' @ p)"
      by (simp add: decode_override_brand_def)
    then have ne: "override_brand (decode_override_brand stash) \<noteq> []" by simp
    show ?thesis
      using fields Some ob ne by (simp add: br_do_final_brand)
  qed
qed

theorem override_brand_formatted_witness:
  "override_brand (decode_override_brand ex_stash_amd_fx) = ''AMD Athlon(tm) 64 FX-53 Dual Core''
   \<and> athlon_fx (br (do_final_brand no_regexp ex_stash_amd_fx))
   \<and> br_cores (br (do_final_brand no_regexp ex_stash_amd_fx)) = 2"
proof -
  have v: "vendor ex_stash_amd_fx = VENDOR_AMD \<or> vendor ex_stash_amd_fx = VENDOR_HYGON"
    by (simp add: ex_stash_amd_fx_def)
  have b: "strstr_found (brand ex_stash_amd_fx) ''model unknown''"
    using model_unknown_found by (simp add: ex_stash_amd_fx_def)
  have e: "override_brand ex_stash_amd_fx = []"
    by (simp add: ex_stash_amd_fx_def NIL_STASH_def)
  from override_brand_formatted [OF v b e, of no_regexp] ex_stash_amd_fx_model
  have o: "override_brand (decode_override_brand ex_stash_amd_fx)
             = ''AMD Athlon(tm) 64 FX-53 Dual Core''"
    and d: "br (do_final_brand no_regexp ex_stash_amd_fx)
             = br (decode_brand_string no_regexp
                     (override_brand (decode_override_brand ex_stash_amd_fx)) ex_stash_amd_fx)"
    by simp_all
  show ?thesis
    unfolding d unfolding o
    by (simp add: decode_brand_string_def strstr_found_def sublist_code)
qed

text \<open>
  C4 as the claim states it fails: an AMD stash of Family 17h whose brand string holds
  "model unknown" gets no override brand, since \<^verbatim>\<open>decode_amd_model\<close> has tables only for
  Family 0Fh, 10h, 11h, 12h and 14h; its brand flags come from the captured string.
\<close>

theorem override_brand_empty_counterexample:
  "vendor ex_stash_amd_zen = VENDOR_AMD
   \<and> strstr_found (brand ex_stash_amd_zen) ''model unknown''
   \<and> override_brand (decode_override_brand ex_stash_amd_zen) = []
   \<and> br (do_final_brand no_regexp ex_stash_amd_zen)
       = br (decode_brand_string no_regexp ''AMD Processor model unknown'' ex_stash_amd_zen)"
  using model_unknown_found ex_stash_amd_zen_model
  by (simp add: br_do_final_brand decode_override_brand_def ex_stash_amd_zen_def NIL_STASH_def)
section \<open>First match in the decoders\<close>

text \<open>
  The tables of the decoders that take no stash hold no rule with a query, so their
  chains give the same result with any stash.
\<close>

lemma chain_without_query:
  "synth_chain via_rules val stash = synth_chain via_rules val None"
  "synth_chain umc_rules val stash = synth_chain umc_rules val None"
  "synth_chain nexgen_rules val stash = synth_chain nexgen_rules val None"
  "synth_chain rise_rules val stash = synth_chain rise_rules val None"
  "synth_chain sis_rules val stash = synth_chain sis_rules val None"
  "synth_chain nsc_rules val stash = synth_chain nsc_rules val None"
  "synth_chain vortex_rules val stash = synth_chain vortex_rules val None"
  "synth_chain rdc_rules val stash = synth_chain rdc_rules val None"
  "synth_chain hygon_rules val stash = synth_chain hygon_rules val None"
  "synth_chain zhaoxin_rules val stash = synth_chain zhaoxin_rules val None"
  by (simp_all add: via_rules_def umc_rules_def nexgen_rules_def rise_rules_def sis_rules_def
        nsc_rules_def vortex_rules_def rdc_rules_def hygon_rules_def zhaoxin_rules_def)

lemma decode_synth_switch_chain:
  assumes "v \<noteq> VENDOR_AMD"
  shows "decode_synth_switch val v stash = synth_chain (vendor_rules v) val stash"
  using assms
  by (cases v)
    (simp_all add: decode_synth_switch_def decode_synth_intel_def decode_synth_cyrix_def
       decode_synth_via_def decode_synth_transmeta_def decode_synth_umc_def
       decode_synth_nexgen_def decode_synth_rise_def decode_synth_sis_def decode_synth_nsc_def
       decode_synth_vortex_def decode_synth_rdc_def decode_synth_hygon_def
       decode_synth_zhaoxin_def chain_without_query [of val stash])

lemma decode_synth_amd_chain:
  assumes "synth_chain amd_rules val stash = Some base"
  shows "decode_synth_amd val stash = Some (base @ proc_suffix stash)"
  using assms by (simp add: decode_synth_amd_def proc_suffix_def fmt_s_def split: prod.splits)

lemma decode_synth_switch_amd:
  "decode_synth_switch val VENDOR_AMD stash = decode_synth_amd val stash"
  by (simp add: decode_synth_switch_def)

text \<open>Positions in the Intel and AMD tables, and the AMD example.\<close>

lemma intel_chunk_lengths:
  "length intel_rules_01 = 50" "length intel_rules_02 = 50" "length intel_rules_03 = 50"
  "length intel_rules_04 = 50" "length intel_rules_05 = 50" "length intel_rules_06 = 50"
  "length intel_rules_07 = 50" "length intel_rules_08 = 50" "length intel_rules_09 = 50"
  "length intel_rules_10 = 50" "length intel_rules_11 = 50" "length intel_rules_12 = 50"
  "length intel_rules_13 = 50"
  by (simp_all add: intel_rules_01_def intel_rules_02_def intel_rules_03_def intel_rules_04_def
        intel_rules_05_def intel_rules_06_def intel_rules_07_def intel_rules_08_def
        intel_rules_09_def intel_rules_10_def intel_rules_11_def intel_rules_12_def
        intel_rules_13_def)

lemma amd_chunk_lengths:
  "length amd_rules_01 = 50" "length amd_rules_02 = 50" "length amd_rules_03 = 50"
  "length amd_rules_04 = 50" "length amd_rules_05 = 50" "length amd_rules_06 = 50"
  "length amd_rules_07 = 50" "length amd_rules_08 = 50" "length amd_rules_09 = 50"
  "length amd_rules_10 = 50" "length amd_rules_11 = 50" "length amd_rules_12 = 50"
  "length amd_rules_13 = 48"
  by (simp_all add: amd_rules_01_def amd_rules_02_def amd_rules_03_def amd_rules_04_def
        amd_rules_05_def amd_rules_06_def amd_rules_07_def amd_rules_08_def
        amd_rules_09_def amd_rules_10_def amd_rules_11_def amd_rules_12_def
        amd_rules_13_def)

lemma intel_rules_ivy:
  "length intel_rules = 650"
  "intel_rules ! 351 = FMS 0 6 3 10 9 ''Intel Core (unknown type) (Ivy Bridge E1/N0/L1/P0)''"
  "intel_rules ! 356 = FM 0 6 3 10 ''Intel Core (unknown type) (Ivy Bridge)''"
  by (simp_all add: intel_rules_def nth_append intel_chunk_lengths intel_rules_08_def)

lemma amd_rules_k8:
  "length amd_rules = 648"
  "amd_rules ! 112 = FMS 0 15 0 4 8 ''AMD Athlon 64 (unknown type) (SledgeHammer SH7-C0)''"
  "amd_rules ! 120 = FM 0 15 0 4 ''AMD Athlon 64 (unknown type) (SledgeHammer SH7)''"
  by (simp_all add: amd_rules_def nth_append amd_chunk_lengths amd_rules_03_def)

lemma ex_stash_amd_k8_find:
  "find (fires 0x00000F48 (Some ex_stash_amd_k8)) amd_rules
     = Some (FMS 0 15 0 4 8 ''AMD Athlon 64 (unknown type) (SledgeHammer SH7-C0)'')"
  by (simp add: amd_rules_def amd_rules_01_def amd_rules_02_def amd_rules_03_def mask_defs
        query_def MX_def MA_def dA_def is_amd_def is_mobile_def ex_stash_amd_k8_def
        NIL_STASH_def NIL_BR_def)

lemma ex_stash_amd_k8_decoded:
  "decode_synth_amd 0x00000F48 (Some ex_stash_amd_k8)
     = Some ''AMD Athlon 64 (unknown type) (SledgeHammer SH7-C0) Processor 3400+''"
  using ex_stash_amd_k8_base ex_stash_amd_k8_model
  by (simp add: decode_synth_amd_def fmt_s_def)

text \<open>
  C1, amended: for every vendor, signature and stash, when two rules of the vendor's
  table both fire, some rule at or before the earlier of the two is the earliest rule
  that fires, the rules standing after it in the table have no effect on the chain, and
  the vendor's decoder returns the string of that rule: for every vendor but AMD the
  \<^verbatim>\<open>switch\<close> of \<^verbatim>\<open>decode_synth\<close> gets exactly that string (so for \<^verbatim>\<open>decode_synth_intel\<close> and
  the Intel table), and for AMD \<^verbatim>\<open>decode_synth_amd\<close> returns that string followed by what
  it appends, a space and the processor number of \<^verbatim>\<open>decode_amd_model\<close> when that is not
  empty.
\<close>

theorem decoder_first_match_wins:
  assumes "i < j" and "j < length (vendor_rules v)"
    and "fires val stash (vendor_rules v ! i)" and "fires val stash (vendor_rules v ! j)"
  shows "\<exists>k\<le>i. fires val stash (vendor_rules v ! k)
           \<and> (\<forall>l<k. \<not> fires val stash (vendor_rules v ! l))
           \<and> (\<forall>later. synth_chain (take (Suc k) (vendor_rules v) @ later) val stash
                          = Some (act (vendor_rules v ! k)))
           \<and> decode_synth_switch val v stash
               = Some (act (vendor_rules v ! k)
                         @ (if v = VENDOR_AMD then proc_suffix stash else []))
           \<and> (v = VENDOR_INTEL \<longrightarrow>
                 decode_synth_intel val stash = Some (act (intel_rules ! k)))
           \<and> (v = VENDOR_AMD \<longrightarrow>
                 decode_synth_amd val stash = Some (act (amd_rules ! k) @ proc_suffix stash))"
proof -
  from synth_chain_first_match [OF assms] obtain k where
    k: "k \<le> i" "fires val stash (vendor_rules v ! k)"
      "\<forall>l<k. \<not> fires val stash (vendor_rules v ! l)"
      "synth_chain (vendor_rules v) val stash = Some (act (vendor_rules v ! k))"
      "\<forall>later. synth_chain (take (Suc k) (vendor_rules v) @ later) val stash
                   = Some (act (vendor_rules v ! k))"
    by blast
  have sw: "decode_synth_switch val v stash
              = Some (act (vendor_rules v ! k)
                        @ (if v = VENDOR_AMD then proc_suffix stash else []))"
  proof (cases "v = VENDOR_AMD")
    case True
    with k(4) have "synth_chain amd_rules val stash = Some (act (vendor_rules v ! k))" by simp
    from decode_synth_amd_chain [OF this] True show ?thesis
      by (simp add: decode_synth_switch_amd)
  next
    case False
    with k(4) show ?thesis by (simp add: decode_synth_switch_chain)
  qed
  have intel: "decode_synth_intel val stash = Some (act (intel_rules ! k))"
    if "v = VENDOR_INTEL"
    using that k(4) by (simp add: decode_synth_intel_def)
  have amd: "decode_synth_amd val stash = Some (act (amd_rules ! k) @ proc_suffix stash)"
    if "v = VENDOR_AMD"
  proof -
    from that k(4) have "synth_chain amd_rules val stash = Some (act (amd_rules ! k))" by simp
    then show ?thesis by (rule decode_synth_amd_chain)
  qed
  from k(1,2,3,5) sw intel amd show ?thesis by blast
qed


text \<open>
  The theorem at the Intel signature 0x000306A9 (rules 351 and 356 of the Intel table
  fire) and at the AMD signature 0x00000F48 (rules 112 and 120 of the AMD table fire).
\<close>

theorem decoder_first_match_wins_witness:
  "((351::nat) < 356 \<and> 356 < length (vendor_rules VENDOR_INTEL)
      \<and> fires 0x000306A9 (Some ex_stash_ivy) (vendor_rules VENDOR_INTEL ! 351)
      \<and> fires 0x000306A9 (Some ex_stash_ivy) (vendor_rules VENDOR_INTEL ! 356))
   \<and> (\<exists>k\<le>351. fires 0x000306A9 (Some ex_stash_ivy) (intel_rules ! k)
         \<and> act (intel_rules ! k) = ''Intel Core (unknown type) (Ivy Bridge E1/N0/L1/P0)''
         \<and> decode_synth_intel 0x000306A9 (Some ex_stash_ivy) = Some (act (intel_rules ! k))
         \<and> decode_synth_switch 0x000306A9 VENDOR_INTEL (Some ex_stash_ivy)
             = Some (act (intel_rules ! k)))
   \<and> ((112::nat) < 120 \<and> 120 < length (vendor_rules VENDOR_AMD)
      \<and> fires 0x00000F48 (Some ex_stash_amd_k8) (vendor_rules VENDOR_AMD ! 112)
      \<and> fires 0x00000F48 (Some ex_stash_amd_k8) (vendor_rules VENDOR_AMD ! 120))
   \<and> (\<exists>k\<le>112. fires 0x00000F48 (Some ex_stash_amd_k8) (amd_rules ! k)
         \<and> act (amd_rules ! k) = ''AMD Athlon 64 (unknown type) (SledgeHammer SH7-C0)''
         \<and> decode_synth_amd 0x00000F48 (Some ex_stash_amd_k8)
             = Some (act (amd_rules ! k) @ '' Processor 3400+'')
         \<and> decode_synth_switch 0x00000F48 VENDOR_AMD (Some ex_stash_amd_k8)
             = Some (act (amd_rules ! k) @ '' Processor 3400+''))"
proof -
  have hi: "(351::nat) < 356" "356 < length (vendor_rules VENDOR_INTEL)"
    "fires 0x000306A9 (Some ex_stash_ivy) (vendor_rules VENDOR_INTEL ! 351)"
    "fires 0x000306A9 (Some ex_stash_ivy) (vendor_rules VENDOR_INTEL ! 356)"
    by (simp_all add: intel_rules_ivy mask_defs)
  have ha: "(112::nat) < 120" "120 < length (vendor_rules VENDOR_AMD)"
    "fires 0x00000F48 (Some ex_stash_amd_k8) (vendor_rules VENDOR_AMD ! 112)"
    "fires 0x00000F48 (Some ex_stash_amd_k8) (vendor_rules VENDOR_AMD ! 120)"
    by (simp_all add: amd_rules_k8 mask_defs)
  have fms: "mask_FMS 0x000306A9 = val_FMS 0 6 3 10 9"
    by (simp add: val_FMS_def mask_defs)
  have ri: "decode_synth_intel 0x000306A9 (Some ex_stash_ivy)
          = Some ''Intel Core (unknown type) (Ivy Bridge E1/N0/L1/P0)''"
    unfolding decode_synth_intel_ivy [OF fms]
    by (simp add: query_def Mc_def dc_def sX_def dP_def is_intel_def is_mobile_def
          ex_stash_ivy_def NIL_STASH_def NIL_BR_def NIL_BRI_def)
  have sa: "proc_suffix (Some ex_stash_amd_k8) = '' Processor 3400+''"
    by (simp add: proc_suffix_def ex_stash_amd_k8_model)
  from decoder_first_match_wins [OF hi] obtain k where
    k: "k \<le> 351" "fires 0x000306A9 (Some ex_stash_ivy) (intel_rules ! k)"
      "decode_synth_switch 0x000306A9 VENDOR_INTEL (Some ex_stash_ivy)
         = Some (act (intel_rules ! k))"
      "decode_synth_intel 0x000306A9 (Some ex_stash_ivy) = Some (act (intel_rules ! k))"
    by auto
  from k(4) ri have "act (intel_rules ! k) = ''Intel Core (unknown type) (Ivy Bridge E1/N0/L1/P0)''"
    by simp
  with k have ci: "\<exists>k\<le>351. fires 0x000306A9 (Some ex_stash_ivy) (intel_rules ! k)
         \<and> act (intel_rules ! k) = ''Intel Core (unknown type) (Ivy Bridge E1/N0/L1/P0)''
         \<and> decode_synth_intel 0x000306A9 (Some ex_stash_ivy) = Some (act (intel_rules ! k))
         \<and> decode_synth_switch 0x000306A9 VENDOR_INTEL (Some ex_stash_ivy)
             = Some (act (intel_rules ! k))"
    by blast
  from decoder_first_match_wins [OF ha] obtain m where
    m: "m \<le> 112" "fires 0x00000F48 (Some ex_stash_amd_k8) (amd_rules ! m)"
      "decode_synth_switch 0x00000F48 VENDOR_AMD (Some ex_stash_amd_k8)
         = Some (act (amd_rules ! m) @ '' Processor 3400+'')"
      "decode_synth_amd 0x00000F48 (Some ex_stash_amd_k8)
         = Some (act (amd_rules ! m) @ '' Processor 3400+'')"
    by (auto simp add: sa)
  from m(4) ex_stash_amd_k8_decoded
  have "act (amd_rules ! m) = ''AMD Athlon 64 (unknown type) (SledgeHammer SH7-C0)''"
    by simp
  with m have ca: "\<exists>k\<le>112. fires 0x00000F48 (Some ex_stash_amd_k8) (amd_rules ! k)
         \<and> act (amd_rules ! k) = ''AMD Athlon 64 (unknown type) (SledgeHammer SH7-C0)''
         \<and> decode_synth_amd 0x00000F48 (Some ex_stash_amd_k8)
             = Some (act (amd_rules ! k) @ '' Processor 3400+'')
         \<and> decode_synth_switch 0x00000F48 VENDOR_AMD (Some ex_stash_amd_k8)
             = Some (act (amd_rules ! k) @ '' Processor 3400+'')"
    by blast
  from hi ci ha ca show ?thesis by (intro conjI) assumption+
qed

text \<open>
  C1 as the claim states it fails for the AMD decoder: with the signature 0x00000F48
  and the stash \<open>ex_stash_amd_k8\<close>, rule 112 of the AMD table, \<^verbatim>\<open>FMS(0,15, 0,4, 8, ...)\<close>,
  and rule 120, \<^verbatim>\<open>FM(0,15, 0,4, ...)\<close>, both fire and rule 112 is the earliest rule that
  fires, but \<^verbatim>\<open>decode_synth_amd\<close> returns the string of rule 112 followed by
  " Processor 3400+", which is not the string of that rule.
\<close>

theorem decode_synth_amd_suffix_counterexample:
  "fires 0x00000F48 (Some ex_stash_amd_k8) (amd_rules ! 112)
   \<and> fires 0x00000F48 (Some ex_stash_amd_k8) (amd_rules ! 120)
   \<and> find (fires 0x00000F48 (Some ex_stash_amd_k8)) amd_rules = Some (amd_rules ! 112)
   \<and> act (amd_rules ! 112) = ''AMD Athlon 64 (unknown type) (SledgeHammer SH7-C0)''
   \<and> decode_synth_amd 0x00000F48 (Some ex_stash_amd_k8)
       = Some ''AMD Athlon 64 (unknown type) (SledgeHammer SH7-C0) Processor 3400+''
   \<and> decode_synth_amd 0x00000F48 (Some ex_stash_amd_k8) \<noteq> Some (act (amd_rules ! 112))
   \<and> decode_synth_switch 0x00000F48 VENDOR_AMD (Some ex_stash_amd_k8)
       \<noteq> Some (act (amd_rules ! 112))"
proof -
  have f: "fires 0x00000F48 (Some ex_stash_amd_k8) (amd_rules ! 112)"
    "fires 0x00000F48 (Some ex_stash_amd_k8) (amd_rules ! 120)"
    by (simp_all add: amd_rules_k8 mask_defs)
  have e: "find (fires 0x00000F48 (Some ex_stash_amd_k8)) amd_rules = Some (amd_rules ! 112)"
    by (simp only: ex_stash_amd_k8_find amd_rules_k8)
  have a: "act (amd_rules ! 112) = ''AMD Athlon 64 (unknown type) (SledgeHammer SH7-C0)''"
    by (simp add: amd_rules_k8)
  have n: "decode_synth_amd 0x00000F48 (Some ex_stash_amd_k8) \<noteq> Some (act (amd_rules ! 112))"
    by (simp add: ex_stash_amd_k8_decoded a)
  then have s: "decode_synth_switch 0x00000F48 VENDOR_AMD (Some ex_stash_amd_k8)
       \<noteq> Some (act (amd_rules ! 112))"
    by (simp add: decode_synth_switch_amd)
  from f e a ex_stash_amd_k8_decoded n s show ?thesis by (intro conjI) assumption+
qed

end
